theory Spec2Isabelle
  imports Main "HOL-Library.Word" "HOL-Library.Sublist"
begin

section \<open>Data model\<close>

text \<open>
  The program keeps three global tables \<^verbatim>\<open>std::map<int, std::wstring>\<close>
  (\<^verbatim>\<open>g_mWU\<close>, \<^verbatim>\<open>g_mLDAP\<close>, \<^verbatim>\<open>g_mBugCheck\<close>).  An \<^verbatim>\<open>int\<close> is a
  32-bit machine integer and a \<^verbatim>\<open>wchar_t\<close> a 16-bit code unit.
\<close>

type_synonym int32 = "32 word"
type_synonym wchar_t = "16 word"
type_synonym wstring = "wchar_t list"
type_synonym codemap = "int32 \<rightharpoonup> wstring"

text \<open>A wide string literal \<^verbatim>\<open>L"..."\<close> of printable ASCII text.\<close>

definition L :: "string \<Rightarrow> wstring" where
  "L s = map (\<lambda>c. of_nat (of_char c)) s"

text \<open>The escape sequence \<^verbatim>\<open>\r\n\<close> and the single characters \<^verbatim>\<open>\n\<close>, \<^verbatim>\<open>\t\<close>.\<close>

definition CRLF :: wstring where
  "CRLF = [0x0D, 0x0A]"

definition LF :: wstring where
  "LF = [0x0A]"

definition TAB :: wstring where
  "TAB = [0x09]"

subsection \<open>The operations of \<^verbatim>\<open>std::map\<close> that the program uses\<close>

text \<open>\<^verbatim>\<open>m.count(k)\<close>: the number of entries with key \<open>k\<close>, 0 or 1.\<close>

definition map_count :: "codemap \<Rightarrow> int32 \<Rightarrow> nat" where
  "map_count m k = (case m k of None \<Rightarrow> 0 | Some v \<Rightarrow> 1)"

text \<open>
  \<^verbatim>\<open>m[k]\<close>: the value stored under \<open>k\<close>; when there is none, an empty string is
  inserted under \<open>k\<close> first.  The result is the value read and the map afterwards.
\<close>

definition map_subscript :: "codemap \<Rightarrow> int32 \<Rightarrow> wstring \<times> codemap" where
  "map_subscript m k = (case m k of None \<Rightarrow> ([], m(k \<mapsto> [])) | Some v \<Rightarrow> (v, m))"

text \<open>\<^verbatim>\<open>m[k] = v;\<close>: subscript, then overwrite the referenced value.\<close>

definition map_assign :: "codemap \<Rightarrow> int32 \<times> wstring \<Rightarrow> codemap" where
  "map_assign m kv = (snd (map_subscript m (fst kv)))(fst kv \<mapsto> snd kv)"

section \<open>The code tables\<close>

text \<open>
  Each of \<^verbatim>\<open>setBugCheckCodes\<close>, \<^verbatim>\<open>setLDAPCodes\<close> and \<^verbatim>\<open>setWUCodes\<close> is a
  straight-line sequence of assignments \<^verbatim>\<open>g_m...[key] = L"text";\<close>.  The
  assignments are listed in source order and run from left to right.
\<close>

definition setBugCheckCodes_assignments :: "(int32 \<times> wstring) list" where
  "setBugCheckCodes_assignments = [
    (0x00000001, L ''APC_INDEX_MISMATCH''),
    (0x00000002, L ''DEVICE_QUEUE_NOT_BUSY''),
    (0x00000003, L ''INVALID_AFFINITY_SET''),
    (0x00000004, L ''INVALID_DATA_ACCESS_TRAP''),
    (0x00000005, L ''INVALID_PROCESS_ATTACH_ATTEMPT''),
    (0x00000006, L ''INVALID_PROCESS_DETACH_ATTEMPT''),
    (0x00000007, L ''INVALID_SOFTWARE_INTERRUPT''),
    (0x00000008, L ''IRQL_NOT_DISPATCH_LEVEL''),
    (0x00000009, L ''IRQL_NOT_GREATER_OR_EQUAL''),
    (0x0000000A, L ''IRQL_NOT_LESS_OR_EQUAL''),
    (0x0000000B, L ''NO_EXCEPTION_HANDLING_SUPPORT''),
    (0x0000000C, L ''MAXIMUM_WAIT_OBJECTS_EXCEEDED''),
    (0x0000000D, L ''MUTEX_LEVEL_NUMBER_VIOLATION''),
    (0x0000000E, L ''NO_USER_MODE_CONTEXT''),
    (0x0000000F, L ''SPIN_LOCK_ALREADY_OWNED''),
    (0x00000010, L ''SPIN_LOCK_NOT_OWNED''),
    (0x00000011, L ''THREAD_NOT_MUTEX_OWNER''),
    (0x00000012, L ''TRAP_CAUSE_UNKNOWN''),
    (0x00000013, L ''EMPTY_THREAD_REAPER_LIST''),
    (0x00000014, L ''CREATE_DELETE_LOCK_NOT_LOCKED''),
    (0x00000015, L ''LAST_CHANCE_CALLED_FROM_KMODE''),
    (0x00000016, L ''CID_HANDLE_CREATION''),
    (0x00000017, L ''CID_HANDLE_DELETION''),
    (0x00000018, L ''REFERENCE_BY_POINTER''),
    (0x00000019, L ''BAD_POOL_HEADER''),
    (0x0000001A, L ''MEMORY_MANAGEMENT''),
    (0x0000001B, L ''PFN_SHARE_COUNT''),
    (0x0000001C, L ''PFN_REFERENCE_COUNT''),
    (0x0000001D, L ''NO_SPIN_LOCK_AVAILABLE''),
    (0x0000001E, L ''KMODE_EXCEPTION_NOT_HANDLED''),
    (0x0000001F, L ''SHARED_RESOURCE_CONV_ERROR''),
    (0x00000020, L ''KERNEL_APC_PENDING_DURING_EXIT''),
    (0x00000021, L ''QUOTA_UNDERFLOW''),
    (0x00000022, L ''FILE_SYSTEM''),
    (0x00000023, L ''FAT_FILE_SYSTEM''),
    (0x00000024, L ''NTFS_FILE_SYSTEM''),
    (0x00000025, L ''NPFS_FILE_SYSTEM''),
    (0x00000026, L ''CDFS_FILE_SYSTEM''),
    (0x00000027, L ''RDR_FILE_SYSTEM''),
    (0x00000028, L ''CORRUPT_ACCESS_TOKEN''),
    (0x00000029, L ''SECURITY_SYSTEM''),
    (0x0000002A, L ''INCONSISTENT_IRP''),
    (0x0000002B, L ''PANIC_STACK_SWITCH''),
    (0x0000002C, L ''PORT_DRIVER_INTERNAL''),
    (0x0000002D, L ''SCSI_DISK_DRIVER_INTERNAL''),
    (0x0000002E, L ''DATA_BUS_ERROR''),
    (0x0000002F, L ''INSTRUCTION_BUS_ERROR''),
    (0x00000030, L ''SET_OF_INVALID_CONTEXT''),
    (0x00000031, L ''PHASE0_INITIALIZATION_FAILED''),
    (0x00000032, L ''PHASE1_INITIALIZATION_FAILED''),
    (0x00000033, L ''UNEXPECTED_INITIALIZATION_CALL''),
    (0x00000034, L ''CACHE_MANAGER''),
    (0x00000035, L ''NO_MORE_IRP_STACK_LOCATIONS''),
    (0x00000036, L ''DEVICE_REFERENCE_COUNT_NOT_ZERO''),
    (0x00000037, L ''FLOPPY_INTERNAL_ERROR''),
    (0x00000038, L ''SERIAL_DRIVER_INTERNAL''),
    (0x00000039, L ''SYSTEM_EXIT_OWNED_MUTEX''),
    (0x0000003A, L ''SYSTEM_UNWIND_PREVIOUS_USER''),
    (0x0000003B, L ''SYSTEM_SERVICE_EXCEPTION''),
    (0x0000003C, L ''INTERRUPT_UNWIND_ATTEMPTED''),
    (0x0000003D, L ''INTERRUPT_EXCEPTION_NOT_HANDLED''),
    (0x0000003E, L ''MULTIPROCESSOR_CONFIGURATION_NOT_SUPPORTED''),
    (0x0000003F, L ''NO_MORE_SYSTEM_PTES''),
    (0x00000040, L ''TARGET_MDL_TOO_SMALL''),
    (0x00000041, L ''MUST_SUCCEED_POOL_EMPTY''),
    (0x00000042, L ''ATDISK_DRIVER_INTERNAL''),
    (0x00000043, L ''NO_SUCH_PARTITION''),
    (0x00000044, L ''MULTIPLE_IRP_COMPLETE_REQUESTS''),
    (0x00000045, L ''INSUFFICIENT_SYSTEM_MAP_REGS''),
    (0x00000046, L ''DEREF_UNKNOWN_LOGON_SESSION''),
    (0x00000047, L ''REF_UNKNOWN_LOGON_SESSION''),
    (0x00000048, L ''CANCEL_STATE_IN_COMPLETED_IRP''),
    (0x00000049, L ''PAGE_FAULT_WITH_INTERRUPTS_OFF''),
    (0x0000004A, L ''IRQL_GT_ZERO_AT_SYSTEM_SERVICE''),
    (0x0000004B, L ''STREAMS_INTERNAL_ERROR''),
    (0x0000004C, L ''FATAL_UNHANDLED_HARD_ERROR''),
    (0x0000004D, L ''NO_PAGES_AVAILABLE''),
    (0x0000004E, L ''PFN_LIST_CORRUPT''),
    (0x0000004F, L ''NDIS_INTERNAL_ERROR''),
    (0x00000050, L ''PAGE_FAULT_IN_NONPAGED_AREA''),
    (0x00000051, L ''REGISTRY_ERROR''),
    (0x00000052, L ''MAILSLOT_FILE_SYSTEM''),
    (0x00000053, L ''NO_BOOT_DEVICE''),
    (0x00000054, L ''LM_SERVER_INTERNAL_ERROR''),
    (0x00000055, L ''DATA_COHERENCY_EXCEPTION''),
    (0x00000056, L ''INSTRUCTION_COHERENCY_EXCEPTION''),
    (0x00000057, L ''XNS_INTERNAL_ERROR''),
    (0x00000058, L ''FTDISK_INTERNAL_ERROR''),
    (0x00000059, L ''PINBALL_FILE_SYSTEM''),
    (0x0000005A, L ''CRITICAL_SERVICE_FAILED''),
    (0x0000005B, L ''SET_ENV_VAR_FAILED''),
    (0x0000005C, L ''HAL_INITIALIZATION_FAILED''),
    (0x0000005D, L ''UNSUPPORTED_PROCESSOR''),
    (0x0000005E, L ''OBJECT_INITIALIZATION_FAILED''),
    (0x0000005F, L ''SECURITY_INITIALIZATION_FAILED''),
    (0x00000060, L ''PROCESS_INITIALIZATION_FAILED''),
    (0x00000061, L ''HAL1_INITIALIZATION_FAILED''),
    (0x00000062, L ''OBJECT1_INITIALIZATION_FAILED''),
    (0x00000063, L ''SECURITY1_INITIALIZATION_FAILED''),
    (0x00000064, L ''SYMBOLIC_INITIALIZATION_FAILED''),
    (0x00000065, L ''MEMORY1_INITIALIZATION_FAILED''),
    (0x00000066, L ''CACHE_INITIALIZATION_FAILED''),
    (0x00000067, L ''CONFIG_INITIALIZATION_FAILED''),
    (0x00000068, L ''FILE_INITIALIZATION_FAILED''),
    (0x00000069, L ''IO1_INITIALIZATION_FAILED''),
    (0x0000006A, L ''LPC_INITIALIZATION_FAILED''),
    (0x0000006B, L ''PROCESS1_INITIALIZATION_FAILED''),
    (0x0000006C, L ''REFMON_INITIALIZATION_FAILED''),
    (0x0000006D, L ''SESSION1_INITIALIZATION_FAILED''),
    (0x0000006E, L ''SESSION2_INITIALIZATION_FAILED''),
    (0x0000006F, L ''SESSION3_INITIALIZATION_FAILED''),
    (0x00000070, L ''SESSION4_INITIALIZATION_FAILED''),
    (0x00000071, L ''SESSION5_INITIALIZATION_FAILED''),
    (0x00000072, L ''ASSIGN_DRIVE_LETTERS_FAILED''),
    (0x00000073, L ''CONFIG_LIST_FAILED''),
    (0x00000074, L ''BAD_SYSTEM_CONFIG_INFO''),
    (0x00000075, L ''CANNOT_WRITE_CONFIGURATION''),
    (0x00000076, L ''PROCESS_HAS_LOCKED_PAGES''),
    (0x00000077, L ''KERNEL_STACK_INPAGE_ERROR''),
    (0x00000078, L ''PHASE0_EXCEPTION''),
    (0x00000079, L ''MISMATCHED_HAL''),
    (0x0000007A, L ''KERNEL_DATA_INPAGE_ERROR''),
    (0x0000007B, L ''INACCESSIBLE_BOOT_DEVICE''),
    (0x0000007C, L ''BUGCODE_NDIS_DRIVER''),
    (0x0000007D, L ''INSTALL_MORE_MEMORY''),
    (0x0000007E, L ''SYSTEM_THREAD_EXCEPTION_NOT_HANDLED''),
    (0x0000007F, L ''UNEXPECTED_KERNEL_MODE_TRAP''),
    (0x00000080, L ''NMI_HARDWARE_FAILURE''),
    (0x00000081, L ''SPIN_LOCK_INIT_FAILURE''),
    (0x00000082, L ''DFS_FILE_SYSTEM''),
    (0x00000085, L ''SETUP_FAILURE''),
    (0x0000008B, L ''MBR_CHECKSUM_MISMATCH''),
    (0x0000008E, L ''KERNEL_MODE_EXCEPTION_NOT_HANDLED''),
    (0x0000008F, L ''PP0_INITIALIZATION_FAILED''),
    (0x00000090, L ''PP1_INITIALIZATION_FAILED''),
    (0x00000092, L ''UP_DRIVER_ON_MP_SYSTEM''),
    (0x00000093, L ''INVALID_KERNEL_HANDLE''),
    (0x00000094, L ''KERNEL_STACK_LOCKED_AT_EXIT''),
    (0x00000096, L ''INVALID_WORK_QUEUE_ITEM''),
    (0x00000097, L ''BOUND_IMAGE_UNSUPPORTED''),
    (0x00000098, L ''END_OF_NT_EVALUATION_PERIOD''),
    (0x00000099, L ''INVALID_REGION_OR_SEGMENT''),
    (0x0000009A, L ''SYSTEM_LICENSE_VIOLATION''),
    (0x0000009B, L ''UDFS_FILE_SYSTEM''),
    (0x0000009C, L ''MACHINE_CHECK_EXCEPTION''),
    (0x0000009E, L ''USER_MODE_HEALTH_MONITOR''),
    (0x0000009F, L ''DRIVER_POWER_STATE_FAILURE''),
    (0x000000A0, L ''INTERNAL_POWER_ERROR''),
    (0x000000A1, L ''PCI_BUS_DRIVER_INTERNAL''),
    (0x000000A2, L ''MEMORY_IMAGE_CORRUPT''),
    (0x000000A3, L ''ACPI_DRIVER_INTERNAL''),
    (0x000000A4, L ''CNSS_FILE_SYSTEM_FILTER''),
    (0x000000A5, L ''ACPI_BIOS_ERROR''),
    (0x000000A7, L ''BAD_EXHANDLE''),
    (0x000000AC, L ''HAL_MEMORY_ALLOCATION''),
    (0x000000AD, L ''VIDEO_DRIVER_DEBUG_REPORT_REQUEST''),
    (0x000000B1, L ''BGI_DETECTED_VIOLATION''),
    (0x000000B4, L ''VIDEO_DRIVER_INIT_FAILURE''),
    (0x000000B8, L ''ATTEMPTED_SWITCH_FROM_DPC''),
    (0x000000B9, L ''CHIPSET_DETECTED_ERROR''),
    (0x000000BA, L ''SESSION_HAS_VALID_VIEWS_ON_EXIT''),
    (0x000000BB, L ''NETWORK_BOOT_INITIALIZATION_FAILED''),
    (0x000000BC, L ''NETWORK_BOOT_DUPLICATE_ADDRESS''),
    (0x000000BD, L ''INVALID_HIBERNATED_STATE''),
    (0x000000BE, L ''ATTEMPTED_WRITE_TO_READONLY_MEMORY''),
    (0x000000BF, L ''MUTEX_ALREADY_OWNED''),
    (0x000000C1, L ''SPECIAL_POOL_DETECTED_MEMORY_CORRUPTION''),
    (0x000000C2, L ''BAD_POOL_CALLER''),
    (0x000000C4, L ''DRIVER_VERIFIER_DETECTED_VIOLATION''),
    (0x000000C5, L ''DRIVER_CORRUPTED_EXPOOL''),
    (0x000000C6, L ''DRIVER_CAUGHT_MODIFYING_FREED_POOL''),
    (0x000000C7, L ''TIMER_OR_DPC_INVALID''),
    (0x000000C8, L ''IRQL_UNEXPECTED_VALUE''),
    (0x000000C9, L ''DRIVER_VERIFIER_IOMANAGER_VIOLATION''),
    (0x000000CA, L ''PNP_DETECTED_FATAL_ERROR''),
    (0x000000CB, L ''DRIVER_LEFT_LOCKED_PAGES_IN_PROCESS''),
    (0x000000CC, L ''PAGE_FAULT_IN_FREED_SPECIAL_POOL''),
    (0x000000CD, L ''PAGE_FAULT_BEYOND_END_OF_ALLOCATION''),
    (0x000000CE, L ''DRIVER_UNLOADED_WITHOUT_CANCELLING_PENDING_OPERATIONS''),
    (0x000000CF, L ''TERMINAL_SERVER_DRIVER_MADE_INCORRECT_MEMORY_REFERENCE''),
    (0x000000D0, L ''DRIVER_CORRUPTED_MMPOOL''),
    (0x000000D1, L ''DRIVER_IRQL_NOT_LESS_OR_EQUAL''),
    (0x000000D2, L ''BUGCODE_ID_DRIVER''),
    (0x000000D3, L ''DRIVER_PORTION_MUST_BE_NONPAGED''),
    (0x000000D4, L ''SYSTEM_SCAN_AT_RAISED_IRQL_CAUGHT_IMPROPER_DRIVER_UNLOAD''),
    (0x000000D5, L ''DRIVER_PAGE_FAULT_IN_FREED_SPECIAL_POOL''),
    (0x000000D6, L ''DRIVER_PAGE_FAULT_BEYOND_END_OF_ALLOCATION''),
    (0x000000D7, L ''DRIVER_UNMAPPING_INVALID_VIEW''),
    (0x000000D8, L ''DRIVER_USED_EXCESSIVE_PTES''),
    (0x000000D9, L ''LOCKED_PAGES_TRACKER_CORRUPTION''),
    (0x000000DA, L ''SYSTEM_PTE_MISUSE''),
    (0x000000DB, L ''DRIVER_CORRUPTED_SYSPTES''),
    (0x000000DC, L ''DRIVER_INVALID_STACK_ACCESS''),
    (0x000000DE, L ''POOL_CORRUPTION_IN_FILE_AREA''),
    (0x000000DF, L ''IchMPERSONATING_WORKER_THREAD''),
    (0x000000E0, L ''Schwerwiegender Fehler'' @ [0x00A0] @ L ''C1250''),
    (0x000000E1, L ''WORKER_THREAD_RETURNED_AT_BAD_IRQL''),
    (0x000000E2, L ''MANUALLY_INITIATED_CRASH''),
    (0x000000E3, L ''RESOURCE_NOT_OWNED''),
    (0x000000E4, L ''WORKER_INVALID''),
    (0x000000E6, L ''DRIVER_VERIFIER_DMA_VIOLATION''),
    (0x000000E7, L ''INVALID_FLOATING_POINT_STATE''),
    (0x000000E8, L ''INVALID_CANCEL_OF_FILE_OPEN''),
    (0x000000E9, L ''ACTIVE_EX_WORKER_THREAD_TERMINATION''),
    (0x000000EA, L ''THREAD_STUCK_IN_DEVICE_DRIVER''),
    (0x000000EB, L ''DIRTY_MAPPED_PAGES_CONGESTION''),
    (0x000000EC, L ''SESSION_HAS_VALID_SPECIAL_POOL_ON_EXIT''),
    (0x000000ED, L ''UNMOUNTABLE_BOOT_VOLUME''),
    (0x000000EF, L ''CRITICAL_PROCESS_DIED''),
    (0x000000F0, L ''STORAGE_MINIPORT_ERROR''),
    (0x000000F1, L ''SCSI_VERIFIER_DETECTED_VIOLATION''),
    (0x000000F2, L ''HARDWARE_INTERRUPT_STORM''),
    (0x000000F3, L ''DISORDERLY_SHUTDOWN''),
    (0x000000F4, L ''CRITICAL_OBJECT_TERMINATION''),
    (0x000000F5, L ''FLTMGR_FILE_SYSTEM''),
    (0x000000F6, L ''PCI_VERIFIER_DETECTED_VIOLATION''),
    (0x000000F7, L ''DRIVER_OVERRAN_STACK_BUFFER''),
    (0x000000F8, L ''RAMDISK_BOOT_INITIALIZATION_FAILED''),
    (0x000000F9, L ''DRIVER_RETURNED_STATUS_REPARSE_FOR_VOLUME_OPEN''),
    (0x000000FA, L ''HTTP_DRIVER_CORRUPTED''),
    (0x000000FC, L ''ATTEMPTED_EXECUTE_OF_NOEXECUTE_MEMORY''),
    (0x000000FD, L ''DIRTY_NOWRITE_PAGES_CONGESTION''),
    (0x000000FE, L ''BUGCODE_USB_DRIVER''),
    (0x000000FF, L ''RESERVE_QUEUE_OVERFLOW''),
    (0x00000100, L ''LOADER_BLOCK_MISMATCH''),
    (0x00000101, L ''CLOCK_WATCHDOG_TIMEOUT''),
    (0x00000102, L ''DPC_WATCHDOG_TIMEOUT''),
    (0x00000103, L ''MUP_FILE_SYSTEM''),
    (0x00000104, L ''AGP_INVALID_ACCESS''),
    (0x00000105, L ''AGP_GART_CORRUPTION''),
    (0x00000106, L ''AGP_ILLEGALLY_REPROGRAMMED''),
    (0x00000108, L ''THIRD_PARTY_FILE_SYSTEM_FAILURE''),
    (0x00000109, L ''CRITICAL_STRUCTURE_CORRUPTION''),
    (0x0000010A, L ''APP_TAGGING_INITIALIZATION_FAILED''),
    (0x0000010C, L ''FSRTL_EXTRA_CREATE_PARAMETER_VIOLATION''),
    (0x0000010D, L ''WDF_VIOLATION''),
    (0x0000010E, L ''VIDEO_MEMORY_MANAGEMENT_INTERNAL''),
    (0x0000010F, L ''RESOURCE_MANAGER_EXCEPTION_NOT_HANDLED''),
    (0x00000111, L ''RECURSIVE_NMI''),
    (0x00000112, L ''MSRPC_STATE_VIOLATION''),
    (0x00000113, L ''VIDEO_DXGKRNL_FATAL_ERROR''),
    (0x00000114, L ''VIDEO_SHADOW_DRIVER_FATAL_ERROR''),
    (0x00000115, L ''AGP_INTERNAL''),
    (0x00000116, L ''VIDEO_TDR_FAILURE''),
    (0x00000117, L ''VIDEO_TDR_TIMEOUT_DETECTED''),
    (0x00000119, L ''VIDEO_SCHEDULER_INTERNAL_ERROR''),
    (0x0000011A, L ''EM_INITIALIZATION_FAILURE''),
    (0x0000011B, L ''DRIVER_RETURNED_HOLDING_CANCEL_LOCK''),
    (0x0000011C, L ''ATTEMPTED_WRITE_TO_CM_PROTECTED_STORAGE''),
    (0x0000011D, L ''EVENT_TRACING_FATAL_ERROR''),
    (0x0000011E, L ''TOO_MANY_RECURSIVE_FAULTS''),
    (0x0000011F, L ''INVALID_DRIVER_HANDLE''),
    (0x00000120, L ''BITLOCKER_FATAL_ERROR''),
    (0x00000121, L ''DRIVER_VIOLATION''),
    (0x00000122, L ''WHEA_INTERNAL_ERROR''),
    (0x00000123, L ''CRYPTO_SELF_TEST_FAILURE''),
    (0x00000124, L ''WHEA_UNCORRECTABLE_ERROR''),
    (0x00000125, L ''NMR_INVALID_STATE''),
    (0x00000126, L ''NETIO_INVALID_POOL_CALLER''),
    (0x00000127, L ''PAGE_NOT_ZERO''),
    (0x00000128, L ''WORKER_THREAD_RETURNED_WITH_BAD_IO_PRIORITY''),
    (0x00000129, L ''WORKER_THREAD_RETURNED_WITH_BAD_PAGING_IO_PRIORITY''),
    (0x0000012A, L ''MUI_NO_VALID_SYSTEM_LANGUAGE''),
    (0x0000012B, L ''FAULTY_HARDWARE_CORRUPTED_PAGE''),
    (0x0000012C, L ''EXFAT_FILE_SYSTEM''),
    (0x0000012D, L ''VOLSNAP_OVERLAPPED_TABLE_ACCESS''),
    (0x0000012E, L ''INVALID_MDL_RANGE''),
    (0x0000012F, L ''VHD_BOOT_INITIALIZATION_FAILED''),
    (0x00000130, L ''DYNAMIC_ADD_PROCESSOR_MISMATCH''),
    (0x00000131, L ''INVALID_EXTENDED_PROCESSOR_STATE''),
    (0x00000132, L ''RESOURCE_OWNER_POINTER_INVALID''),
    (0x00000133, L ''DPC_WATCHDOG_VIOLATION''),
    (0x00000134, L ''DRIVE_EXTENDER''),
    (0x00000135, L ''REGISTRY_FILTER_DRIVER_EXCEPTION''),
    (0x00000136, L ''VHD_BOOT_HOST_VOLUME_NOT_ENOUGH_SPACE''),
    (0x00000137, L ''WIN32K_HANDLE_MANAGER''),
    (0x00000138, L ''GPIO_CONTROLLER_DRIVER_ERROR''),
    (0x00000139, L ''KERNEL_SECURITY_CHECK_FAILURE''),
    (0x0000013A, L ''KERNEL_MODE_HEAP_CORRUPTION''),
    (0x0000013B, L ''PASSIVE_INTERRUPT_ERROR''),
    (0x0000013C, L ''INVALID_IO_BOOST_STATE''),
    (0x0000013D, L ''CRITICAL_INITIALIZATION_FAILURE''),
    (0x00000140, L ''STORAGE_DEVICE_ABNORMALITY_DETECTED''),
    (0x00000143, L ''PROCESSOR_DRIVER_INTERNAL''),
    (0x00000144, L ''BUGCODE_USB3_DRIVER''),
    (0x00000145, L ''SECURE_BOOT_VIOLATION''),
    (0x00000147, L ''ABNORMAL_RESET_DETECTED''),
    (0x00000149, L ''REFS_FILE_SYSTEM''),
    (0x0000014A, L ''KERNEL_WMI_INTERNAL''),
    (0x0000014B, L ''SOC_SUBSYSTEM_FAILURE''),
    (0x0000014C, L ''FATAL_ABNORMAL_RESET_ERROR''),
    (0x0000014D, L ''EXCEPTION_SCOPE_INVALID''),
    (0x0000014E, L ''SOC_CRITICAL_DEVICE_REMOVED''),
    (0x0000014F, L ''PDC_WATCHDOG_TIMEOUT''),
    (0x00000150, L ''TCPIP_AOAC_NIC_ACTIVE_REFERENCE_LEAK''),
    (0x00000151, L ''UNSUPPORTED_INSTRUCTION_MODE''),
    (0x00000152, L ''INVALID_PUSH_LOCK_FLAGS''),
    (0x00000153, L ''KERNEL_LOCK_ENTRY_LEAKED_ON_THREAD_TERMINATION''),
    (0x00000154, L ''UNEXPECTED_STORE_EXCEPTION''),
    (0x00000155, L ''OS_DATA_TAMPERING''),
    (0x00000157, L ''KERNEL_THREAD_PRIORITY_FLOOR_VIOLATION''),
    (0x00000158, L ''ILLEGAL_IOMMU_PAGE_FAULT''),
    (0x00000159, L ''HAL_ILLEGAL_IOMMU_PAGE_FAULT''),
    (0x0000015A, L ''SDBUS_INTERNAL_ERROR''),
    (0x0000015B, L ''WORKER_THREAD_RETURNED_WITH_SYSTEM_PAGE_PRIORITY_ACTIVE''),
    (0x00000160, L ''WIN32K_ATOMIC_CHECK_FAILURE''),
    (0x00000162, L ''KERNEL_AUTO_BOOST_INVALID_LOCK_RELEASE''),
    (0x00000163, L ''WORKER_THREAD_TEST_CONDITION''),
    (0x00000164, L ''WIN32K_CRITICAL_FAILURE''),
    (0x0000016C, L ''INVALID_RUNDOWN_PROTECTION_FLAGS''),
    (0x0000016D, L ''INVALID_SLOT_ALLOCATOR_FLAGS''),
    (0x0000016E, L ''ERESOURCE_INVALID_RELEASE''),
    (0x00000170, L ''CLUSTER_CSV_CLUSSVC_DISCONNECT_WATCHDOG''),
    (0x00000171, L ''CRYPTO_LIBRARY_INTERNAL_ERROR''),
    (0x00000173, L ''COREMSGCALL_INTERNAL_ERROR''),
    (0x00000174, L ''COREMSG_INTERNAL_ERROR''),
    (0x00000178, L ''ELAM_DRIVER_DETECTED_FATAL_ERROR''),
    (0x0000017B, L ''PROFILER_CONFIGURATION_ILLEGAL''),
    (0x0000017E, L ''MICROCODE_REVISION_MISMATCH''),
    (0x00000187, L ''VIDEO_DWMINIT_TIMEOUT_FALLBACK_BDD''),
    (0x00000189, L ''BAD_OBJECT_HEADER''),
    (0x0000018B, L ''SECURE_KERNEL_ERROR''),
    (0x0000018C, L ''HYPERGUARD_VIOLATION''),
    (0x0000018D, L ''SECURE_FAULT_UNHANDLED''),
    (0x0000018E, L ''KERNEL_PARTITION_REFERENCE_VIOLATION''),
    (0x00000191, L ''PF_DETECTED_CORRUPTION''),
    (0x00000192, L ''KERNEL_AUTO_BOOST_LOCK_ACQUISITION_WITH_RAISED_IRQL''),
    (0x00000196, L ''LOADER_ROLLBACK_DETECTED''),
    (0x00000197, L ''WIN32K_SECURITY_FAILURE''),
    (0x00000199, L ''KERNEL_STORAGE_SLOT_IN_USE''),
    (0x0000019A, L ''WORKER_THREAD_RETURNED_WHILE_ATTACHED_TO_SILO''),
    (0x0000019B, L ''TTM_FATAL_ERROR''),
    (0x0000019C, L ''WIN32K_POWER_WATCHDOG_TIMEOUT''),
    (0x000001A0, L ''TTM_WATCHDOG_TIMEOUT''),
    (0x000001A2, L ''WIN32K_CALLOUT_WATCHDOG_BUGCHECK''),
    (0x000001AA, L ''EXCEPTION_ON_INVALID_STACK''),
    (0x000001AB, L ''UNWIND_ON_INVALID_STACK''),
    (0x000001C6, L ''FAST_ERESOURCE_PRECONDITION_VIOLATION''),
    (0x000001C7, L ''STORE_DATA_STRUCTURE_CORRUPTION''),
    (0x000001C8, L ''MANUALLY_INITIATED_POWER_BUTTON_HOLD''),
    (0x000001CA, L ''SYNTHETIC_WATCHDOG_TIMEOUT''),
    (0x000001CB, L ''INVALID_SILO_DETACH''),
    (0x000001CD, L ''INVALID_CALLBACK_STACK_ADDRESS''),
    (0x000001CE, L ''INVALID_KERNEL_STACK_ADDRESS''),
    (0x000001CF, L ''HARDWARE_WATCHDOG_TIMEOUT''),
    (0x000001D0, L ''CPI_FIRMWARE_WATCHDOG_TIMEOUT''),
    (0x000001D2, L ''WORKER_THREAD_INVALID_STATE''),
    (0x000001D3, L ''WFP_INVALID_OPERATION''),
    (0x000001D5, L ''DRIVER_PNP_WATCHDOG''),
    (0x000001D6, L ''WORKER_THREAD_RETURNED_WITH_NON_DEFAULT_WORKLOAD_CLASS''),
    (0x000001D7, L ''EFS_FATAL_ERROR''),
    (0x000001D8, L ''UCMUCSI_FAILURE''),
    (0x000001D9, L ''HAL_IOMMU_INTERNAL_ERROR''),
    (0x000001DA, L ''HAL_BLOCKED_PROCESSOR_INTERNAL_ERROR''),
    (0x000001DB, L ''IPI_WATCHDOG_TIMEOUT''),
    (0x000001DC, L ''DMA_COMMON_BUFFER_VECTOR_ERROR''),
    (0x000001DD, L ''BUGCODE_MBBADAPTER_DRIVER''),
    (0x000001DE, L ''BUGCODE_WIFIADAPTER_DRIVER''),
    (0x000001DF, L ''PROCESSOR_START_TIMEOUT''),
    (0x000001E4, L ''VIDEO_DXGKRNL_SYSMM_FATAL_ERROR''),
    (0x000001E9, L ''ILLEGAL_ATS_INITIALIZATION''),
    (0x000001EA, L ''SECURE_PCI_CONFIG_SPACE_ACCESS_VIOLATION''),
    (0x000001EB, L ''DAM_WATCHDOG_TIMEOUT''),
    (0x000001ED, L ''HANDLE_ERROR_ON_CRITICAL_THREAD''),
    (0x00000356, L ''XBOX_ERACTRL_CS_TIMEOUT''),
    (0x00000BFE, L ''BC_BLUETOOTH_VERIFIER_FAULT''),
    (0x00000BFF, L ''BC_BTHMINI_VERIFIER_FAULT''),
    (0x00020001, L ''HYPERVISOR_ERROR''),
    (0x1000007E, L ''SYSTEM_THREAD_EXCEPTION_NOT_HANDLED_M''),
    (0x1000007F, L ''UNEXPECTED_KERNEL_MODE_TRAP_M''),
    (0x1000008E, L ''KERNEL_MODE_EXCEPTION_NOT_HANDLED_M''),
    (0x100000EA, L ''THREAD_STUCK_IN_DEVICE_DRIVER_M''),
    (0x4000008A, L ''THREAD_TERMINATE_HELD_MUTEX''),
    (0xC0000218, L ''STATUS_CANNOT_LOAD_REGISTRY_FILE''),
    (0xC000021A, L ''WINLOGON_FATAL_ERROR''),
    (0xC0000221, L ''STATUS_IMAGE_CHECKSUM_MISMATCH''),
    (0xDEADDEAD, L ''MANUALLY_INITIATED_CRASH1'')
  ]"

definition setLDAPCodes_assignments :: "(int32 \<times> wstring) list" where
  "setLDAPCodes_assignments = [
    (0x00, L ''LDAP_SUCCESS''),
    (0x01, L ''LDAP_OPERATIONS_ERROR''),
    (0x02, L ''LDAP_PROTOCOL_ERROR''),
    (0x03, L ''LDAP_TIMELIMIT_EXCEEDED''),
    (0x04, L ''LDAP_SIZELIMIT_EXCEEDED''),
    (0x05, L ''LDAP_COMPARE_FALSE''),
    (0x06, L ''LDAP_COMPARE_TRUE''),
    (0x07, L ''LDAP_AUTH_METHOD_NOT_SUPPORTED''),
    (0x08, L ''LDAP_STRONG_AUTH_REQUIRED''),
    (0x09, L ''LDAP_REFERRAL_V2''),
    (0x09, L ''LDAP_PARTIAL_RESULTS''),
    (0x0a, L ''LDAP_REFERRAL''),
    (0x0b, L ''LDAP_ADMIN_LIMIT_EXCEEDED''),
    (0x0c, L ''LDAP_UNAVAILABLE_CRIT_EXTENSION''),
    (0x0d, L ''LDAP_CONFIDENTIALITY_REQUIRED''),
    (0x0e, L ''LDAP_SASL_BIND_IN_PROGRESS''),
    (0x10, L ''LDAP_NO_SUCH_ATTRIBUTE''),
    (0x11, L ''LDAP_UNDEFINED_TYPE''),
    (0x12, L ''LDAP_INAPPROPRIATE_MATCHING''),
    (0x13, L ''LDAP_CONSTRAINT_VIOLATION''),
    (0x14, L ''LDAP_ATTRIBUTE_OR_VALUE_EXISTS''),
    (0x15, L ''LDAP_INVALID_SYNTAX''),
    (0x20, L ''LDAP_NO_SUCH_OBJECT''),
    (0x21, L ''LDAP_ALIAS_PROBLEM''),
    (0x22, L ''LDAP_INVALID_DN_SYNTAX''),
    (0x23, L ''LDAP_IS_LEAF''),
    (0x24, L ''LDAP_ALIAS_DEREF_PROBLEM''),
    (0x30, L ''LDAP_INAPPROPRIATE_AUTH''),
    (0x31, L ''LDAP_INVALID_CREDENTIALS''),
    (0x32, L ''LDAP_INSUFFICIENT_RIGHTS''),
    (0x33, L ''LDAP_BUSY''),
    (0x34, L ''LDAP_UNAVAILABLE''),
    (0x35, L ''LDAP_UNWILLING_TO_PERFORM''),
    (0x36, L ''LDAP_LOOP_DETECT''),
    (0x3C, L ''LDAP_SORT_CONTROL_MISSING''),
    (0x3D, L ''LDAP_OFFSET_RANGE_ERROR''),
    (0x40, L ''LDAP_NAMING_VIOLATION''),
    (0x41, L ''LDAP_OBJECT_CLASS_VIOLATION''),
    (0x42, L ''LDAP_NOT_ALLOWED_ON_NONLEAF''),
    (0x43, L ''LDAP_NOT_ALLOWED_ON_RDN''),
    (0x44, L ''LDAP_ALREADY_EXISTS''),
    (0x45, L ''LDAP_NO_OBJECT_CLASS_MODS''),
    (0x46, L ''LDAP_RESULTS_TOO_LARGE''),
    (0x47, L ''LDAP_AFFECTS_MULTIPLE_DSAS''),
    (0x4c, L ''LDAP_VIRTUAL_LIST_VIEW_ERROR''),
    (0x50, L ''LDAP_OTHER''),
    (0x51, L ''LDAP_SERVER_DOWN''),
    (0x52, L ''LDAP_LOCAL_ERROR''),
    (0x53, L ''LDAP_ENCODING_ERROR''),
    (0x54, L ''LDAP_DECODING_ERROR''),
    (0x55, L ''LDAP_TIMEOUT''),
    (0x56, L ''LDAP_AUTH_UNKNOWN''),
    (0x57, L ''LDAP_FILTER_ERROR''),
    (0x58, L ''LDAP_USER_CANCELLED''),
    (0x59, L ''LDAP_PARAM_ERROR''),
    (0x5a, L ''LDAP_NO_MEMORY''),
    (0x5b, L ''LDAP_CONNECT_ERROR''),
    (0x5c, L ''LDAP_NOT_SUPPORTED''),
    (0x5e, L ''LDAP_NO_RESULTS_RETURNED''),
    (0x5d, L ''LDAP_CONTROL_NOT_FOUND''),
    (0x5f, L ''LDAP_MORE_RESULTS_TO_RETURN''),
    (0x60, L ''LDAP_CLIENT_LOOP''),
    (0x61, L ''LDAP_REFERRAL_LIMIT_EXCEEDED'')
  ]"

definition setWUCodes_assignments :: "(int32 \<times> wstring) list" where
  "setWUCodes_assignments = [
    (0x00240001, L ''WU_S_SERVICE_STOP'' @ CRLF @ L ''(Windows Update Agent was stopped successfully)''),
    (0x00240002, L ''WU_S_SELFUPDATE'' @ CRLF @ L ''(Windows Update Agent updated itself)''),
    (0x00240003, L ''WU_S_UPDATE_ERROR'' @ CRLF @ L ''(Operation completed successfully but there were errors applying the updates)''),
    (0x00240004, L ''WU_S_MARKED_FOR_DISCONNECT'' @ CRLF @ L ''(A callback was marked to be disconnected later because the request to disconnect the operation came while a callback was executing)''),
    (0x00240005, L ''WU_S_REBOOT_REQUIRED'' @ CRLF @ L ''(The system must be restarted to complete installation of the update)''),
    (0x00240006, L ''WU_S_ALREADY_INSTALLED'' @ CRLF @ L ''(The update to be installed is already installed on the system)''),
    (0x00240007, L ''WU_S_ALREADY_UNINSTALLED'' @ CRLF @ L ''(The update to be removed is not installed on the system)''),
    (0x00240008, L ''WU_S_ALREADY_DOWNLOADED'' @ CRLF @ L ''(The update to be downloaded has already been downloaded)''),
    (0x00240009, L ''WU_S_SOME_UPDATES_SKIPPED_ON_BATTERY'' @ CRLF @ L ''(The operation completed successfully, but some updates were skipped because the system is running on batteries)''),
    (0x0024000A, L ''WU_S_ALREADY_REVERTED'' @ CRLF @ L ''(The update to be reverted is not present on the system)''),
    (0x00240010, L ''WU_S_SEARCH_CRITERIA_NOT_SUPPORTED'' @ CRLF @ L ''(The operation is skipped because the update service does not support the requested search criteria)''),
    (0x00242015, L ''WU_S_UH_INSTALLSTILLPENDING'' @ CRLF @ L ''(The installation operation for the update is still in progress)''),
    (0x00242016, L ''WU_S_UH_DOWNLOAD_SIZE_CALCULATED'' @ CRLF @ L ''(The actual download size has been calculated by the handler)''),
    (0x00245001, L ''WU_S_SIH_NOOP'' @ CRLF @ L ''(No operation was required by the server-initiated healing server response)''),
    (0x00246001, L ''WU_S_DM_ALREADYDOWNLOADING'' @ CRLF @ L ''(The update to be downloaded is already being downloaded)''),
    (0x00247101, L ''WU_S_METADATA_SKIPPED_BY_ENFORCEMENTMODE'' @ CRLF @ L ''(Metadata verification was skipped by enforcement mode)''),
    (0x00247102, L ''WU_S_METADATA_IGNORED_SIGNATURE_VERIFICATION'' @ CRLF @ L ''(A server configuration refresh resulted in metadata signature verification to be ignored)''),
    (0x00248001, L ''WU_S_SEARCH_LOAD_SHEDDING'' @ CRLF @ L ''(Search operation completed successfully but one or more services were shedding load)''),
    (0x00248002, L ''WU_S_AAD_DEVICE_TICKET_NOT_NEEDED'' @ CRLF @ L ''(There was no need to retrieve an AAD device ticket)''),
    (0x80240001, L ''WU_E_NO_SERVICE'' @ CRLF @ L ''(Windows Update Agent was unable to provide the service)''),
    (0x80240002, L ''WU_E_MAX_CAPACITY_REACHED'' @ CRLF @ L ''(The maximum capacity of the service was exceeded)''),
    (0x80240003, L ''WU_E_UNKNOWN_ID'' @ CRLF @ L ''(An ID cannot be found)''),
    (0x80240004, L ''WU_E_NOT_INITIALIZED'' @ CRLF @ L ''(The object could not be initialized)''),
    (0x80240005, L ''WU_E_RANGEOVERLAP'' @ CRLF @ L ''(The update handler requested a byte range overlapping a previously requested range)''),
    (0x80240006, L ''WU_E_TOOMANYRANGES'' @ CRLF @ L ''(The requested number of byte ranges exceeds the maximum number (2^31 - 1))''),
    (0x80240007, L ''WU_E_INVALIDINDEX'' @ CRLF @ L ''(The index to a collection was invalid)''),
    (0x80240008, L ''WU_E_ITEMNOTFOUND'' @ CRLF @ L ''(The key for the item queried could not be found)''),
    (0x80240009, L ''WU_E_OPERATIONINPROGRESS'' @ CRLF @ L ''(Another conflicting operation was in progress. Some operations such as installation cannot be performed twice simultaneously)''),
    (0x8024000A, L ''WU_E_COULDNOTCANCEL'' @ CRLF @ L ''(Cancellation of the operation was not allowed)''),
    (0x8024000B, L ''WU_E_CALL_CANCELLED'' @ CRLF @ L ''(Operation was cancelled)''),
    (0x8024000C, L ''WU_E_NOOP'' @ CRLF @ L ''(No operation was required)''),
    (0x8024000D, L ''WU_E_XML_MISSINGDATA'' @ CRLF @ L ''(Windows Update Agent could not find required information in the update's XML data)''),
    (0x8024000E, L ''WU_E_XML_INVALID'' @ CRLF @ L ''(Windows Update Agent found invalid information in the update's XML data)''),
    (0x8024000F, L ''WU_E_CYCLE_DETECTED'' @ CRLF @ L ''(Circular update relationships were detected in the metadata)''),
    (0x80240010, L ''WU_E_TOO_DEEP_RELATION'' @ CRLF @ L ''(Update relationships too deep to evaluate were evaluated)''),
    (0x80240011, L ''WU_E_INVALID_RELATIONSHIP'' @ CRLF @ L ''(An invalid update relationship was detected)''),
    (0x80240012, L ''WU_E_REG_VALUE_INVALID'' @ CRLF @ L ''(An invalid registry value was read)''),
    (0x80240013, L ''WU_E_DUPLICATE_ITEM'' @ CRLF @ L ''(Operation tried to add a duplicate item to a list)''),
    (0x80240014, L ''WU_E_INVALID_INSTALL_REQUESTED'' @ CRLF @ L ''(Updates requested for install are not installable by caller)''),
    (0x80240016, L ''WU_E_INSTALL_NOT_ALLOWED'' @ CRLF @ L ''(Operation tried to install while another installation was in progress or the system was pending a mandatory restart)''),
    (0x80240017, L ''WU_E_NOT_APPLICABLE'' @ CRLF @ L ''(Operation was not performed because there are no applicable updates)''),
    (0x80240018, L ''WU_E_NO_USERTOKEN'' @ CRLF @ L ''(Operation failed because a required user token is missing)''),
    (0x80240019, L ''WU_E_EXCLUSIVE_INSTALL_CONFLICT'' @ CRLF @ L ''(An exclusive update cannot be installed with other updates at the same time)''),
    (0x8024001A, L ''WU_E_POLICY_NOT_SET'' @ CRLF @ L ''(A policy value was not set)''),
    (0x8024001B, L ''WU_E_SELFUPDATE_IN_PROGRESS'' @ CRLF @ L ''(The operation could not be performed because the Windows Update Agent is self-updating)''),
    (0x8024001D, L ''WU_E_INVALID_UPDATE'' @ CRLF @ L ''(An update contains invalid metadata)''),
    (0x8024001E, L ''WU_E_SERVICE_STOP'' @ CRLF @ L ''(Operation did not complete because the service or system was being shut down)''),
    (0x8024001F, L ''WU_E_NO_CONNECTION'' @ CRLF @ L ''(Operation did not complete because the network connection was unavailable)''),
    (0x80240020, L ''WU_E_NO_INTERACTIVE_USER'' @ CRLF @ L ''(Operation did not complete because there is no logged-on interactive user)''),
    (0x80240021, L ''WU_E_TIME_OUT'' @ CRLF @ L ''(Operation did not complete because it timed out)''),
    (0x80240022, L ''WU_E_ALL_UPDATES_FAILED'' @ CRLF @ L ''(Operation failed for all the updates)''),
    (0x80240023, L ''WU_E_EULAS_DECLINED'' @ CRLF @ L ''(The license terms for all updates were declined)''),
    (0x80240024, L ''WU_E_NO_UPDATE'' @ CRLF @ L ''(There are no updates)''),
    (0x80240025, L ''WU_E_USER_ACCESS_DISABLED'' @ CRLF @ L ''(Group Policy settings prevented access to Windows Update)''),
    (0x80240026, L ''WU_E_INVALID_UPDATE_TYPE'' @ CRLF @ L ''(The type of update is invalid)''),
    (0x80240027, L ''WU_E_URL_TOO_LONG'' @ CRLF @ L ''(The URL exceeded the maximum length)''),
    (0x80240028, L ''WU_E_UNINSTALL_NOT_ALLOWED'' @ CRLF @ L ''(The update could not be uninstalled because the request did not originate from a WSUS server)''),
    (0x80240029, L ''WU_E_INVALID_PRODUCT_LICENSE'' @ CRLF @ L ''(Search may have missed some updates before there is an unlicensed application on the system)''),
    (0x8024002A, L ''WU_E_MISSING_HANDLER'' @ CRLF @ L ''(A component required to detect applicable updates was missing)''),
    (0x8024002B, L ''WU_E_LEGACYSERVER'' @ CRLF @ L ''(An operation did not complete because it requires a newer version of server)''),
    (0x8024002C, L ''WU_E_BIN_SOURCE_ABSENT'' @ CRLF @ L ''(A delta-compressed update could not be installed because it required the source)''),
    (0x8024002D, L ''WU_E_SOURCE_ABSENT'' @ CRLF @ L ''(A full-file update could not be installed because it required the source)''),
    (0x8024002E, L ''WU_E_WU_DISABLED'' @ CRLF @ L ''(Access to an unmanaged server is not allowed)''),
    (0x8024002F, L ''WU_E_CALL_CANCELLED_BY_POLICY'' @ CRLF @ L ''(Operation did not complete because the DisableWindowsUpdateAccess policy was set)''),
    (0x80240030, L ''WU_E_INVALID_PROXY_SERVER'' @ CRLF @ L ''(The format of the proxy list was invalid)''),
    (0x80240031, L ''WU_E_INVALID_FILE'' @ CRLF @ L ''(The file is in the wrong format)''),
    (0x80240032, L ''WU_E_INVALID_CRITERIA'' @ CRLF @ L ''(The search criteria string was invalid)''),
    (0x80240033, L ''WU_E_EULA_UNAVAILABLE'' @ CRLF @ L ''(License terms could not be downloaded)''),
    (0x80240034, L ''WU_E_DOWNLOAD_FAILED'' @ CRLF @ L ''(Update failed to download)''),
    (0x80240035, L ''WU_E_UPDATE_NOT_PROCESSED'' @ CRLF @ L ''(The update was not processed)''),
    (0x80240036, L ''WU_E_INVALID_OPERATION'' @ CRLF @ L ''(The object's current state did not allow the operation)''),
    (0x80240037, L ''WU_E_NOT_SUPPORTED'' @ CRLF @ L ''(The functionality for the operation is not supported)''),
    (0x80240038, L ''WU_E_WINHTTP_INVALID_FILE'' @ CRLF @ L ''(The downloaded file has an unexpected content type)''),
    (0x80240039, L ''WU_E_TOO_MANY_RESYNC'' @ CRLF @ L ''(Agent is asked by server to resync too many times)''),
    (0x80240040, L ''WU_E_NO_SERVER_CORE_SUPPORT'' @ CRLF @ L ''(WUA API method does not run on Server Core installation)''),
    (0x80240041, L ''WU_E_SYSPREP_IN_PROGRESS'' @ CRLF @ L ''(Service is not available while sysprep is running)''),
    (0x80240042, L ''WU_E_UNKNOWN_SERVICE'' @ CRLF @ L ''(The update service is no longer registered with AU)''),
    (0x80240043, L ''WU_E_NO_UI_SUPPORT'' @ CRLF @ L ''(There is no support for WUA UI)''),
    (0x80240044, L ''WU_E_PER_MACHINE_UPDATE_ACCESS_DENIED'' @ CRLF @ L ''(Only administrators can perform this operation on per-machine updates)''),
    (0x80240045, L ''WU_E_UNSUPPORTED_SEARCHSCOPE'' @ CRLF @ L ''(A search was attempted with a scope that is not currently supported for this type of search)''),
    (0x80240046, L ''WU_E_BAD_FILE_URL'' @ CRLF @ L ''(The URL does not point to a file)''),
    (0x80240047, L ''WU_E_REVERT_NOT_ALLOWED'' @ CRLF @ L ''(The update could not be reverted)''),
    (0x80240048, L ''WU_E_INVALID_NOTIFICATION_INFO'' @ CRLF @ L ''(The featured update notification info returned by the server is invalid)''),
    (0x80240049, L ''WU_E_OUTOFRANGE'' @ CRLF @ L ''(The data is out of range)''),
    (0x8024004A, L ''WU_E_SETUP_IN_PROGRESS'' @ CRLF @ L ''(Windows Update agent operations are not available while OS setup is running)''),
    (0x8024004B, L ''WU_E_ORPHANED_DOWNLOAD_JOB'' @ CRLF @ L ''(An orphaned downloadjob was found with no active callers)''),
    (0x8024004C, L ''WU_E_LOW_BATTERY'' @ CRLF @ L ''(An update could not be installed because the system battery power level is too low)''),
    (0x8024004D, L ''WU_E_INFRASTRUCTUREFILE_INVALID_FORMAT'' @ CRLF @ L ''(The downloaded infrastructure file is incorrectly formatted)''),
    (0x8024004E, L ''WU_E_INFRASTRUCTUREFILE_REQUIRES_SSL'' @ CRLF @ L ''(The infrastructure file must be downloaded using strong SSL)''),
    (0x8024004F, L ''WU_E_IDLESHUTDOWN_OPCOUNT_DISCOVERY'' @ CRLF @ L ''(A discovery call contributed to a non-zero operation count at idle timer shutdown)''),
    (0x80240050, L ''WU_E_IDLESHUTDOWN_OPCOUNT_SEARCH'' @ CRLF @ L ''(A search call contributed to a non-zero operation count at idle timer shutdown)''),
    (0x80240051, L ''WU_E_IDLESHUTDOWN_OPCOUNT_DOWNLOAD'' @ CRLF @ L ''(A download call contributed to a non-zero operation count at idle timer shutdown)''),
    (0x80240052, L ''WU_E_IDLESHUTDOWN_OPCOUNT_INSTALL'' @ CRLF @ L ''(An install call contributed to a non-zero operation count at idle timer shutdown)''),
    (0x80240053, L ''WU_E_IDLESHUTDOWN_OPCOUNT_OTHER'' @ CRLF @ L ''(An unspecified call contributed to a non-zero operation count at idle timer shutdown)''),
    (0x80240054, L ''WU_E_INTERACTIVE_CALL_CANCELLED'' @ CRLF @ L ''(An interactive user cancelled this operation, which was started from the Windows Update Agent UI)''),
    (0x80240055, L ''WU_E_AU_CALL_CANCELLED'' @ CRLF @ L ''(Automatic Updates cancelled this operation because it applies to an update that is no longer applicable to this computer)''),
    (0x80240056, L ''WU_E_SYSTEM_UNSUPPORTED'' @ CRLF @ L ''(This version or edition of the operating system doesn't support the needed functionality)''),
    (0x80240057, L ''WU_E_NO_SUCH_HANDLER_PLUGIN'' @ CRLF @ L ''(The requested update download or install handler, or update applicability expression evaluator, is not provided by this Agent plugin)''),
    (0x80240058, L ''WU_E_INVALID_SERIALIZATION_VERSION'' @ CRLF @ L ''(The requested serialization version is not supported)''),
    (0x80240059, L ''WU_E_NETWORK_COST_EXCEEDS_POLICY'' @ CRLF @ L ''(The current network cost does not meet the conditions set by the network cost policy)''),
    (0x8024005A, L ''WU_E_CALL_CANCELLED_BY_HIDE'' @ CRLF @ L ''(The call is cancelled because it applies to an update that is hidden (no longer applicable to this computer))''),
    (0x8024005B, L ''WU_E_CALL_CANCELLED_BY_INVALID'' @ CRLF @ L ''(The call is cancelled because it applies to an update that is invalid (no longer applicable to this computer))''),
    (0x8024005C, L ''WU_E_INVALID_VOLUMEID'' @ CRLF @ L ''(The specified volume id is invalid)''),
    (0x8024005D, L ''WU_E_UNRECOGNIZED_VOLUMEID'' @ CRLF @ L ''(The specified volume id is unrecognized by the system)''),
    (0x8024005E, L ''WU_E_EXTENDEDERROR_NOTSET'' @ CRLF @ L ''(The installation extended error code is not specified)''),
    (0x8024005F, L ''WU_E_EXTENDEDERROR_FAILED'' @ CRLF @ L ''(The installation extended error code is set to general fail)''),
    (0x80240060, L ''WU_E_IDLESHUTDOWN_OPCOUNT_SERVICEREGISTRATION'' @ CRLF @ L ''(A service registration call contributed to a non-zero operation count at idle timer shutdown)''),
    (0x80240061, L ''WU_E_FILETRUST_SHA2SIGNATURE_MISSING'' @ CRLF @ L ''(Signature validation of the file fails to find valid SHA2+ signature on MS signed payload)''),
    (0x80240062, L ''WU_E_UPDATE_NOT_APPROVED'' @ CRLF @ L ''(The update is not in the servicing approval list)''),
    (0x80240063, L ''WU_E_CALL_CANCELLED_BY_INTERACTIVE_SEARCH'' @ CRLF @ L ''(The search call was cancelled by another interactive search against the same service)''),
    (0x80240064, L ''WU_E_INSTALL_JOB_RESUME_NOT_ALLOWED'' @ CRLF @ L ''(Resume of install job not allowed due to another installation in progress)''),
    (0x80240065, L ''WU_E_INSTALL_JOB_NOT_SUSPENDED'' @ CRLF @ L ''(Resume of install job not allowed because job is not suspended)''),
    (0x80240066, L ''WU_E_INSTALL_USERCONTEXT_ACCESSDENIED'' @ CRLF @ L ''(User context passed to installation from caller with insufficient privileges)''),
    (0x80240067, L ''WU_E_STANDBY_ACTIVITY_NOT_ALLOWED'' @ CRLF @ L ''(Operation is not allowed because the device is in DC (Direct Current) and DS (Disconnected Standby))''),
    (0x80240068, L ''WU_E_COULD_NOT_EVALUATE_PROPERTY'' @ CRLF @ L ''(The property could not be evaluated)''),
    (0x80240FFF, L ''WU_E_UNEXPECTED'' @ CRLF @ L ''(An operation failed due to reasons not covered by another error code)''),
    (0x80241001, L ''WU_E_MSI_WRONG_VERSION'' @ CRLF @ L ''(Search may have missed some updates because the Windows Installer is less than version 3.1)''),
    (0x80241002, L ''WU_E_MSI_NOT_CONFIGURED'' @ CRLF @ L ''(Search may have missed some updates because the Windows Installer is not configured)''),
    (0x80241003, L ''WU_E_MSP_DISABLED'' @ CRLF @ L ''(Search may have missed some updates because policy has disabled Windows Installer patching)''),
    (0x80241004, L ''WU_E_MSI_WRONG_APP_CONTEXT'' @ CRLF @ L ''(An update could not be applied because the application is installed per-user)''),
    (0x80241005, L ''WU_E_MSI_NOT_PRESENT'' @ CRLF @ L ''(Search may have missed some updates because the Windows Installer is less than version 3.1)''),
    (0x80241FFF, L ''WU_E_MSP_UNEXPECTED'' @ CRLF @ L ''(Search may have missed some updates because there was a failure of the Windows Installer)''),
    (0x80244000, L ''WU_E_PT_SOAPCLIENT_BASE'' @ CRLF @ L ''(WU_E_PT_SOAPCLIENT_* error codes map to the SOAPCLIENT_ERROR enum of the ATL Server Library)''),
    (0x80244001, L ''WU_E_PT_SOAPCLIENT_INITIALIZE'' @ CRLF @ L ''(Same as SOAPCLIENT_INITIALIZE_ERROR - initialization of the SOAP client failed, possibly because of an MSXML installation failure)''),
    (0x80244002, L ''WU_E_PT_SOAPCLIENT_OUTOFMEMORY'' @ CRLF @ L ''(Same as SOAPCLIENT_OUTOFMEMORY - SOAP client failed because it ran out of memory)''),
    (0x80244003, L ''WU_E_PT_SOAPCLIENT_GENERATE'' @ CRLF @ L ''(Same as SOAPCLIENT_GENERATE_ERROR - SOAP client failed to generate the request)''),
    (0x80244004, L ''WU_E_PT_SOAPCLIENT_CONNECT'' @ CRLF @ L ''(Same as SOAPCLIENT_CONNECT_ERROR - SOAP client failed to connect to the server)''),
    (0x80244005, L ''WU_E_PT_SOAPCLIENT_SEND'' @ CRLF @ L ''(Same as SOAPCLIENT_SEND_ERROR - SOAP client failed to send a message for reasons of WU_E_WINHTTP_* error codes)''),
    (0x80244006, L ''WU_E_PT_SOAPCLIENT_SERVER'' @ CRLF @ L ''(Same as SOAPCLIENT_SERVER_ERROR - SOAP client failed because there was a server error)''),
    (0x80244007, L ''WU_E_PT_SOAPCLIENT_SOAPFAULT'' @ CRLF @ L ''(Same as SOAPCLIENT_SOAPFAULT - SOAP client failed because there was a SOAP fault for reasons of WU_E_PT_SOAP_* error codes)''),
    (0x80244008, L ''WU_E_PT_SOAPCLIENT_PARSEFAULT'' @ CRLF @ L ''(Same as SOAPCLIENT_PARSEFAULT_ERROR - SOAP client failed to parse a SOAP fault)''),
    (0x80244009, L ''WU_E_PT_SOAPCLIENT_READ'' @ CRLF @ L ''(Same as SOAPCLIENT_READ_ERROR - SOAP client failed while reading the response from the server)''),
    (0x8024400A, L ''WU_E_PT_SOAPCLIENT_PARSE'' @ CRLF @ L ''(Same as SOAPCLIENT_PARSE_ERROR - SOAP client failed to parse the response from the server)''),
    (0x8024400B, L ''WU_E_PT_SOAP_VERSION'' @ CRLF @ L ''(Same as SOAP_E_VERSION_MISMATCH - SOAP client found an unrecognizable namespace for the SOAP envelope)''),
    (0x8024400C, L ''WU_E_PT_SOAP_MUST_UNDERSTAND'' @ CRLF @ L ''(Same as SOAP_E_MUST_UNDERSTAND - SOAP client was unable to understand a header)''),
    (0x8024400D, L ''WU_E_PT_SOAP_CLIENT'' @ CRLF @ L ''(Same as SOAP_E_CLIENT - SOAP client found the message was malformed; fix before resending)''),
    (0x8024400E, L ''WU_E_PT_SOAP_SERVER'' @ CRLF @ L ''(Same as SOAP_E_SERVER - The SOAP message could not be processed due to a server error; resend later)''),
    (0x8024400F, L ''WU_E_PT_WMI_ERROR'' @ CRLF @ L ''(There was an unspecified Windows Management Instrumentation (WMI) error)''),
    (0x80244010, L ''WU_E_PT_EXCEEDED_MAX_SERVER_TRIPS'' @ CRLF @ L ''(The number of round trips to the server exceeded the maximum limit)''),
    (0x80244011, L ''WU_E_PT_SUS_SERVER_NOT_SET'' @ CRLF @ L ''(WUServer policy value is missing in the registry)''),
    (0x80244012, L ''WU_E_PT_DOUBLE_INITIALIZATION'' @ CRLF @ L ''(Initialization failed because the object was already initialized)''),
    (0x80244013, L ''WU_E_PT_INVALID_COMPUTER_NAME'' @ CRLF @ L ''(The computer name could not be determined)''),
    (0x80244015, L ''WU_E_PT_REFRESH_CACHE_REQUIRED'' @ CRLF @ L ''(The reply from the server indicates that the server was changed or the cookie was invalid; refresh the state of the internal cache and retry)''),
    (0x80244016, L ''WU_E_PT_HTTP_STATUS_BAD_REQUEST'' @ CRLF @ L ''(Same as HTTP status 400 - the server could not process the request due to invalid syntax)''),
    (0x80244017, L ''WU_E_PT_HTTP_STATUS_DENIED'' @ CRLF @ L ''(Same as HTTP status 401 - the requested resource requires user authentication)''),
    (0x80244018, L ''WU_E_PT_HTTP_STATUS_FORBIDDEN'' @ CRLF @ L ''(Same as HTTP status 403 - server understood the request, but declined to fulfill it)''),
    (0x80244019, L ''WU_E_PT_HTTP_STATUS_NOT_FOUND'' @ CRLF @ L ''(Same as HTTP status 404 - the server cannot find the requested URI (Uniform Resource Identifier))''),
    (0x8024401A, L ''WU_E_PT_HTTP_STATUS_BAD_METHOD'' @ CRLF @ L ''(Same as HTTP status 405 - the HTTP method is not allowed)''),
    (0x8024401B, L ''WU_E_PT_HTTP_STATUS_PROXY_AUTH_REQ'' @ CRLF @ L ''(Same as HTTP status 407 - proxy authentication is required)''),
    (0x8024401C, L ''WU_E_PT_HTTP_STATUS_REQUEST_TIMEOUT'' @ CRLF @ L ''(Same as HTTP status 408 - the server timed out waiting for the request)''),
    (0x8024401D, L ''WU_E_PT_HTTP_STATUS_CONFLICT'' @ CRLF @ L ''(Same as HTTP status 409 - the request was not completed due to a conflict with the current state of the resource)''),
    (0x8024401E, L ''WU_E_PT_HTTP_STATUS_GONE'' @ CRLF @ L ''(Same as HTTP status 410 - requested resource is no longer available at the server)''),
    (0x8024401F, L ''WU_E_PT_HTTP_STATUS_SERVER_ERROR'' @ CRLF @ L ''(Same as HTTP status 500 - an error internal to the server prevented fulfilling the request)''),
    (0x80244020, L ''WU_E_PT_HTTP_STATUS_NOT_SUPPORTED'' @ CRLF @ L ''(Same as HTTP status 500 - server does not support the functionality required to fulfill the request)''),
    (0x80244021, L ''WU_E_PT_HTTP_STATUS_BAD_GATEWAY'' @ CRLF @ L ''(Same as HTTP status 502 - the server, while acting as a gateway or proxy, received an invalid response from the upstream server it accessed in attempting to fulfill the request)''),
    (0x80244022, L ''WU_E_PT_HTTP_STATUS_SERVICE_UNAVAIL'' @ CRLF @ L ''(Same as HTTP status 503 - the service is temporarily overloaded)''),
    (0x80244023, L ''WU_E_PT_HTTP_STATUS_GATEWAY_TIMEOUT'' @ CRLF @ L ''(Same as HTTP status 503 - the request was timed out waiting for a gateway)''),
    (0x80244024, L ''WU_E_PT_HTTP_STATUS_VERSION_NOT_SUP'' @ CRLF @ L ''(Same as HTTP status 505 - the server does not support the HTTP protocol version used for the request)''),
    (0x80244025, L ''WU_E_PT_FILE_LOCATIONS_CHANGED'' @ CRLF @ L ''(Operation failed due to a changed file location; refresh internal state and resend)''),
    (0x80244026, L ''WU_E_PT_REGISTRATION_NOT_SUPPORTED'' @ CRLF @ L ''(Operation failed because Windows Update Agent does not support registration with a non-WSUS server)''),
    (0x80244027, L ''WU_E_PT_NO_AUTH_PLUGINS_REQUESTED'' @ CRLF @ L ''(The server returned an empty authentication information list)''),
    (0x80244028, L ''WU_E_PT_NO_AUTH_COOKIES_CREATED'' @ CRLF @ L ''(Windows Update Agent was unable to create any valid authentication cookies)''),
    (0x80244029, L ''WU_E_PT_INVALID_CONFIG_PROP'' @ CRLF @ L ''(A configuration property value was wrong)''),
    (0x8024402A, L ''WU_E_PT_CONFIG_PROP_MISSING'' @ CRLF @ L ''(A configuration property value was missing)''),
    (0x8024402B, L ''WU_E_PT_HTTP_STATUS_NOT_MAPPED'' @ CRLF @ L ''(The HTTP request could not be completed and the reason did not correspond to any of the WU_E_PT_HTTP_* error codes)''),
    (0x8024402C, L ''WU_E_PT_WINHTTP_NAME_NOT_RESOLVED'' @ CRLF @ L ''(Same as ERROR_WINHTTP_NAME_NOT_RESOLVED - the proxy server or target server name cannot be resolved)''),
    (0x8024402D, L ''WU_E_PT_LOAD_SHEDDING'' @ CRLF @ L ''(The server is shedding load)''),
    (0x8024402E, L ''WU_E_PT_CLIENT_ENFORCED_LOAD_SHEDDING'' @ CRLF @ L ''(Windows Update Agent is enforcing honoring the service load shedding interval)''),
    (0x8024502D, L ''WU_E_PT_SAME_REDIR_ID'' @ CRLF @ L ''(Windows Update Agent failed to download a redirector cabinet file with a new redirectorId value from the server during the recovery)''),
    (0x8024502E, L ''WU_E_PT_NO_MANAGED_RECOVER'' @ CRLF @ L ''(A redirector recovery action did not complete because the server is managed)''),
    (0x8024402F, L ''WU_E_PT_ECP_SUCCEEDED_WITH_ERRORS'' @ CRLF @ L ''(External cab file processing completed with some errors)''),
    (0x80244030, L ''WU_E_PT_ECP_INIT_FAILED'' @ CRLF @ L ''(The external cab processor initialization did not complete)''),
    (0x80244031, L ''WU_E_PT_ECP_INVALID_FILE_FORMAT'' @ CRLF @ L ''(The format of a metadata file was invalid)''),
    (0x80244032, L ''WU_E_PT_ECP_INVALID_METADATA'' @ CRLF @ L ''(External cab processor found invalid metadata)''),
    (0x80244033, L ''WU_E_PT_ECP_FAILURE_TO_EXTRACT_DIGEST'' @ CRLF @ L ''(The file digest could not be extracted from an external cab file)''),
    (0x80244034, L ''WU_E_PT_ECP_FAILURE_TO_DECOMPRESS_CAB_FILE'' @ CRLF @ L ''(An external cab file could not be decompressed)''),
    (0x80244035, L ''WU_E_PT_ECP_FILE_LOCATION_ERROR'' @ CRLF @ L ''(External cab processor was unable to get file locations)''),
    (0x80240436, L ''WU_E_PT_CATALOG_SYNC_REQUIRED'' @ CRLF @ L ''(The server does not support category-specific search; Full catalog search has to be issued instead)''),
    (0x80240437, L ''WU_E_PT_SECURITY_VERIFICATION_FAILURE'' @ CRLF @ L ''(There was a problem authorizing with the service)''),
    (0x80240438, L ''WU_E_PT_ENDPOINT_UNREACHABLE'' @ CRLF @ L ''(There is no route or network connectivity to the endpoint)''),
    (0x80240439, L ''WU_E_PT_INVALID_FORMAT'' @ CRLF @ L ''(The data received does not meet the data contract expectations)''),
    (0x8024043A, L ''WU_E_PT_INVALID_URL'' @ CRLF @ L ''(The url is invalid)''),
    (0x8024043B, L ''WU_E_PT_NWS_NOT_LOADED'' @ CRLF @ L ''(Unable to load NWS runtime)''),
    (0x8024043C, L ''WU_E_PT_PROXY_AUTH_SCHEME_NOT_SUPPORTED'' @ CRLF @ L ''(The proxy auth scheme is not supported)''),
    (0x8024043D, L ''WU_E_SERVICEPROP_NOTAVAIL'' @ CRLF @ L ''(The requested service property is not available)''),
    (0x8024043E, L ''WU_E_PT_ENDPOINT_REFRESH_REQUIRED'' @ CRLF @ L ''(The endpoint provider plugin requires online refresh)''),
    (0x8024043F, L ''WU_E_PT_ENDPOINTURL_NOTAVAIL'' @ CRLF @ L ''(A URL for the requested service endpoint is not available)''),
    (0x80240440, L ''WU_E_PT_ENDPOINT_DISCONNECTED'' @ CRLF @ L ''(The connection to the service endpoint died)''),
    (0x80240441, L ''WU_E_PT_INVALID_OPERATION'' @ CRLF @ L ''(The operation is invalid because protocol talker is in an inappropriate state)''),
    (0x80240442, L ''WU_E_PT_OBJECT_FAULTED'' @ CRLF @ L ''(The object is in a faulted state due to a previous error)''),
    (0x80240443, L ''WU_E_PT_NUMERIC_OVERFLOW'' @ CRLF @ L ''(The operation would lead to numeric overflow)''),
    (0x80240444, L ''WU_E_PT_OPERATION_ABORTED'' @ CRLF @ L ''(The operation was aborted)''),
    (0x80240445, L ''WU_E_PT_OPERATION_ABANDONED'' @ CRLF @ L ''(The operation was abandoned)''),
    (0x80240446, L ''WU_E_PT_QUOTA_EXCEEDED'' @ CRLF @ L ''(A quota was exceeded)''),
    (0x80240447, L ''WU_E_PT_NO_TRANSLATION_AVAILABLE'' @ CRLF @ L ''(The information was not available in the specified language)''),
    (0x80240448, L ''WU_E_PT_ADDRESS_IN_USE'' @ CRLF @ L ''(The address is already being used)''),
    (0x80240449, L ''WU_E_PT_ADDRESS_NOT_AVAILABLE'' @ CRLF @ L ''(The address is not valid for this context)''),
    (0x8024044A, L ''WU_E_PT_OTHER'' @ CRLF @ L ''(Unrecognized error occurred in the Windows Web Services framework)''),
    (0x8024044B, L ''WU_E_PT_SECURITY_SYSTEM_FAILURE'' @ CRLF @ L ''(A security operation failed in the Windows Web Services framework)''),
    (0x80244100, L ''WU_E_PT_DATA_BOUNDARY_RESTRICTED'' @ CRLF @ L ''(The client is data boundary restricted and needs to talk to a restricted endpoint)''),
    (0x80244101, L ''WU_E_PT_GENERAL_AAD_CLIENT_ERROR'' @ CRLF @ L ''(The client hit an error in retrieving AAD device ticket)''),
    (0x80244FFF, L ''WU_E_PT_UNEXPECTED'' @ CRLF @ L ''(A communication error not covered by another WU_E_PT_* error code)''),
    (0x80245001, L ''WU_E_REDIRECTOR_LOAD_XML'' @ CRLF @ L ''(The redirector XML document could not be loaded into the DOM class)''),
    (0x80245002, L ''WU_E_REDIRECTOR_S_FALSE'' @ CRLF @ L ''(The redirector XML document is missing some required information)''),
    (0x80245003, L ''WU_E_REDIRECTOR_ID_SMALLER'' @ CRLF @ L ''(The redirectorId in the downloaded redirector cab is less than in the cached cab)''),
    (0x80245004, L ''WU_E_REDIRECTOR_UNKNOWN_SERVICE'' @ CRLF @ L ''(The service ID is not supported in the service environment)''),
    (0x80245005, L ''WU_E_REDIRECTOR_UNSUPPORTED_CONTENTTYPE'' @ CRLF @ L ''(The response from the redirector server had an unsupported content type)''),
    (0x80245006, L ''WU_E_REDIRECTOR_INVALID_RESPONSE'' @ CRLF @ L ''(The response from the redirector server had an error status or was invalid)''),
    (0x80245008, L ''WU_E_REDIRECTOR_ATTRPROVIDER_EXCEEDED_MAX_NAMEVALUE'' @ CRLF @ L ''(The maximum number of name value pairs was exceeded by the attribute provider)''),
    (0x80245009, L ''WU_E_REDIRECTOR_ATTRPROVIDER_INVALID_NAME'' @ CRLF @ L ''(The name received from the attribute provider was invalid)''),
    (0x8024500A, L ''WU_E_REDIRECTOR_ATTRPROVIDER_INVALID_VALUE'' @ CRLF @ L ''(The value received from the attribute provider was invalid)''),
    (0x8024500B, L ''WU_E_REDIRECTOR_SLS_GENERIC_ERROR'' @ CRLF @ L ''(There was an error in connecting to or parsing the response from the Service Locator Service redirector server)''),
    (0x8024500C, L ''WU_E_REDIRECTOR_CONNECT_POLICY'' @ CRLF @ L ''(Connections to the redirector server are disallowed by managed policy)''),
    (0x8024500D, L ''WU_E_REDIRECTOR_ONLINE_DISALLOWED'' @ CRLF @ L ''(The redirector would go online but is disallowed by caller configuration)''),
    (0x802450FF, L ''WU_E_REDIRECTOR_UNEXPECTED'' @ CRLF @ L ''(The redirector failed for reasons not covered by another WU_E_REDIRECTOR_* error code)''),
    (0x80245101, L ''WU_E_SIH_VERIFY_DOWNLOAD_ENGINE'' @ CRLF @ L ''(Verification of the servicing engine package failed)''),
    (0x80245102, L ''WU_E_SIH_VERIFY_DOWNLOAD_PAYLOAD'' @ CRLF @ L ''(Verification of a servicing package failed)''),
    (0x80245103, L ''WU_E_SIH_VERIFY_STAGE_ENGINE'' @ CRLF @ L ''(Verification of the staged engine failed)''),
    (0x80245104, L ''WU_E_SIH_VERIFY_STAGE_PAYLOAD'' @ CRLF @ L ''(Verification of a staged payload failed)''),
    (0x80245105, L ''WU_E_SIH_ACTION_NOT_FOUND'' @ CRLF @ L ''(An internal error occurred where the servicing action was not found)''),
    (0x80245106, L ''WU_E_SIH_SLS_PARSE'' @ CRLF @ L ''(There was a parse error in the service environment response)''),
    (0x80245107, L ''WU_E_SIH_INVALIDHASH'' @ CRLF @ L ''(A downloaded file failed an integrity check)''),
    (0x80245108, L ''WU_E_SIH_NO_ENGINE'' @ CRLF @ L ''(No engine was provided by the server-initiated healing server response)''),
    (0x80245109, L ''WU_E_SIH_POST_REBOOT_INSTALL_FAILED'' @ CRLF @ L ''(Post-reboot install failed)''),
    (0x8024510A, L ''WU_E_SIH_POST_REBOOT_NO_CACHED_SLS_RESPONSE'' @ CRLF @ L ''(There were pending reboot actions, but cached SLS response was not found post-reboot)''),
    (0x8024510B, L ''WU_E_SIH_PARSE'' @ CRLF @ L ''(Parsing command line arguments failed)''),
    (0x8024510C, L ''WU_E_SIH_SECURITY'' @ CRLF @ L ''(Security check failed)''),
    (0x8024510D, L ''WU_E_SIH_PPL'' @ CRLF @ L ''(PPL check failed)''),
    (0x8024510E, L ''WU_E_SIH_POLICY'' @ CRLF @ L ''(Execution was disabled by policy)''),
    (0x8024510F, L ''WU_E_SIH_STDEXCEPTION'' @ CRLF @ L ''(A standard exception was caught)''),
    (0x80245110, L ''WU_E_SIH_NONSTDEXCEPTION'' @ CRLF @ L ''(A non-standard exception was caught)''),
    (0x80245111, L ''WU_E_SIH_ENGINE_EXCEPTION'' @ CRLF @ L ''(The server-initiated healing engine encountered an exception not covered by another WU_E_SIH_* error code)''),
    (0x80245112, L ''WU_E_SIH_BLOCKED_FOR_PLATFORM'' @ CRLF @ L ''(You are running SIH Client with cmd not supported on your platform)''),
    (0x80245113, L ''WU_E_SIH_ANOTHER_INSTANCE_RUNNING'' @ CRLF @ L ''(Another SIH Client is already running)''),
    (0x80245114, L ''WU_E_SIH_DNSRESILIENCY_OFF'' @ CRLF @ L ''(Disable DNS resiliency feature per service configuration)''),
    (0x802451FF, L ''WU_E_SIH_UNEXPECTED'' @ CRLF @ L ''(There was a failure for reasons not covered by another WU_E_SIH_* error code)''),
    (0x8024C001, L ''WU_E_DRV_PRUNED'' @ CRLF @ L ''(A driver was skipped)''),
    (0x8024C002, L ''WU_E_DRV_NOPROP_OR_LEGACY'' @ CRLF @ L ''(A property for the driver could not be found. It may not conform with required specifications)''),
    (0x8024C003, L ''WU_E_DRV_REG_MISMATCH'' @ CRLF @ L ''(The registry type read for the driver does not match the expected type)''),
    (0x8024C004, L ''WU_E_DRV_NO_METADATA'' @ CRLF @ L ''(The driver update is missing metadata)''),
    (0x8024C005, L ''WU_E_DRV_MISSING_ATTRIBUTE'' @ CRLF @ L ''(The driver update is missing a required attribute)''),
    (0x8024C006, L ''WU_E_DRV_SYNC_FAILED'' @ CRLF @ L ''(Driver synchronization failed)''),
    (0x8024C007, L ''WU_E_DRV_NO_PRINTER_CONTENT'' @ CRLF @ L ''(Information required for the synchronization of applicable printers is missing)''),
    (0x8024C008, L ''WU_E_DRV_DEVICE_PROBLEM'' @ CRLF @ L ''(After installing a driver update, the updated device has reported a problem)''),
    (0x8024CFFF, L ''WU_E_DRV_UNEXPECTED'' @ CRLF @ L ''(A driver error not covered by another WU_E_DRV_* code)''),
    (0x80248000, L ''WU_E_DS_SHUTDOWN'' @ CRLF @ L ''(An operation failed because Windows Update Agent is shutting down)''),
    (0x80248001, L ''WU_E_DS_INUSE'' @ CRLF @ L ''(An operation failed because the data store was in use)''),
    (0x80248002, L ''WU_E_DS_INVALID'' @ CRLF @ L ''(The current and expected states of the data store do not match)''),
    (0x80248003, L ''WU_E_DS_TABLEMISSING'' @ CRLF @ L ''(The data store is missing a table)''),
    (0x80248004, L ''WU_E_DS_TABLEINCORRECT'' @ CRLF @ L ''(The data store contains a table with unexpected columns)''),
    (0x80248005, L ''WU_E_DS_INVALIDTABLENAME'' @ CRLF @ L ''(A table could not be opened because the table is not in the data store)''),
    (0x80248006, L ''WU_E_DS_BADVERSION'' @ CRLF @ L ''(The current and expected versions of the data store do not match)''),
    (0x80248007, L ''WU_E_DS_NODATA'' @ CRLF @ L ''(The information requested is not in the data store)''),
    (0x80248008, L ''WU_E_DS_MISSINGDATA'' @ CRLF @ L ''(The data store is missing required information or has a NULL in a table column that requires a non-null value)''),
    (0x80248009, L ''WU_E_DS_MISSINGREF'' @ CRLF @ L ''(The data store is missing required information or has a reference to missing license terms, file, localized property or linked row)''),
    (0x8024800A, L ''WU_E_DS_UNKNOWNHANDLER'' @ CRLF @ L ''(The update was not processed because its update handler could not be recognized)''),
    (0x8024800B, L ''WU_E_DS_CANTDELETE'' @ CRLF @ L ''(The update was not deleted because it is still referenced by one or more services)''),
    (0x8024800C, L ''WU_E_DS_LOCKTIMEOUTEXPIRED'' @ CRLF @ L ''(The data store section could not be locked within the allotted time)''),
    (0x8024800D, L ''WU_E_DS_NOCATEGORIES'' @ CRLF @ L ''(The category was not added because it contains no parent categories and is not a top-level category itself)''),
    (0x8024800E, L ''WU_E_DS_ROWEXISTS'' @ CRLF @ L ''(The row was not added because an existing row has the same primary key)''),
    (0x8024800F, L ''WU_E_DS_STOREFILELOCKED'' @ CRLF @ L ''(The data store could not be initialized because it was locked by another process)''),
    (0x80248010, L ''WU_E_DS_CANNOTREGISTER'' @ CRLF @ L ''(The data store is not allowed to be registered with COM in the current process)''),
    (0x80248011, L ''WU_E_DS_UNABLETOSTART'' @ CRLF @ L ''(Could not create a data store object in another process)''),
    (0x80248013, L ''WU_E_DS_DUPLICATEUPDATEID'' @ CRLF @ L ''(The server sent the same update to the client with two different revision IDs)''),
    (0x80248014, L ''WU_E_DS_UNKNOWNSERVICE'' @ CRLF @ L ''(An operation did not complete because the service is not in the data store)''),
    (0x80248015, L ''WU_E_DS_SERVICEEXPIRED'' @ CRLF @ L ''(An operation did not complete because the registration of the service has expired)''),
    (0x80248016, L ''WU_E_DS_DECLINENOTALLOWED'' @ CRLF @ L ''(A request to hide an update was declined because it is a mandatory update or because it was deployed with a deadline)''),
    (0x80248017, L ''WU_E_DS_TABLESESSIONMISMATCH'' @ CRLF @ L ''(A table was not closed because it is not associated with the session)''),
    (0x80248018, L ''WU_E_DS_SESSIONLOCKMISMATCH'' @ CRLF @ L ''(A table was not closed because it is not associated with the session)''),
    (0x80248019, L ''WU_E_DS_NEEDWINDOWSSERVICE'' @ CRLF @ L ''(A request to remove the Windows Update service or to unregister it with Automatic Updates was declined because it is a built-in service and/or Automatic Updates cannot fall back to another service)''),
    (0x8024801A, L ''WU_E_DS_INVALIDOPERATION'' @ CRLF @ L ''(A request was declined because the operation is not allowed)''),
    (0x8024801B, L ''WU_E_DS_SCHEMAMISMATCH'' @ CRLF @ L ''(The schema of the current data store and the schema of a table in a backup XML document do not match)''),
    (0x8024801C, L ''WU_E_DS_RESETREQUIRED'' @ CRLF @ L ''(The data store requires a session reset; release the session and retry with a new session)''),
    (0x8024801D, L ''WU_E_DS_IMPERSONATED'' @ CRLF @ L ''(A data store operation did not complete because it was requested with an impersonated identity)''),
    (0x8024801E, L ''WU_E_DS_DATANOTAVAILABLE'' @ CRLF @ L ''(An operation against update metadata did not complete because the data was never received from server)''),
    (0x8024801F, L ''WU_E_DS_DATANOTLOADED'' @ CRLF @ L ''(An operation against update metadata did not complete because the data was available but not loaded from datastore)''),
    (0x80248020, L ''WU_E_DS_NODATA_NOSUCHREVISION'' @ CRLF @ L ''(A data store operation did not complete because no such update revision is known)''),
    (0x80248021, L ''WU_E_DS_NODATA_NOSUCHUPDATE'' @ CRLF @ L ''(A data store operation did not complete because no such update is known)''),
    (0x80248022, L ''WU_E_DS_NODATA_EULA'' @ CRLF @ L ''(A data store operation did not complete because an update's EULA information is missing)''),
    (0x80248023, L ''WU_E_DS_NODATA_SERVICE'' @ CRLF @ L ''(A data store operation did not complete because a service's information is missing)''),
    (0x80248024, L ''WU_E_DS_NODATA_COOKIE'' @ CRLF @ L ''(A data store operation did not complete because a service's synchronization information is missing)''),
    (0x80248025, L ''WU_E_DS_NODATA_TIMER'' @ CRLF @ L ''(A data store operation did not complete because a timer's information is missing)''),
    (0x80248026, L ''WU_E_DS_NODATA_CCR'' @ CRLF @ L ''(A data store operation did not complete because a download's information is missing)''),
    (0x80248027, L ''WU_E_DS_NODATA_FILE'' @ CRLF @ L ''(A data store operation did not complete because a file's information is missing)''),
    (0x80248028, L ''WU_E_DS_NODATA_DOWNLOADJOB'' @ CRLF @ L ''(A data store operation did not complete because a download job's information is missing)''),
    (0x80248029, L ''WU_E_DS_NODATA_TMI'' @ CRLF @ L ''(A data store operation did not complete because a service's timestamp information is missing)''),
    (0x80248FFF, L ''WU_E_DS_UNEXPECTED'' @ CRLF @ L ''(A data store error not covered by another WU_E_DS_* code)''),
    (0x80249001, L ''WU_E_INVENTORY_PARSEFAILED'' @ CRLF @ L ''(Parsing of the rule file failed)''),
    (0x80249002, L ''WU_E_INVENTORY_GET_INVENTORY_TYPE_FAILED'' @ CRLF @ L ''(Failed to get the requested inventory type from the server)''),
    (0x80249003, L ''WU_E_INVENTORY_RESULT_UPLOAD_FAILED'' @ CRLF @ L ''(Failed to upload inventory result to the server)''),
    (0x80249004, L ''WU_E_INVENTORY_UNEXPECTED'' @ CRLF @ L ''(There was an inventory error not covered by another error code)''),
    (0x80249005, L ''WU_E_INVENTORY_WMI_ERROR'' @ CRLF @ L ''(A WMI error occurred when enumerating the instances for a particular class)''),
    (0x8024A000, L ''WU_E_AU_NOSERVICE'' @ CRLF @ L ''(Automatic Updates was unable to service incoming requests)''),
    (0x8024A002, L ''WU_E_AU_NONLEGACYSERVER'' @ CRLF @ L ''(The old version of the Automatic Updates client has stopped because the WSUS server has been upgraded)''),
    (0x8024A003, L ''WU_E_AU_LEGACYCLIENTDISABLED'' @ CRLF @ L ''(The old version of the Automatic Updates client was disabled)''),
    (0x8024A004, L ''WU_E_AU_PAUSED'' @ CRLF @ L ''(Automatic Updates was unable to process incoming requests because it was paused)''),
    (0x8024A005, L ''WU_E_AU_NO_REGISTERED_SERVICE'' @ CRLF @ L ''(No unmanaged service is registered with AU)''),
    (0x8024A006, L ''WU_E_AU_DETECT_SVCID_MISMATCH'' @ CRLF @ L ''(The default service registered with AU changed during the search)''),
    (0x8024A007, L ''WU_E_REBOOT_IN_PROGRESS'' @ CRLF @ L ''(A reboot is in progress)''),
    (0x8024A008, L ''WU_E_AU_OOBE_IN_PROGRESS'' @ CRLF @ L ''(Automatic Updates can't process incoming requests while Windows Welcome is running)''),
    (0x8024AFFF, L ''WU_E_AU_UNEXPECTED'' @ CRLF @ L ''(An Automatic Updates error not covered by another WU_E_AU * code)''),
    (0x80242000, L ''WU_E_UH_REMOTEUNAVAILABLE'' @ CRLF @ L ''(A request for a remote update handler could not be completed because no remote process is available)''),
    (0x80242001, L ''WU_E_UH_LOCALONLY'' @ CRLF @ L ''(A request for a remote update handler could not be completed because the handler is local only)''),
    (0x80242002, L ''WU_E_UH_UNKNOWNHANDLER'' @ CRLF @ L ''(A request for an update handler could not be completed because the handler could not be recognized)''),
    (0x80242003, L ''WU_E_UH_REMOTEALREADYACTIVE'' @ CRLF @ L ''(A remote update handler could not be created because one already exists)''),
    (0x80242004, L ''WU_E_UH_DOESNOTSUPPORTACTION'' @ CRLF @ L ''(A request for the handler to install (uninstall) an update could not be completed because the update does not support install (uninstall))''),
    (0x80242005, L ''WU_E_UH_WRONGHANDLER'' @ CRLF @ L ''(An operation did not complete because the wrong handler was specified)''),
    (0x80242006, L ''WU_E_UH_INVALIDMETADATA'' @ CRLF @ L ''(A handler operation could not be completed because the update contains invalid metadata)''),
    (0x80242007, L ''WU_E_UH_INSTALLERHUNG'' @ CRLF @ L ''(An operation could not be completed because the installer exceeded the time limit)''),
    (0x80242008, L ''WU_E_UH_OPERATIONCANCELLED'' @ CRLF @ L ''(An operation being done by the update handler was cancelled)''),
    (0x80242009, L ''WU_E_UH_BADHANDLERXML'' @ CRLF @ L ''(An operation could not be completed because the handler-specific metadata is invalid)''),
    (0x8024200A, L ''WU_E_UH_CANREQUIREINPUT'' @ CRLF @ L ''(A request to the handler to install an update could not be completed because the update requires user input)''),
    (0x8024200B, L ''WU_E_UH_INSTALLERFAILURE'' @ CRLF @ L ''(The installer failed to install (uninstall) one or more updates)''),
    (0x8024200C, L ''WU_E_UH_FALLBACKTOSELFCONTAINED'' @ CRLF @ L ''(The update handler should download self-contained content rather than delta-compressed content for the update)''),
    (0x8024200D, L ''WU_E_UH_NEEDANOTHERDOWNLOAD'' @ CRLF @ L ''(The update handler did not install the update because it needs to be downloaded again)''),
    (0x8024200E, L ''WU_E_UH_NOTIFYFAILURE'' @ CRLF @ L ''(The update handler failed to send notification of the status of the install (uninstall) operation)''),
    (0x8024200F, L ''WU_E_UH_INCONSISTENT_FILE_NAMES'' @ CRLF @ L ''(The file names contained in the update metadata and in the update package are inconsistent)''),
    (0x80242010, L ''WU_E_UH_FALLBACKERROR'' @ CRLF @ L ''(The update handler failed to fall back to the self-contained content)''),
    (0x80242011, L ''WU_E_UH_TOOMANYDOWNLOADREQUESTS'' @ CRLF @ L ''(The update handler has exceeded the maximum number of download requests)''),
    (0x80242012, L ''WU_E_UH_UNEXPECTEDCBSRESPONSE'' @ CRLF @ L ''(The update handler has received an unexpected response from CBS)''),
    (0x80242013, L ''WU_E_UH_BADCBSPACKAGEID'' @ CRLF @ L ''(The update metadata contains an invalid CBS package identifier)''),
    (0x80242014, L ''WU_E_UH_POSTREBOOTSTILLPENDING'' @ CRLF @ L ''(The post-reboot operation for the update is still in progress)''),
    (0x80242015, L ''WU_E_UH_POSTREBOOTRESULTUNKNOWN'' @ CRLF @ L ''(The result of the post-reboot operation for the update could not be determined)''),
    (0x80242016, L ''WU_E_UH_POSTREBOOTUNEXPECTEDSTATE'' @ CRLF @ L ''(The state of the update after its post-reboot operation has completed is unexpected)''),
    (0x80242017, L ''WU_E_UH_NEW_SERVICING_STACK_REQUIRED'' @ CRLF @ L ''(The OS servicing stack must be updated before this update is downloaded or installed)''),
    (0x80242018, L ''WU_E_UH_CALLED_BACK_FAILURE'' @ CRLF @ L ''(A callback installer called back with an error)''),
    (0x80242019, L ''WU_E_UH_CUSTOMINSTALLER_INVALID_SIGNATURE'' @ CRLF @ L ''(The custom installer signature did not match the signature required by the update)''),
    (0x8024201A, L ''WU_E_UH_UNSUPPORTED_INSTALLCONTEXT'' @ CRLF @ L ''(The installer does not support the installation configuration)''),
    (0x8024201B, L ''WU_E_UH_INVALID_TARGETSESSION'' @ CRLF @ L ''(The targeted session for install is invalid)''),
    (0x8024201C, L ''WU_E_UH_DECRYPTFAILURE'' @ CRLF @ L ''(The handler failed to decrypt the update files)''),
    (0x8024201D, L ''WU_E_UH_HANDLER_DISABLEDUNTILREBOOT'' @ CRLF @ L ''(The update handler is disabled until the system reboots)''),
    (0x8024201E, L ''WU_E_UH_APPX_NOT_PRESENT'' @ CRLF @ L ''(The AppX infrastructure is not present on the system)''),
    (0x8024201F, L ''WU_E_UH_NOTREADYTOCOMMIT'' @ CRLF @ L ''(The update cannot be committed because it has not been previously installed or staged)''),
    (0x80242020, L ''WU_E_UH_APPX_INVALID_PACKAGE_VOLUME'' @ CRLF @ L ''(The specified volume is not a valid AppX package volume)''),
    (0x80242021, L ''WU_E_UH_APPX_DEFAULT_PACKAGE_VOLUME_UNAVAILABLE'' @ CRLF @ L ''(The configured default storage volume is unavailable)''),
    (0x80242022, L ''WU_E_UH_APPX_INSTALLED_PACKAGE_VOLUME_UNAVAILABLE'' @ CRLF @ L ''(The volume on which the application is installed is unavailable)''),
    (0x80242023, L ''WU_E_UH_APPX_PACKAGE_FAMILY_NOT_FOUND'' @ CRLF @ L ''(The specified package family is not present on the system)''),
    (0x80242024, L ''WU_E_UH_APPX_SYSTEM_VOLUME_NOT_FOUND'' @ CRLF @ L ''(Unable to find a package volume marked as system)''),
    (0x80242025, L ''WU_E_UH_UA_SESSION_INFO_VERSION_NOT_SUPPORTED'' @ CRLF @ L ''(UA does not support the version of OptionalSessionInfo)''),
    (0x80242026, L ''WU_E_UH_RESERVICING_REQUIRED_BASELINE'' @ CRLF @ L ''(This operation cannot be completed. You must install the baseline update(s) before you can install this update)''),
    (0x80242FFF, L ''WU_E_UH_UNEXPECTED'' @ CRLF @ L ''(An update handler error not covered by another WU_E_UH_* code)''),
    (0x80246001, L ''WU_E_DM_URLNOTAVAILABLE'' @ CRLF @ L ''(A download manager operation could not be completed because the requested file does not have a URL)''),
    (0x80246002, L ''WU_E_DM_INCORRECTFILEHASH'' @ CRLF @ L ''(A download manager operation could not be completed because the file digest was not recognized)''),
    (0x80246003, L ''WU_E_DM_UNKNOWNALGORITHM'' @ CRLF @ L ''(A download manager operation could not be completed because the file metadata requested an unrecognized hash algorithm)''),
    (0x80246004, L ''WU_E_DM_NEEDDOWNLOADREQUEST'' @ CRLF @ L ''(An operation could not be completed because a download request is required from the download handler)''),
    (0x80246005, L ''WU_E_DM_NONETWORK'' @ CRLF @ L ''(A download manager operation could not be completed because the network connection was unavailable)''),
    (0x80246006, L ''WU_E_DM_WRONGBITSVERSION'' @ CRLF @ L ''(A download manager operation could not be completed because the version of Background Intelligent Transfer Service (BITS) is incompatible)''),
    (0x80246007, L ''WU_E_DM_NOTDOWNLOADED'' @ CRLF @ L ''(The update has not been downloaded)''),
    (0x80246008, L ''WU_E_DM_FAILTOCONNECTTOBITS'' @ CRLF @ L ''(A download manager operation failed because the download manager was unable to connect the Background Intelligent Transfer Service (BITS))''),
    (0x80246009, L ''WU_E_DM_BITSTRANSFERERROR'' @ CRLF @ L ''(A download manager operation failed because there was an unspecified Background Intelligent Transfer Service (BITS) transfer error)''),
    (0x8024600A, L ''WU_E_DM_DOWNLOADLOCATIONCHANGED'' @ CRLF @ L ''(A download must be restarted because the location of the source of the download has changed)''),
    (0x8024600B, L ''WU_E_DM_CONTENTCHANGED'' @ CRLF @ L ''(A download must be restarted because the update content changed in a new revision)''),
    (0x8024600C, L ''WU_E_DM_DOWNLOADLIMITEDBYUPDATESIZE'' @ CRLF @ L ''(A download failed because the current network limits downloads by update size for the update service)''),
    (0x8024600E, L ''WU_E_DM_UNAUTHORIZED'' @ CRLF @ L ''(The download failed because the client was denied authorization to download the content)''),
    (0x8024600F, L ''WU_E_DM_BG_ERROR_TOKEN_REQUIRED'' @ CRLF @ L ''(The download failed because the user token associated with the BITS job no longer exists)''),
    (0x80246010, L ''WU_E_DM_DOWNLOADSANDBOXNOTFOUND'' @ CRLF @ L ''(The sandbox directory for the downloaded update was not found)''),
    (0x80246011, L ''WU_E_DM_DOWNLOADFILEPATHUNKNOWN'' @ CRLF @ L ''(The downloaded update has an unknown file path)''),
    (0x80246012, L ''WU_E_DM_DOWNLOADFILEMISSING'' @ CRLF @ L ''(One or more of the files for the downloaded update is missing)''),
    (0x80246013, L ''WU_E_DM_UPDATEREMOVED'' @ CRLF @ L ''(An attempt was made to access a downloaded update that has already been removed)''),
    (0x80246014, L ''WU_E_DM_READRANGEFAILED'' @ CRLF @ L ''(Windows Update couldn't find a needed portion of a downloaded update's file)''),
    (0x80246016, L ''WU_E_DM_UNAUTHORIZED_NO_USER'' @ CRLF @ L ''(The download failed because the client was denied authorization to download the content due to no user logged on)''),
    (0x80246017, L ''WU_E_DM_UNAUTHORIZED_LOCAL_USER'' @ CRLF @ L ''(The download failed because the local user was denied authorization to download the content)''),
    (0x80246018, L ''WU_E_DM_UNAUTHORIZED_DOMAIN_USER'' @ CRLF @ L ''(The download failed because the domain user was denied authorization to download the content)''),
    (0x80246019, L ''WU_E_DM_UNAUTHORIZED_MSA_USER'' @ CRLF @ L ''(The download failed because the MSA account associated with the user was denied authorization to download the content)''),
    (0x8024601A, L ''WU_E_DM_FALLINGBACKTOBITS'' @ CRLF @ L ''(The download will be continued by falling back to BITS to download the content)''),
    (0x8024601B, L ''WU_E_DM_DOWNLOAD_VOLUME_CONFLICT'' @ CRLF @ L ''(Another caller has requested download to a different volume)''),
    (0x8024601C, L ''WU_E_DM_SANDBOX_HASH_MISMATCH'' @ CRLF @ L ''(The hash of the update's sandbox does not match the expected value)''),
    (0x8024601D, L ''WU_E_DM_HARDRESERVEID_CONFLICT'' @ CRLF @ L ''(The hard reserve id specified conflicts with an id from another caller)''),
    (0x8024601E, L ''WU_E_DM_DOSVC_REQUIRED'' @ CRLF @ L ''(The update has to be downloaded via DO)''),
    (0x8024601F, L ''WU_E_DM_DOWNLOADTYPE_CONFLICT'' @ CRLF @ L ''(Windows Update only supports one download type per update at one time. The download failure is by design here since the same update with different download type is operating. Please try again later)''),
    (0x80246FFF, L ''WU_E_DM_UNEXPECTED'' @ CRLF @ L ''(There was a download manager error not covered by another WU_E_DM_* error code)''),
    (0x8024D001, L ''WU_E_SETUP_INVALID_INFDATA'' @ CRLF @ L ''(Windows Update Agent could not be updated because an INF file contains invalid information)''),
    (0x8024D002, L ''WU_E_SETUP_INVALID_IDENTDATA'' @ CRLF @ L ''(Windows Update Agent could not be updated because the wuident.cab file contains invalid information)''),
    (0x8024D003, L ''WU_E_SETUP_ALREADY_INITIALIZED'' @ CRLF @ L ''(Windows Update Agent could not be updated because of an internal error that caused setup initialization to be performed twice)''),
    (0x8024D004, L ''WU_E_SETUP_NOT_INITIALIZED'' @ CRLF @ L ''(Windows Update Agent could not be updated because setup initialization never completed successfully)''),
    (0x8024D005, L ''WU_E_SETUP_SOURCE_VERSION_MISMATCH'' @ CRLF @ L ''(Windows Update Agent could not be updated because the versions specified in the INF do not match the actual source file versions)''),
    (0x8024D006, L ''WU_E_SETUP_TARGET_VERSION_GREATER'' @ CRLF @ L ''(Windows Update Agent could not be updated because a WUA file on the target system is newer than the corresponding source file)''),
    (0x8024D007, L ''WU_E_SETUP_REGISTRATION_FAILED'' @ CRLF @ L ''(Windows Update Agent could not be updated because regsvr32.exe returned an error)''),
    (0x8024D008, L ''WU_E_SELFUPDATE_SKIP_ON_FAILURE'' @ CRLF @ L ''(An update to the Windows Update Agent was skipped because previous attempts to update have failed)''),
    (0x8024D009, L ''WU_E_SETUP_SKIP_UPDATE'' @ CRLF @ L ''(An update to the Windows Update Agent was skipped due to a directive in the wuident.cab file)''),
    (0x8024D00A, L ''WU_E_SETUP_UNSUPPORTED_CONFIGURATION'' @ CRLF @ L ''(Windows Update Agent could not be updated because the current system configuration is not supported)''),
    (0x8024D00B, L ''WU_E_SETUP_BLOCKED_CONFIGURATION'' @ CRLF @ L ''(Windows Update Agent could not be updated because the system is configured to block the update)''),
    (0x8024D00C, L ''WU_E_SETUP_REBOOT_TO_FIX'' @ CRLF @ L ''(Windows Update Agent could not be updated because a restart of the system is required)''),
    (0x8024D00D, L ''WU_E_SETUP_ALREADYRUNNING'' @ CRLF @ L ''(Windows Update Agent setup is already running)''),
    (0x8024D00E, L ''WU_E_SETUP_REBOOTREQUIRED'' @ CRLF @ L ''(Windows Update Agent setup package requires a reboot to complete installation)''),
    (0x8024D00F, L ''WU_E_SETUP_HANDLER_EXEC_FAILURE'' @ CRLF @ L ''(Windows Update Agent could not be updated because the setup handler failed during execution)''),
    (0x8024D010, L ''WU_E_SETUP_INVALID_REGISTRY_DATA'' @ CRLF @ L ''(Windows Update Agent could not be updated because the registry contains invalid information)''),
    (0x8024D011, L ''WU_E_SELFUPDATE_REQUIRED'' @ CRLF @ L ''(Windows Update Agent must be updated before search can continue)''),
    (0x8024D012, L ''WU_E_SELFUPDATE_REQUIRED_ADMIN'' @ CRLF @ L ''(Windows Update Agent must be updated before search can continue.  An administrator is required to perform the operation)''),
    (0x8024D013, L ''WU_E_SETUP_WRONG_SERVER_VERSION'' @ CRLF @ L ''(Windows Update Agent could not be updated because the server does not contain update information for this version)''),
    (0x8024D014, L ''WU_E_SETUP_DEFERRABLE_REBOOT_PENDING'' @ CRLF @ L ''(Windows Update Agent is successfully updated, but a reboot is required to complete the setup)''),
    (0x8024D015, L ''WU_E_SETUP_NON_DEFERRABLE_REBOOT_PENDING'' @ CRLF @ L ''(Windows Update Agent is successfully updated, but a reboot is required to complete the setup)''),
    (0x8024D016, L ''WU_E_SETUP_FAIL'' @ CRLF @ L ''(Windows Update Agent could not be updated because of an unknown error)''),
    (0x8024DFFF, L ''WU_E_SETUP_UNEXPECTED'' @ CRLF @ L ''(Windows Update Agent could not be updated because of an error not covered by another WU_E_SETUP_* error code)''),
    (0x8024E001, L ''WU_E_EE_UNKNOWN_EXPRESSION'' @ CRLF @ L ''(An expression evaluator operation could not be completed because an expression was unrecognized)''),
    (0x8024E002, L ''WU_E_EE_INVALID_EXPRESSION'' @ CRLF @ L ''(An expression evaluator operation could not be completed because an expression was invalid)''),
    (0x8024E003, L ''WU_E_EE_MISSING_METADATA'' @ CRLF @ L ''(An expression evaluator operation could not be completed because an expression contains an incorrect number of metadata nodes)''),
    (0x8024E004, L ''WU_E_EE_INVALID_VERSION'' @ CRLF @ L ''(An expression evaluator operation could not be completed because the version of the serialized expression data is invalid)''),
    (0x8024E005, L ''WU_E_EE_NOT_INITIALIZED'' @ CRLF @ L ''(The expression evaluator could not be initialized)''),
    (0x8024E006, L ''WU_E_EE_INVALID_ATTRIBUTEDATA'' @ CRLF @ L ''(An expression evaluator operation could not be completed because there was an invalid attribute)''),
    (0x8024E007, L ''WU_E_EE_CLUSTER_ERROR'' @ CRLF @ L ''(An expression evaluator operation could not be completed because the cluster state of the computer could not be determined)''),
    (0x8024EFFF, L ''WU_E_EE_UNEXPECTED'' @ CRLF @ L ''(There was an expression evaluator error not covered by another WU_E_EE_* error code)''),
    (0x80243001, L ''WU_E_INSTALLATION_RESULTS_UNKNOWN_VERSION'' @ CRLF @ L ''(The results of download and installation could not be read from the registry due to an unrecognized data format version)''),
    (0x80243002, L ''WU_E_INSTALLATION_RESULTS_INVALID_DATA'' @ CRLF @ L ''(The results of download and installation could not be read from the registry due to an invalid data format)''),
    (0x80243003, L ''WU_E_INSTALLATION_RESULTS_NOT_FOUND'' @ CRLF @ L ''(The results of download and installation are not available; the operation may have failed to start)''),
    (0x80243004, L ''WU_E_TRAYICON_FAILURE'' @ CRLF @ L ''(A failure occurred when trying to create an icon in the taskbar notification area)''),
    (0x80243FFD, L ''WU_E_NON_UI_MODE'' @ CRLF @ L ''(Unable to show UI when in non-UI mode; WU client UI modules may not be installed)''),
    (0x80243FFE, L ''WU_E_WUCLTUI_UNSUPPORTED_VERSION'' @ CRLF @ L ''(Unsupported version of WU client UI exported functions)''),
    (0x80243FFF, L ''WU_E_AUCLIENT_UNEXPECTED'' @ CRLF @ L ''(There was a user interface error not covered by another WU_E_AUCLIENT_* error code)''),
    (0x8024F001, L ''WU_E_REPORTER_EVENTCACHECORRUPT'' @ CRLF @ L ''(The event cache file was defective)''),
    (0x8024F002, L ''WU_E_REPORTER_EVENTNAMESPACEPARSEFAILED'' @ CRLF @ L ''(The XML in the event namespace descriptor could not be parsed)''),
    (0x8024F003, L ''WU_E_INVALID_EVENT'' @ CRLF @ L ''(The XML in the event namespace descriptor could not be parsed)''),
    (0x8024F004, L ''WU_E_SERVER_BUSY'' @ CRLF @ L ''(The server rejected an event because the server was too busy)''),
    (0x8024F005, L ''WU_E_CALLBACK_COOKIE_NOT_FOUND'' @ CRLF @ L ''(The specified callback cookie is not found)''),
    (0x8024FFFF, L ''WU_E_REPORTER_UNEXPECTED'' @ CRLF @ L ''(There was a reporter error not covered by another error code)''),
    (0x80247001, L ''WU_E_OL_INVALID_SCANFILE'' @ CRLF @ L ''(An operation could not be completed because the scan package was invalid)''),
    (0x80247002, L ''WU_E_OL_NEWCLIENT_REQUIRED'' @ CRLF @ L ''(An operation could not be completed because the scan package requires a greater version of the Windows Update Agent)''),
    (0x80247003, L ''WU_E_INVALID_EVENT_PAYLOAD'' @ CRLF @ L ''(An invalid event payload was specified)''),
    (0x80247004, L ''WU_E_INVALID_EVENT_PAYLOADSIZE'' @ CRLF @ L ''(The size of the event payload submitted is invalid)''),
    (0x80247005, L ''WU_E_SERVICE_NOT_REGISTERED'' @ CRLF @ L ''(The service is not registered)''),
    (0x80247FFF, L ''WU_E_OL_UNEXPECTED'' @ CRLF @ L ''(Search using the scan package failed)''),
    (0x80247100, L ''WU_E_METADATA_NOOP'' @ CRLF @ L ''(No operation was required by update metadata verification)''),
    (0x80247101, L ''WU_E_METADATA_CONFIG_INVALID_BINARY_ENCODING'' @ CRLF @ L ''(The binary encoding of metadata config data was invalid)''),
    (0x80247102, L ''WU_E_METADATA_FETCH_CONFIG'' @ CRLF @ L ''(Unable to fetch required configuration for metadata signature verification)''),
    (0x80247104, L ''WU_E_METADATA_INVALID_PARAMETER'' @ CRLF @ L ''(A metadata verification operation failed due to an invalid parameter)''),
    (0x80247105, L ''WU_E_METADATA_UNEXPECTED'' @ CRLF @ L ''(A metadata verification operation failed due to reasons not covered by another error code)''),
    (0x80247106, L ''WU_E_METADATA_NO_VERIFICATION_DATA'' @ CRLF @ L ''(None of the update metadata had verification data, which may be disabled on the update server)''),
    (0x80247107, L ''WU_E_METADATA_BAD_FRAGMENTSIGNING_CONFIG'' @ CRLF @ L ''(The fragment signing configuration used for verifying update metadata signatures was bad)''),
    (0x80247108, L ''WU_E_METADATA_FAILURE_PROCESSING_FRAGMENTSIGNING_CONFIG'' @ CRLF @ L ''(There was an unexpected operational failure while parsing fragment signing configuration)''),
    (0x80247120, L ''WU_E_METADATA_XML_MISSING'' @ CRLF @ L ''(Required xml data was missing from configuration)''),
    (0x80247121, L ''WU_E_METADATA_XML_FRAGMENTSIGNING_MISSING'' @ CRLF @ L ''(Required fragmentsigning data was missing from xml configuration)''),
    (0x80247122, L ''WU_E_METADATA_XML_MODE_MISSING'' @ CRLF @ L ''(Required mode data was missing from xml configuration)''),
    (0x80247123, L ''WU_E_METADATA_XML_MODE_INVALID'' @ CRLF @ L ''(An invalid metadata enforcement mode was detected)''),
    (0x80247124, L ''WU_E_METADATA_XML_VALIDITY_INVALID'' @ CRLF @ L ''(An invalid timestamp validity window configuration was detected)''),
    (0x80247125, L ''WU_E_METADATA_XML_LEAFCERT_MISSING'' @ CRLF @ L ''(Required leaf certificate data was missing from xml configuration)''),
    (0x80247126, L ''WU_E_METADATA_XML_INTERMEDIATECERT_MISSING'' @ CRLF @ L ''(Required intermediate certificate data was missing from xml configuration)''),
    (0x80247127, L ''WU_E_METADATA_XML_LEAFCERT_ID_MISSING'' @ CRLF @ L ''(Required leaf certificate id attribute was missing from xml configuration)''),
    (0x80247128, L ''WU_E_METADATA_XML_BASE64CERDATA_MISSING'' @ CRLF @ L ''(Required certificate base64CerData attribute was missing from xml configuration)''),
    (0x80247140, L ''WU_E_METADATA_BAD_SIGNATURE'' @ CRLF @ L ''(The metadata for an update was found to have a bad or invalid digital signature)''),
    (0x80247141, L ''WU_E_METADATA_UNSUPPORTED_HASH_ALG'' @ CRLF @ L ''(An unsupported hash algorithm for metadata verification was specified)''),
    (0x80247142, L ''WU_E_METADATA_SIGNATURE_VERIFY_FAILED'' @ CRLF @ L ''(An error occurred during an update's metadata signature verification)''),
    (0x80247150, L ''WU_E_METADATATRUST_CERTIFICATECHAIN_VERIFICATION'' @ CRLF @ L ''(An failure occurred while verifying trust for metadata signing certificate chains)''),
    (0x80247151, L ''WU_E_METADATATRUST_UNTRUSTED_CERTIFICATECHAIN'' @ CRLF @ L ''(A metadata signing certificate had an untrusted certificate chain)''),
    (0x80247160, L ''WU_E_METADATA_TIMESTAMP_TOKEN_MISSING'' @ CRLF @ L ''(An expected metadata timestamp token was missing)''),
    (0x80247161, L ''WU_E_METADATA_TIMESTAMP_TOKEN_VERIFICATION_FAILED'' @ CRLF @ L ''(A metadata Timestamp token failed verification)''),
    (0x80247162, L ''WU_E_METADATA_TIMESTAMP_TOKEN_UNTRUSTED'' @ CRLF @ L ''(A metadata timestamp token signer certificate chain was untrusted)''),
    (0x80247163, L ''WU_E_METADATA_TIMESTAMP_TOKEN_VALIDITY_WINDOW'' @ CRLF @ L ''(A metadata signature timestamp token was no longer within the validity window)''),
    (0x80247164, L ''WU_E_METADATA_TIMESTAMP_TOKEN_SIGNATURE'' @ CRLF @ L ''(A metadata timestamp token failed signature validation)''),
    (0x80247165, L ''WU_E_METADATA_TIMESTAMP_TOKEN_CERTCHAIN'' @ CRLF @ L ''(A metadata timestamp token certificate failed certificate chain verification)''),
    (0x80247166, L ''WU_E_METADATA_TIMESTAMP_TOKEN_REFRESHONLINE'' @ CRLF @ L ''(A failure occurred when refreshing a missing timestamp token from the network)''),
    (0x80247167, L ''WU_E_METADATA_TIMESTAMP_TOKEN_ALL_BAD'' @ CRLF @ L ''(All update metadata verification timestamp tokens from the timestamp token cache are invalid)''),
    (0x80247168, L ''WU_E_METADATA_TIMESTAMP_TOKEN_NODATA'' @ CRLF @ L ''(No update metadata verification timestamp tokens exist in the timestamp token cache)''),
    (0x80247169, L ''WU_E_METADATA_TIMESTAMP_TOKEN_CACHELOOKUP'' @ CRLF @ L ''(An error occurred during cache lookup of update metadata verification timestamp token)''),
    (0x8024717E, L ''WU_E_METADATA_TIMESTAMP_TOKEN_VALIDITYWINDOW_UNEXPECTED'' @ CRLF @ L ''(An metadata timestamp token validity window failed unexpectedly due to reasons not covered by another error code)''),
    (0x8024717F, L ''WU_E_METADATA_TIMESTAMP_TOKEN_UNEXPECTED'' @ CRLF @ L ''(An metadata timestamp token verification operation failed due to reasons not covered by another error code)''),
    (0x80247180, L ''WU_E_METADATA_CERT_MISSING'' @ CRLF @ L ''(An expected metadata signing certificate was missing)''),
    (0x80247181, L ''WU_E_METADATA_LEAFCERT_BAD_TRANSPORT_ENCODING'' @ CRLF @ L ''(The transport encoding of a metadata signing leaf certificate was malformed)''),
    (0x80247182, L ''WU_E_METADATA_INTCERT_BAD_TRANSPORT_ENCODING'' @ CRLF @ L ''(The transport encoding of a metadata signing intermediate certificate was malformed)''),
    (0x80247183, L ''WU_E_METADATA_CERT_UNTRUSTED'' @ CRLF @ L ''(A metadata certificate chain was untrusted)''),
    (0x8024B001, L ''WU_E_WUTASK_INPROGRESS'' @ CRLF @ L ''(The task is currently in progress)''),
    (0x8024B002, L ''WU_E_WUTASK_STATUS_DISABLED'' @ CRLF @ L ''(The operation cannot be completed since the task status is currently disabled)''),
    (0x8024B003, L ''WU_E_WUTASK_NOT_STARTED'' @ CRLF @ L ''(The operation cannot be completed since the task is not yet started)''),
    (0x8024B004, L ''WU_E_WUTASK_RETRY'' @ CRLF @ L ''(The task was stopped and needs to be run again to complete)''),
    (0x8024B005, L ''WU_E_WUTASK_CANCELINSTALL_DISALLOWED'' @ CRLF @ L ''(Cannot cancel a non-scheduled install)''),
    (0x8024B101, L ''WU_E_UNKNOWN_HARDWARECAPABILITY'' @ CRLF @ L ''(Hardware capability meta data was not found after a sync with the service)''),
    (0x8024B102, L ''WU_E_BAD_XML_HARDWARECAPABILITY'' @ CRLF @ L ''(Hardware capability meta data was malformed and/or failed to parse)''),
    (0x8024B103, L ''WU_E_WMI_NOT_SUPPORTED'' @ CRLF @ L ''(Unable to complete action due to WMI dependency, which isn't supported on this platform)''),
    (0x8024B104, L ''WU_E_UPDATE_MERGE_NOT_ALLOWED'' @ CRLF @ L ''(Merging of the update is not allowed)''),
    (0x8024B105, L ''WU_E_SKIPPED_UPDATE_INSTALLATION'' @ CRLF @ L ''(Installing merged updates only. So skipping non mergeable updates)''),
    (0x8024B201, L ''WU_E_SLS_INVALID_REVISION'' @ CRLF @ L ''(SLS response returned invalid revision number)''),
    (0x8024B301, L ''WU_E_FILETRUST_DUALSIGNATURE_RSA'' @ CRLF @ L ''(File signature validation fails to find valid RSA signature on infrastructure payload)''),
    (0x8024B302, L ''WU_E_FILETRUST_DUALSIGNATURE_ECC'' @ CRLF @ L ''(File signature validation fails to find valid ECC signature on infrastructure payload)''),
    (0x8024B303, L ''WU_E_TRUST_SUBJECT_NOT_TRUSTED'' @ CRLF @ L ''(The subject is not trusted by WU for the specified action)''),
    (0x8024B304, L ''WU_E_TRUST_PROVIDER_UNKNOWN'' @ CRLF @ L ''(Unknown trust provider for WU)'')
  ]"

text \<open>
  \<^verbatim>\<open>wWinMain\<close> runs the three functions once, on the empty global maps, before
  the dialog is created.
\<close>

definition setBugCheckCodes :: "codemap \<Rightarrow> codemap" where
  "setBugCheckCodes g = foldl map_assign g setBugCheckCodes_assignments"

definition setLDAPCodes :: "codemap \<Rightarrow> codemap" where
  "setLDAPCodes g = foldl map_assign g setLDAPCodes_assignments"

definition setWUCodes :: "codemap \<Rightarrow> codemap" where
  "setWUCodes g = foldl map_assign g setWUCodes_assignments"

section \<open>Library and operating-system functions\<close>

subsection \<open>Number rendering\<close>

text \<open>
  \<^verbatim>\<open>std::to_wstring\<close> of an \<^verbatim>\<open>unsigned long\<close> and of an \<^verbatim>\<open>int\<close>, and
  \<^verbatim>\<open>_snwprintf_s\<close> with the format \<^verbatim>\<open>L"0x%08X"\<close>, by their standard meaning:
  decimal digits without leading zeros, a leading \<^verbatim>\<open>-\<close> for a negative
  \<^verbatim>\<open>int\<close>, and upper-case hexadecimal digits padded with zeros to a width of
  at least 8.
\<close>

definition digit_char :: "nat \<Rightarrow> wchar_t" where
  "digit_char d = (if d < 10 then of_nat (0x30 + d) else of_nat (0x41 + (d - 10)))"

fun decimal_digits :: "nat \<Rightarrow> wstring" where
  "decimal_digits n =
     (if n < 10 then [digit_char n] else decimal_digits (n div 10) @ [digit_char (n mod 10)])"

declare decimal_digits.simps [simp del]

fun hex_digits :: "nat \<Rightarrow> wstring" where
  "hex_digits n =
     (if n < 16 then [digit_char n] else hex_digits (n div 16) @ [digit_char (n mod 16)])"

declare hex_digits.simps [simp del]

definition to_wstring_DWORD :: "int32 \<Rightarrow> wstring" where
  "to_wstring_DWORD iValue = decimal_digits (unat iValue)"

definition to_wstring_int :: "int32 \<Rightarrow> wstring" where
  "to_wstring_int iValue =
     (if sint iValue < 0 then L ''-'' @ decimal_digits (nat (- sint iValue))
      else decimal_digits (nat (sint iValue)))"

definition format_08X :: "int32 \<Rightarrow> wstring" where
  "format_08X iValue =
     (let ds = hex_digits (unat iValue) in replicate (8 - length ds) 0x30 @ ds)"

text \<open>
  \<^verbatim>\<open>_snwprintf_s(szHex, sizeOfBuffer, _TRUNCATE, L"0x%08X", iValue)\<close>: at most
  \<open>sizeOfBuffer - 1\<close> characters are stored before the terminator.
\<close>

definition snwprintf_s_0x08X :: "nat \<Rightarrow> int32 \<Rightarrow> wstring" where
  "snwprintf_s_0x08X sizeOfBuffer iValue = take (sizeOfBuffer - 1) (L ''0x'' @ format_08X iValue)"

subsection \<open>Window text and string trimming\<close>

text \<open>
  \<^verbatim>\<open>GetWindowText(hWnd, buf, nMaxCount)\<close> copies at most \<open>nMaxCount - 1\<close>
  characters of the control's text.
\<close>

definition GetWindowText :: "wstring \<Rightarrow> nat \<Rightarrow> wstring" where
  "GetWindowText text nMaxCount = take (nMaxCount - 1) text"

text \<open>
  \<^verbatim>\<open>StrTrim(psz, pszTrimChars)\<close> of shlwapi removes from \<open>psz\<close> the leading and
  the trailing characters that occur in \<open>pszTrimChars\<close>.
\<close>

definition StrTrim :: "wstring \<Rightarrow> wstring \<Rightarrow> wstring" where
  "StrTrim psz pszTrimChars =
     rev (dropWhile (\<lambda>c. c \<in> set pszTrimChars)
       (rev (dropWhile (\<lambda>c. c \<in> set pszTrimChars) psz)))"

subsection \<open>The environment of the dialog procedure\<close>

text \<open>
  What the operating system answers is not fixed by the program, so it is a
  parameter of the model:
  \<^item> \<open>StrToIntEx\<close>: \<^verbatim>\<open>StrToIntEx(szValue, STIF_SUPPORT_HEX, &iValue)\<close>;
    \<open>None\<close> when the call returns \<^verbatim>\<open>FALSE\<close>, otherwise the integer stored;
  \<^item> \<open>FormatMessage_FROM_SYSTEM\<close>: the text that \<^verbatim>\<open>FormatMessage\<close> allocates
    for a message identifier from the system message table; the returned size
    is its length, and the empty text stands for size 0;
  \<^item> \<open>GetModuleHandle_ntdll\<close>: whether \<^verbatim>\<open>GetModuleHandle(L"ntdll.dll")\<close> is
    not \<^verbatim>\<open>NULL\<close>, and \<open>FormatMessage_FROM_HMODULE\<close>: the text from the message
    table of that module;
  \<^item> \<open>GetDlgItem_IDC_INPUT\<close>, \<open>GetDlgItem_IDC_OUTPUT\<close>: whether the control
    handles are not \<^verbatim>\<open>NULL\<close>.
\<close>

record os =
  StrToIntEx :: "wstring \<Rightarrow> int32 option"
  FormatMessage_FROM_SYSTEM :: "int32 \<Rightarrow> wstring"
  GetModuleHandle_ntdll :: bool
  FormatMessage_FROM_HMODULE :: "int32 \<Rightarrow> wstring"
  GetDlgItem_IDC_INPUT :: bool
  GetDlgItem_IDC_OUTPUT :: bool

section \<open>The program state and the dialog procedure\<close>

text \<open>
  The state is the three global maps, the texts of the input and of the
  output control, and the registry value \<^verbatim>\<open>LastInput\<close> under
  \<^verbatim>\<open>HKCU\Software\CodingABI\TranslateErrorCode\<close>.
\<close>

record program_state =
  g_mWU :: codemap
  g_mLDAP :: codemap
  g_mBugCheck :: codemap
  IDC_INPUT :: wstring
  IDC_OUTPUT :: wstring
  LastInput :: "wstring option"

definition MAXVALUELENTH :: nat where
  "MAXVALUELENTH = 30"

definition MAX_ITOSTR_BASE16_COUNT :: nat where
  "MAX_ITOSTR_BASE16_COUNT = 8 + 1"

text \<open>
  \<^verbatim>\<open>wWinMain\<close>: the maps are filled, then the dialog starts.  The text in the
  input control and the registry value at that moment are given; the output
  control is taken to start empty.
\<close>

definition wWinMain :: "wstring \<Rightarrow> wstring option \<Rightarrow> program_state" where
  "wWinMain input registry =
     \<lparr> g_mWU = setWUCodes Map.empty,
       g_mLDAP = setLDAPCodes Map.empty,
       g_mBugCheck = setBugCheckCodes Map.empty,
       IDC_INPUT = input,
       IDC_OUTPUT = [],
       LastInput = registry \<rparr>"

text \<open>The numeric values at the head of the message.\<close>

definition numeric_values :: "int32 \<Rightarrow> wstring" where
  "numeric_values iValue =
     (let szHex = snwprintf_s_0x08X (MAX_ITOSTR_BASE16_COUNT + 2) iValue
      in (L ''DWORD '' @ TAB) @ to_wstring_DWORD iValue @ CRLF
         @ (L ''int '' @ TAB) @ to_wstring_int iValue @ CRLF
         @ (L ''Hex '' @ TAB) @ szHex)"

text \<open>
  The body of the \<^verbatim>\<open>if (StrToIntEx(...))\<close> block of \<^verbatim>\<open>WndProcMainDialog\<close>
  after the registry write: the message text is built by appending, and the
  maps are read with \<^verbatim>\<open>count\<close> and \<^verbatim>\<open>operator[]\<close>.
\<close>

definition translate :: "os \<Rightarrow> int32 \<Rightarrow> program_state \<Rightarrow> wstring \<times> program_state" where
  "translate os iValue s =
     (let sMessage = numeric_values iValue;
          sMessage =
            (let messageBuffer = FormatMessage_FROM_SYSTEM os iValue
             in if length messageBuffer > 0
                then sMessage @ (CRLF @ CRLF @ L ''Win32/HRESULT: '') @ StrTrim messageBuffer LF
                else sMessage);
          sMessage =
            (if GetModuleHandle_ntdll os
             then (let messageBuffer = FormatMessage_FROM_HMODULE os iValue
                   in if length messageBuffer > 0
                      then sMessage @ (CRLF @ CRLF @ L ''NTSTATUS: '') @ StrTrim messageBuffer CRLF
                      else sMessage)
             else sMessage);
          (sMessage, s) =
            (if map_count (g_mWU s) iValue > 0
             then (let (text, m) = map_subscript (g_mWU s) iValue
                   in (sMessage @ (CRLF @ CRLF @ L ''WU: '') @ text, s\<lparr>g_mWU := m\<rparr>))
             else (sMessage, s));
          (sMessage, s) =
            (if map_count (g_mLDAP s) iValue > 0
             then (let (text, m) = map_subscript (g_mLDAP s) iValue
                   in (sMessage @ (CRLF @ CRLF @ L ''LDAP: '') @ text, s\<lparr>g_mLDAP := m\<rparr>))
             else (sMessage, s));
          (sMessage, s) =
            (if map_count (g_mBugCheck s) iValue > 0
             then (let (text, m) = map_subscript (g_mBugCheck s) iValue
                   in (sMessage @ (CRLF @ CRLF @ L ''StopCode/BugCheck: '') @ text,
                       s\<lparr>g_mBugCheck := m\<rparr>))
             else (sMessage, s))
      in (sMessage, s))"

text \<open>
  \<^verbatim>\<open>WM_COMMAND\<close> with \<^verbatim>\<open>IDOK\<close> or \<^verbatim>\<open>IDC_BUTTONSEARCH\<close>: read the input
  text, convert it, and only when the conversion succeeds store the text in
  the registry, build the message and set the output text.
\<close>

definition WM_COMMAND_IDOK :: "os \<Rightarrow> program_state \<Rightarrow> program_state" where
  "WM_COMMAND_IDOK os s =
     (if GetDlgItem_IDC_INPUT os
      then (let szValue = GetWindowText (IDC_INPUT s) (MAXVALUELENTH + 1)
            in case StrToIntEx os szValue of
                 None \<Rightarrow> s
               | Some iValue \<Rightarrow>
                   (let s = s\<lparr>LastInput := Some szValue\<rparr>;
                        (sMessage, s) = translate os iValue s
                    in if GetDlgItem_IDC_OUTPUT os then s\<lparr>IDC_OUTPUT := sMessage\<rparr> else s))
      else s)"

text \<open>
  A session of the dialog: the user replaces the input text and presses the
  button, any number of times.
\<close>

fun session :: "os \<Rightarrow> program_state \<Rightarrow> wstring list \<Rightarrow> program_state" where
  "session os s [] = s"
| "session os s (input # inputs) = session os (WM_COMMAND_IDOK os (s\<lparr>IDC_INPUT := input\<rparr>)) inputs"

section \<open>Reading the model\<close>

subsection \<open>Table lookups\<close>

text \<open>
  The value that a sequence of assignments leaves under key \<open>k\<close>, starting from
  \<open>acc\<close>: a later assignment to \<open>k\<close> replaces an earlier one.
\<close>

fun last_assigned :: "int32 \<Rightarrow> wstring option \<Rightarrow> (int32 \<times> wstring) list \<Rightarrow> wstring option" where
  "last_assigned k acc [] = acc"
| "last_assigned k acc (kv # kvs) = last_assigned k (if fst kv = k then Some (snd kv) else acc) kvs"

subsection \<open>The number denoted by a digit string\<close>

text \<open>
  Reading back what the header shows: the value of one digit character
  (\<^verbatim>\<open>0\<close>-\<^verbatim>\<open>9\<close>, \<^verbatim>\<open>A\<close>-\<^verbatim>\<open>F\<close>), of a digit string in a base, and of a decimal
  string with an optional leading \<^verbatim>\<open>-\<close>.
\<close>

definition char_value :: "wchar_t \<Rightarrow> nat" where
  "char_value c = (if c \<le> 0x39 then unat c - 0x30 else unat c - 0x41 + 10)"

definition numeral_value :: "nat \<Rightarrow> wstring \<Rightarrow> nat" where
  "numeral_value base cs = foldl (\<lambda>a c. a * base + char_value c) 0 cs"

definition signed_value :: "wstring \<Rightarrow> int" where
  "signed_value cs =
     (case cs of
        [] \<Rightarrow> 0
      | c # cs' \<Rightarrow> if c = 0x2D then - int (numeral_value 10 cs') else int (numeral_value 10 cs))"

text \<open>
  What the three fields of the header have to be: the decimal numeral of a
  natural number is a non-empty string of the digits \<^verbatim>\<open>0\<close>-\<^verbatim>\<open>9\<close> with no leading
  zero (the single digit \<^verbatim>\<open>0\<close> apart) that denotes it; the numeral of an integer
  is that of its absolute value, after a \<^verbatim>\<open>-\<close> when it is negative; the
  eight-digit hexadecimal numeral is a string of exactly eight of the characters
  \<^verbatim>\<open>0\<close>-\<^verbatim>\<open>9\<close>, \<^verbatim>\<open>A\<close>-\<^verbatim>\<open>F\<close> that denotes the number.
\<close>

definition decimal_numeral_of :: "nat \<Rightarrow> wstring \<Rightarrow> bool" where
  "decimal_numeral_of n cs \<longleftrightarrow>
     cs \<noteq> [] \<and> set cs \<subseteq> set (L ''0123456789'') \<and> (length cs = 1 \<or> hd cs \<noteq> 0x30)
     \<and> numeral_value 10 cs = n"

definition signed_numeral_of :: "int \<Rightarrow> wstring \<Rightarrow> bool" where
  "signed_numeral_of i cs \<longleftrightarrow>
     (if i < 0 then cs \<noteq> [] \<and> hd cs = 0x2D \<and> decimal_numeral_of (nat (- i)) (tl cs)
      else decimal_numeral_of (nat i) cs)"

definition hex8_numeral_of :: "nat \<Rightarrow> wstring \<Rightarrow> bool" where
  "hex8_numeral_of n cs \<longleftrightarrow>
     length cs = 8 \<and> set cs \<subseteq> set (L ''0123456789ABCDEF'') \<and> numeral_value 16 cs = n"

subsection \<open>The report as the specification describes it\<close>

text \<open>
  The specification's aggregation algorithm: five sources in a fixed order,
  each asked on its own; a source that answers contributes one section, made
  of a blank line, the label of the source, a colon and the text.
\<close>

datatype source = Win32_HRESULT | NTSTATUS | WU | LDAP | StopCode_BugCheck

definition source_label :: "source \<Rightarrow> wstring" where
  "source_label src =
     (case src of
        Win32_HRESULT \<Rightarrow> L ''Win32/HRESULT''
      | NTSTATUS \<Rightarrow> L ''NTSTATUS''
      | WU \<Rightarrow> L ''WU''
      | LDAP \<Rightarrow> L ''LDAP''
      | StopCode_BugCheck \<Rightarrow> L ''StopCode/BugCheck'')"

definition source_answer :: "os \<Rightarrow> program_state \<Rightarrow> int32 \<Rightarrow> source \<Rightarrow> wstring option" where
  "source_answer os s iValue src =
     (case src of
        Win32_HRESULT \<Rightarrow>
          (let d = FormatMessage_FROM_SYSTEM os iValue
           in if d = [] then None else Some (StrTrim d LF))
      | NTSTATUS \<Rightarrow>
          (let d = (if GetModuleHandle_ntdll os then FormatMessage_FROM_HMODULE os iValue else [])
           in if d = [] then None else Some (StrTrim d CRLF))
      | WU \<Rightarrow> g_mWU s iValue
      | LDAP \<Rightarrow> g_mLDAP s iValue
      | StopCode_BugCheck \<Rightarrow> g_mBugCheck s iValue)"

definition section_text :: "os \<Rightarrow> program_state \<Rightarrow> int32 \<Rightarrow> source \<Rightarrow> wstring" where
  "section_text os s iValue src =
     (case source_answer os s iValue src of
        None \<Rightarrow> []
      | Some text \<Rightarrow> CRLF @ CRLF @ source_label src @ L '': '' @ text)"

definition spec_report :: "os \<Rightarrow> program_state \<Rightarrow> int32 \<Rightarrow> wstring" where
  "spec_report os s iValue =
     numeric_values iValue
       @ concat (map (section_text os s iValue) [Win32_HRESULT, NTSTATUS, WU, LDAP, StopCode_BugCheck])"

text \<open>A report contains a section of a source when the section's heading occurs in it.\<close>

definition has_section :: "source \<Rightarrow> wstring \<Rightarrow> bool" where
  "has_section src report = sublist (CRLF @ CRLF @ source_label src @ L '': '') report"

subsection \<open>An example environment\<close>

text \<open>
  A concrete environment to run the dialog procedure on: the conversion
  accepts the two texts \<^verbatim>\<open>0x05\<close> and \<^verbatim>\<open>-1\<close> and rejects every other text,
  the system message table has one message, for code 5, and ntdll has none.
\<close>

definition os_example :: os where
  "os_example =
     \<lparr> StrToIntEx = [L ''0x05'' \<mapsto> 5, L ''-1'' \<mapsto> - 1],
       FormatMessage_FROM_SYSTEM = (\<lambda>v. if v = 5 then L ''Access is denied.'' @ CRLF else []),
       GetModuleHandle_ntdll = True,
       FormatMessage_FROM_HMODULE = (\<lambda>v. []),
       GetDlgItem_IDC_INPUT = True,
       GetDlgItem_IDC_OUTPUT = True \<rparr>"

section \<open>Lemmas\<close>

subsection \<open>Wide strings\<close>

lemma L_append: "L (a @ b) = L a @ L b"
  by (simp add: L_def)

lemma L_inject: "L a = L b \<longleftrightarrow> a = b"
proof -
  have "inj (\<lambda>c::char. (of_nat (of_char c) :: wchar_t))"
  proof (rule injI)
    fix x y :: char
    assume "(of_nat (of_char x) :: wchar_t) = of_nat (of_char y)"
    then have "unat (of_nat (of_char x) :: wchar_t) = unat (of_nat (of_char y) :: wchar_t)"
      by simp
    moreover have "(of_char x :: nat) < 256" "(of_char y :: nat) < 256"
      by (simp_all add: of_char_def)
    ultimately have "(of_char x :: nat) = of_char y"
      by (simp add: unat_of_nat)
    then show "x = y" by simp
  qed
  then show ?thesis by (simp add: L_def inj_map_eq_map)
qed

lemma length_L [simp]: "length (L s) = length s"
  by (simp add: L_def)

lemma CRLF_not_Nil [simp]: "CRLF \<noteq> []"
  by (simp add: CRLF_def)

subsection \<open>Maps and tables\<close>

text \<open>
  Reading key \<open>k\<close> after a run of assignments gives the last value assigned to \<open>k\<close>.
  An unguarded subscript read of a missing key changes the map.
\<close>

lemma map_assign_apply: "map_assign m kv k = (if fst kv = k then Some (snd kv) else m k)"
  by (auto simp: map_assign_def map_subscript_def split: option.splits)

lemma foldl_map_assign_apply: "foldl map_assign m kvs k = last_assigned k (m k) kvs"
  by (induction kvs arbitrary: m) (simp_all add: map_assign_apply)

lemma foldl_map_assign_Some:
  "foldl map_assign m kvs k = Some v \<Longrightarrow> (k, v) \<in> set kvs \<or> m k = Some v"
proof (induction kvs arbitrary: m)
  case Nil
  then show ?case by simp
next
  case (Cons kv kvs)
  from Cons.prems have "foldl map_assign (map_assign m kv) kvs k = Some v" by simp
  then have "(k, v) \<in> set kvs \<or> map_assign m kv k = Some v" by (rule Cons.IH)
  then show ?case
    by (cases kv) (auto simp: map_assign_apply split: if_splits)
qed

lemma unguarded_subscript_inserts: "m k = None \<Longrightarrow> snd (map_subscript m k) \<noteq> m"
proof
  assume "m k = None" "snd (map_subscript m k) = m"
  then have "m(k \<mapsto> []) = m" by (simp add: map_subscript_def)
  then have "(m(k \<mapsto> [])) k = m k" by (rule arg_cong)
  with \<open>m k = None\<close> show False by simp
qed

lemma minus_1_bits: "(- 1 :: int32) = 0xFFFFFFFF"
  by simp

lemmas lookup_eval =
  last_assigned.simps fst_conv snd_conv word_eq_numeral_iff_iszero if_True if_False refl

lemma WU_5: "setWUCodes Map.empty 5 = None"
  unfolding setWUCodes_def setWUCodes_assignments_def foldl_map_assign_apply
  by (simp only: lookup_eval) simp

lemma LDAP_5: "setLDAPCodes Map.empty 5 = Some (L ''LDAP_COMPARE_FALSE'')"
  unfolding setLDAPCodes_def setLDAPCodes_assignments_def foldl_map_assign_apply
  by (simp only: lookup_eval) simp

lemma BugCheck_5: "setBugCheckCodes Map.empty 5 = Some (L ''INVALID_PROCESS_ATTACH_ATTEMPT'')"
  unfolding setBugCheckCodes_def setBugCheckCodes_assignments_def foldl_map_assign_apply
  by (simp only: lookup_eval) simp

lemma WU_m1: "setWUCodes Map.empty (- 1) = None"
  unfolding minus_1_bits setWUCodes_def setWUCodes_assignments_def foldl_map_assign_apply
  by (simp only: lookup_eval) simp

lemma LDAP_m1: "setLDAPCodes Map.empty (- 1) = None"
  unfolding minus_1_bits setLDAPCodes_def setLDAPCodes_assignments_def foldl_map_assign_apply
  by (simp only: lookup_eval) simp

lemma BugCheck_m1: "setBugCheckCodes Map.empty (- 1) = None"
  unfolding minus_1_bits setBugCheckCodes_def setBugCheckCodes_assignments_def foldl_map_assign_apply
  by (simp only: lookup_eval) simp

lemma LDAP_9: "setLDAPCodes Map.empty 9 = Some (L ''LDAP_PARTIAL_RESULTS'')"
  unfolding setLDAPCodes_def setLDAPCodes_assignments_def foldl_map_assign_apply
  by (simp only: lookup_eval) simp

lemma LDAP_REFERRAL_V2_key:
  "(k, L ''LDAP_REFERRAL_V2'') \<in> set setLDAPCodes_assignments \<Longrightarrow> k = 9"
  by (simp add: setLDAPCodes_assignments_def L_inject)

subsection \<open>Number rendering\<close>

text \<open>
  The rendered strings denote the value they were made from.
\<close>

lemma unat_digit_char: "d < 16 \<Longrightarrow> unat (digit_char d) = (if d < 10 then 48 + d else 55 + d)"
  by (auto simp: digit_char_def unat_word_ariths unat_of_nat)

lemma char_value_digit_char: "d < 16 \<Longrightarrow> char_value (digit_char d) = d"
  by (auto simp: char_value_def unat_digit_char word_le_nat_alt)

lemma numeral_value_snoc: "numeral_value b (cs @ [c]) = numeral_value b cs * b + char_value c"
  by (simp add: numeral_value_def)

lemma numeral_value_decimal_digits: "numeral_value 10 (decimal_digits n) = n"
proof (induction n rule: decimal_digits.induct)
  case (1 n)
  show ?case
  proof (cases "n < 10")
    case True
    then show ?thesis
      by (simp add: decimal_digits.simps [of n] numeral_value_def char_value_digit_char)
  next
    case False
    with 1 show ?thesis
      by (simp add: decimal_digits.simps [of n] numeral_value_snoc char_value_digit_char)
  qed
qed

lemma numeral_value_hex_digits: "numeral_value 16 (hex_digits n) = n"
proof (induction n rule: hex_digits.induct)
  case (1 n)
  show ?case
  proof (cases "n < 16")
    case True
    then show ?thesis
      by (simp add: hex_digits.simps [of n] numeral_value_def char_value_digit_char)
  next
    case False
    with 1 show ?thesis
      by (simp add: hex_digits.simps [of n] numeral_value_snoc char_value_digit_char)
  qed
qed

lemma length_hex_digits: "n < 16 ^ Suc k \<Longrightarrow> length (hex_digits n) \<le> Suc k"
proof (induction k arbitrary: n)
  case 0
  then show ?case by (simp add: hex_digits.simps [of n])
next
  case (Suc k)
  show ?case
  proof (cases "n < 16")
    case True
    then show ?thesis by (simp add: hex_digits.simps [of n])
  next
    case False
    from Suc.prems have "n div 16 < 16 ^ Suc k"
      by (simp add: less_mult_imp_div_less mult.commute)
    then have "length (hex_digits (n div 16)) \<le> Suc k" by (rule Suc.IH)
    with False show ?thesis by (simp add: hex_digits.simps [of n])
  qed
qed

lemma numeral_value_zeros: "numeral_value b (replicate k 0x30 @ cs) = numeral_value b cs"
proof -
  have "foldl (\<lambda>a c. a * b + char_value c) 0 (replicate k 0x30) = 0"
    by (induction k) (simp_all add: char_value_def)
  then show ?thesis by (simp add: numeral_value_def)
qed

lemma length_format_08X: "length (format_08X v) = 8"
proof -
  have "unat v < 16 ^ Suc 7"
    using unsigned_less [of v, where 'a = nat] by simp
  then have "length (hex_digits (unat v)) \<le> 8"
    using length_hex_digits [of "unat v" 7] by simp
  then show ?thesis by (simp add: format_08X_def Let_def)
qed

lemma numeral_value_format_08X: "numeral_value 16 (format_08X v) = unat v"
  by (simp add: format_08X_def Let_def numeral_value_zeros numeral_value_hex_digits)

lemma decimal_digits_chars: "set (decimal_digits n) \<subseteq> digit_char ` {..<10}"
proof (induction n rule: decimal_digits.induct)
  case (1 n)
  show ?case
  proof (cases "n < 10")
    case True
    then show ?thesis by (simp add: decimal_digits.simps [of n])
  next
    case False
    with 1 show ?thesis by (simp add: decimal_digits.simps [of n])
  qed
qed

lemma hex_digits_chars: "set (hex_digits n) \<subseteq> digit_char ` {..<16}"
proof (induction n rule: hex_digits.induct)
  case (1 n)
  show ?case
  proof (cases "n < 16")
    case True
    then show ?thesis by (simp add: hex_digits.simps [of n])
  next
    case False
    with 1 show ?thesis by (simp add: hex_digits.simps [of n])
  qed
qed

lemma decimal_digits_not_Nil: "decimal_digits n \<noteq> []"
  by (simp add: decimal_digits.simps [of n])

lemma digit_char_not_minus: "d < 16 \<Longrightarrow> digit_char d \<noteq> 0x2D"
proof
  assume "d < 16" "digit_char d = 0x2D"
  then have "unat (0x2D :: wchar_t) = (if d < 10 then 48 + d else 55 + d)"
    using unat_digit_char [of d] by simp
  then show False by (simp split: if_splits)
qed

lemma signed_value_to_wstring_int: "signed_value (to_wstring_int v) = sint v"
proof (cases "sint v < 0")
  case True
  then show ?thesis
    by (simp add: to_wstring_int_def signed_value_def L_def numeral_value_decimal_digits)
next
  case False
  obtain c cs where e: "decimal_digits (nat (sint v)) = c # cs"
    using decimal_digits_not_Nil [of "nat (sint v)"] by (cases "decimal_digits (nat (sint v))") auto
  then have "c \<in> set (decimal_digits (nat (sint v)))" by simp
  then obtain d where "d < 10" "c = digit_char d" using decimal_digits_chars [of "nat (sint v)"] by auto
  then have "c \<noteq> 0x2D" using digit_char_not_minus [of d] by simp
  with False e show ?thesis
    using numeral_value_decimal_digits [of "nat (sint v)"]
    by (simp add: to_wstring_int_def signed_value_def)
qed

lemma numeral_value_to_wstring_DWORD: "numeral_value 10 (to_wstring_DWORD v) = unat v"
  by (simp add: to_wstring_DWORD_def numeral_value_decimal_digits)

lemma digit_char_upper_hex: "d < 16 \<Longrightarrow> digit_char d \<in> set (L ''0123456789ABCDEF'')"
proof -
  assume "d < 16"
  then have "d = 0 \<or> d = 1 \<or> d = 2 \<or> d = 3 \<or> d = 4 \<or> d = 5 \<or> d = 6 \<or> d = 7 \<or> d = 8
      \<or> d = 9 \<or> d = 10 \<or> d = 11 \<or> d = 12 \<or> d = 13 \<or> d = 14 \<or> d = 15" by arith
  then show ?thesis by (auto simp: digit_char_def L_def)
qed

lemma format_08X_chars: "set (format_08X v) \<subseteq> set (L ''0123456789ABCDEF'')"
proof
  fix c assume "c \<in> set (format_08X v)"
  then have "c = 0x30 \<or> c \<in> set (hex_digits (unat v))"
    by (auto simp: format_08X_def Let_def)
  then show "c \<in> set (L ''0123456789ABCDEF'')"
  proof
    assume "c = 0x30" then show ?thesis by (simp add: L_def)
  next
    assume "c \<in> set (hex_digits (unat v))"
    then obtain d where "d < 16" "c = digit_char d" using hex_digits_chars [of "unat v"] by auto
    then show ?thesis using digit_char_upper_hex [of d] by simp
  qed
qed

lemma snwprintf_s_0x08X_full:
  "snwprintf_s_0x08X (MAX_ITOSTR_BASE16_COUNT + 2) v = L ''0x'' @ format_08X v"
  by (simp add: snwprintf_s_0x08X_def MAX_ITOSTR_BASE16_COUNT_def length_format_08X L_def)

lemma numeric_values_eq:
  "numeric_values v = L ''DWORD '' @ TAB @ to_wstring_DWORD v @ CRLF
     @ L ''int '' @ TAB @ to_wstring_int v @ CRLF @ L ''Hex '' @ TAB @ L ''0x'' @ format_08X v"
  unfolding numeric_values_def Let_def snwprintf_s_0x08X_full by simp

lemma numeric_values_not_Nil: "numeric_values v \<noteq> []"
  by (simp add: numeric_values_eq L_def)

lemma replicate_7: "replicate 7 x = [x, x, x, x, x, x, x]"
  by (simp add: numeral_eq_Suc)

lemma numeric_values_5:
  "numeric_values 5 = L ''DWORD '' @ TAB @ L ''5'' @ CRLF @ L ''int '' @ TAB @ L ''5'' @ CRLF
     @ L ''Hex '' @ TAB @ L ''0x00000005''"
proof -
  have "to_wstring_DWORD 5 = L ''5''"
    by (simp add: to_wstring_DWORD_def decimal_digits.simps digit_char_def L_def)
  moreover have "to_wstring_int 5 = L ''5''"
    by (simp add: to_wstring_int_def decimal_digits.simps digit_char_def L_def)
  moreover have "format_08X 5 = L ''00000005''"
    by (simp add: format_08X_def hex_digits.simps digit_char_def L_def replicate_7)
  ultimately show ?thesis
    by (simp add: numeric_values_eq L_append [symmetric])
qed

lemma numeric_values_m1:
  "numeric_values (- 1) = L ''DWORD '' @ TAB @ L ''4294967295'' @ CRLF @ L ''int '' @ TAB @ L ''-1'' @ CRLF
     @ L ''Hex '' @ TAB @ L ''0xFFFFFFFF''"
proof -
  have u: "unat (- 1 :: int32) = 4294967295"
    by (simp add: minus_1_bits)
  have "to_wstring_DWORD (- 1) = L ''4294967295''"
    by (simp add: to_wstring_DWORD_def u decimal_digits.simps digit_char_def L_def)
  moreover have "to_wstring_int (- 1) = L ''-1''"
    by (simp add: to_wstring_int_def decimal_digits.simps digit_char_def L_def)
  moreover have "format_08X (- 1) = L ''FFFFFFFF''"
    by (simp add: format_08X_def u hex_digits.simps digit_char_def L_def)
  ultimately show ?thesis
    by (simp add: numeric_values_eq L_append [symmetric])
qed

subsection \<open>Trimming\<close>

text \<open>
  \<open>StrTrim\<close> cuts a string into a trimmed middle and two ends made of trim characters.
\<close>

lemma rev_split: "r = rev (dropWhile P (rev r)) @ rev (takeWhile P (rev r))"
proof -
  have "rev (dropWhile P (rev r)) @ rev (takeWhile P (rev r))
        = rev (takeWhile P (rev r) @ dropWhile P (rev r))"
    by (simp only: rev_append)
  also have "\<dots> = rev (rev r)"
    by (simp only: takeWhile_dropWhile_id)
  finally show ?thesis by simp
qed

lemma StrTrim_decompose:
  "\<exists>a b. psz = a @ StrTrim psz t @ b \<and> set a \<subseteq> set t \<and> set b \<subseteq> set t"
proof -
  define P where "P = (\<lambda>c. c \<in> set t)"
  define r where "r = dropWhile P psz"
  have 1: "psz = takeWhile P psz @ r"
    by (simp add: r_def)
  have 2: "r = rev (dropWhile P (rev r)) @ rev (takeWhile P (rev r))"
    by (rule rev_split)
  have 3: "StrTrim psz t = rev (dropWhile P (rev r))"
    by (simp add: StrTrim_def P_def r_def)
  have 4: "set (takeWhile P psz) \<subseteq> set t" "set (rev (takeWhile P (rev r))) \<subseteq> set t"
    by (auto simp: P_def dest: set_takeWhileD)
  from 1 2 3 have "psz = takeWhile P psz @ StrTrim psz t @ rev (takeWhile P (rev r))"
    by simp
  with 4 show ?thesis by blast
qed

lemma StrTrim_last: "StrTrim psz t = cs @ [c] \<Longrightarrow> c \<notin> set t"
proof -
  assume "StrTrim psz t = cs @ [c]"
  then have "rev (StrTrim psz t) = c # rev cs" by simp
  then have "dropWhile (\<lambda>c. c \<in> set t) (rev (dropWhile (\<lambda>c. c \<in> set t) psz)) = c # rev cs"
    by (simp add: StrTrim_def)
  then show ?thesis by (rule dropWhile_eq_Cons_conv [THEN iffD1, THEN conjunct2])
qed

lemma StrTrim_first: "StrTrim psz t = c # cs \<Longrightarrow> c \<notin> set t"
proof -
  assume a: "StrTrim psz t = c # cs"
  define P where "P = (\<lambda>c. c \<in> set t)"
  define r where "r = dropWhile P psz"
  have "r = rev (dropWhile P (rev r)) @ rev (takeWhile P (rev r))"
    by (rule rev_split)
  then have "r = StrTrim psz t @ rev (takeWhile P (rev r))"
    by (simp add: StrTrim_def P_def r_def)
  with a have "dropWhile P psz = c # (cs @ rev (takeWhile P (rev r)))"
    by (simp add: r_def)
  then have "\<not> P c" by (rule dropWhile_eq_Cons_conv [THEN iffD1, THEN conjunct2])
  then show ?thesis by (simp add: P_def)
qed

lemma set_subset_LF: "set a \<subseteq> set LF \<Longrightarrow> a = replicate (length a) 0x0A"
  by (induction a) (simp_all add: LF_def)

lemma StrTrim_example:
  "StrTrim (L ''Access is denied.'' @ CRLF) LF = L ''Access is denied.'' @ [0x0D]"
  by (simp add: StrTrim_def L_def CRLF_def LF_def)

subsection \<open>The message and the dialog procedure\<close>

text \<open>
  The message built by appending is the report of the specification, and the state comes
  back unchanged.
\<close>

lemma labels:
  "L ''Win32/HRESULT: '' = L ''Win32/HRESULT'' @ L '': ''"
  "L ''NTSTATUS: '' = L ''NTSTATUS'' @ L '': ''"
  "L ''WU: '' = L ''WU'' @ L '': ''"
  "L ''LDAP: '' = L ''LDAP'' @ L '': ''"
  "L ''StopCode/BugCheck: '' = L ''StopCode/BugCheck'' @ L '': ''"
  by (simp_all add: L_append [symmetric])

lemma translate_eq: "translate os iValue s = (spec_report os s iValue, s)"
  by (simp add: translate_def Let_def spec_report_def section_text_def source_answer_def
      source_label_def labels map_count_def map_subscript_def split: option.splits)

lemma spec_report_frame [simp]:
  "spec_report os (s\<lparr>LastInput := r\<rparr>) iValue = spec_report os s iValue"
  "spec_report os (s\<lparr>IDC_OUTPUT := out\<rparr>) iValue = spec_report os s iValue"
  "spec_report os (s\<lparr>IDC_INPUT := inp\<rparr>) iValue = spec_report os s iValue"
  by (simp_all add: spec_report_def section_text_def source_answer_def)

lemma spec_report_not_Nil: "spec_report os s v \<noteq> []"
  by (simp add: spec_report_def numeric_values_not_Nil)

lemma spec_report_tables:
  "g_mWU t = g_mWU s \<Longrightarrow> g_mLDAP t = g_mLDAP s \<Longrightarrow> g_mBugCheck t = g_mBugCheck s \<Longrightarrow>
   spec_report os t v = spec_report os s v"
  by (simp add: spec_report_def section_text_def source_answer_def)

lemma IDOK_reject:
  "StrToIntEx os (GetWindowText (IDC_INPUT s) (MAXVALUELENTH + 1)) = None \<Longrightarrow> WM_COMMAND_IDOK os s = s"
  by (simp add: WM_COMMAND_IDOK_def)

lemma IDOK_accept:
  "GetDlgItem_IDC_INPUT os \<Longrightarrow>
   StrToIntEx os (GetWindowText (IDC_INPUT s) (MAXVALUELENTH + 1)) = Some iValue \<Longrightarrow>
   WM_COMMAND_IDOK os s =
     (if GetDlgItem_IDC_OUTPUT os
      then s\<lparr>IDC_OUTPUT := spec_report os s iValue,
             LastInput := Some (GetWindowText (IDC_INPUT s) (MAXVALUELENTH + 1))\<rparr>
      else s\<lparr>LastInput := Some (GetWindowText (IDC_INPUT s) (MAXVALUELENTH + 1))\<rparr>)"
  by (simp add: WM_COMMAND_IDOK_def Let_def translate_eq)

lemma IDOK_tables:
  "g_mWU (WM_COMMAND_IDOK os s) = g_mWU s"
  "g_mLDAP (WM_COMMAND_IDOK os s) = g_mLDAP s"
  "g_mBugCheck (WM_COMMAND_IDOK os s) = g_mBugCheck s"
  by (simp_all add: WM_COMMAND_IDOK_def Let_def translate_eq split: option.splits)

lemma IDOK_input: "IDC_INPUT (WM_COMMAND_IDOK os s) = IDC_INPUT s"
  by (simp add: WM_COMMAND_IDOK_def Let_def translate_eq split: option.splits)

lemma session_tables:
  "g_mWU (session os s inputs) = g_mWU s \<and> g_mLDAP (session os s inputs) = g_mLDAP s
   \<and> g_mBugCheck (session os s inputs) = g_mBugCheck s"
  by (induction inputs arbitrary: s) (simp_all add: IDOK_tables)

lemma GetWindowText_short:
  assumes "length text \<le> 30"
  shows "GetWindowText text (MAXVALUELENTH + 1) = text"
    and "GetWindowText text (Suc MAXVALUELENTH) = text"
  using assms by (simp_all add: GetWindowText_def MAXVALUELENTH_def)

lemma szValue_wWinMain:
  assumes "length input \<le> 30"
  shows "GetWindowText (IDC_INPUT (wWinMain input registry)) (MAXVALUELENTH + 1) = input"
  using assms by (simp add: wWinMain_def GetWindowText_def MAXVALUELENTH_def)

lemma IDOK_wWinMain:
  assumes "GetDlgItem_IDC_INPUT os" and "GetDlgItem_IDC_OUTPUT os"
    and "length input \<le> 30" and "StrToIntEx os input = Some v"
  shows "IDC_OUTPUT (WM_COMMAND_IDOK os (wWinMain input registry))
           = spec_report os (wWinMain input registry) v"
proof -
  have "StrToIntEx os (GetWindowText (IDC_INPUT (wWinMain input registry)) (MAXVALUELENTH + 1))
          = Some v"
    by (simp only: szValue_wWinMain [OF assms(3)] assms(4))
  from IDOK_accept [OF assms(1) this] assms(2) show ?thesis by simp
qed

subsection \<open>The example environment\<close>

lemma os_example_parse:
  "StrToIntEx os_example (L ''0x05'') = Some 5"
  "StrToIntEx os_example (L ''-1'') = Some (- 1)"
  "StrToIntEx os_example (L ''abc'') = None"
  by (simp_all add: os_example_def L_def)

lemma os_example_messages:
  "FormatMessage_FROM_SYSTEM os_example 5 = L ''Access is denied.'' @ CRLF"
  "FormatMessage_FROM_SYSTEM os_example (- 1) = []"
  "FormatMessage_FROM_HMODULE os_example v = []"
  "GetModuleHandle_ntdll os_example"
  "GetDlgItem_IDC_INPUT os_example"
  "GetDlgItem_IDC_OUTPUT os_example"
  by (simp_all add: os_example_def)

lemma report_5:
  "spec_report os_example (wWinMain input registry) 5 =
     L ''DWORD '' @ TAB @ L ''5'' @ CRLF @ L ''int '' @ TAB @ L ''5'' @ CRLF
     @ L ''Hex '' @ TAB @ L ''0x00000005''
     @ CRLF @ CRLF @ L ''Win32/HRESULT: Access is denied.'' @ [0x0D]
     @ CRLF @ CRLF @ L ''LDAP: LDAP_COMPARE_FALSE''
     @ CRLF @ CRLF @ L ''StopCode/BugCheck: INVALID_PROCESS_ATTACH_ATTEMPT''"
  by (simp add: spec_report_def section_text_def source_answer_def source_label_def wWinMain_def
      WU_5 LDAP_5 BugCheck_5 numeric_values_5 StrTrim_example os_example_messages
      L_append [symmetric])

lemma has_section_BugCheck_5:
  "has_section StopCode_BugCheck (spec_report os_example (wWinMain input registry) 5)"
  unfolding report_5 has_section_def
  by (simp add: source_label_def L_def CRLF_def TAB_def sublist_code prefix_code)

subsection \<open>Numerals are unique\<close>

text \<open>
  Two digit strings of the same length that denote the same number are equal,
  so a number has one decimal numeral, an integer one signed numeral, and a
  32-bit value one eight-digit hexadecimal numeral; the rendered fields are
  these numerals.
\<close>

lemma hex_chars_digit_char:
  "L ''0123456789ABCDEF'' = map digit_char [0, 1, 2, 3, 4, 5, 6, 7, 8, 9, 10, 11, 12, 13, 14, 15]"
  by (simp add: L_def digit_char_def)

lemma decimal_chars_digit_char:
  "L ''0123456789'' = map digit_char [0, 1, 2, 3, 4, 5, 6, 7, 8, 9]"
  by (simp add: L_def digit_char_def)

lemma hex_char_is_digit_char:
  assumes "c \<in> set (L ''0123456789ABCDEF'')"
  shows "\<exists>d<16. c = digit_char d"
proof -
  from assms have "c \<in> digit_char ` set [0, 1, 2, 3, 4, 5, 6, 7, 8, 9, 10, 11, 12, 13, 14, 15]"
    by (simp only: hex_chars_digit_char set_map)
  then obtain d where "d \<in> set [0, 1, 2, 3, 4, 5, 6, 7, 8, 9, 10, 11, 12, 13, 14, 15::nat]"
    and "c = digit_char d" by blast
  moreover from this(1) have "d < 16" by auto
  ultimately show ?thesis by blast
qed

lemma decimal_char_is_digit_char:
  assumes "c \<in> set (L ''0123456789'')"
  shows "\<exists>d<10. c = digit_char d"
proof -
  from assms have "c \<in> digit_char ` set [0, 1, 2, 3, 4, 5, 6, 7, 8, 9]"
    by (simp only: decimal_chars_digit_char set_map)
  then obtain d where "d \<in> set [0, 1, 2, 3, 4, 5, 6, 7, 8, 9::nat]"
    and "c = digit_char d" by blast
  moreover from this(1) have "d < 10" by auto
  ultimately show ?thesis by blast
qed

lemma digit_char_decimal: "d < 10 \<Longrightarrow> digit_char d \<in> set (L ''0123456789'')"
proof -
  assume "d < 10"
  then have "d = 0 \<or> d = 1 \<or> d = 2 \<or> d = 3 \<or> d = 4 \<or> d = 5 \<or> d = 6 \<or> d = 7 \<or> d = 8
      \<or> d = 9" by arith
  then show ?thesis by (auto simp: digit_char_def L_def)
qed

lemma numeral_value_rev_Cons:
  "numeral_value b (rev (c # x)) = numeral_value b (rev x) * b + char_value c"
  by (simp add: numeral_value_snoc)

lemma numeral_value_rev_inject:
  assumes "length x = length y"
    and "\<forall>c\<in>set x \<union> set y. \<exists>d<b. d < 16 \<and> c = digit_char d"
    and "numeral_value b (rev x) = numeral_value b (rev y)"
  shows "x = y"
  using assms
proof (induction x y rule: list_induct2)
  case Nil
  then show ?case by simp
next
  case (Cons c x c' y)
  from Cons.prems(1) obtain d d' where d: "d < b" "d < 16" "c = digit_char d"
    and d': "d' < b" "d' < 16" "c' = digit_char d'"
    by (metis Un_iff list.set_intros(1))
  let ?p = "numeral_value b (rev x)" and ?q = "numeral_value b (rev y)"
  from Cons.prems(2) d d' have e: "?p * b + d = ?q * b + d'"
    by (simp add: numeral_value_snoc char_value_digit_char)
  from e have "(?p * b + d) mod b = (?q * b + d') mod b" by simp
  with d(1) d'(1) have dd: "d = d'" by simp
  with e d(1) have pq: "?p = ?q" by simp
  from Cons.prems(1) have ch: "\<forall>c\<in>set x \<union> set y. \<exists>d<b. d < 16 \<and> c = digit_char d" by auto
  from ch pq have "x = y" by (rule Cons.IH)
  with dd d(3) d'(3) show ?case by simp
qed

lemma numeral_value_inject:
  assumes "length a = length b"
    and "\<forall>c\<in>set a \<union> set b. \<exists>d<base. d < 16 \<and> c = digit_char d"
    and "numeral_value base a = numeral_value base b"
  shows "a = b"
proof -
  have "rev a = rev b"
    using assms by (intro numeral_value_rev_inject [of "rev a" "rev b" base]) simp_all
  then show ?thesis by simp
qed

lemma hd_decimal_digits: "0 < n \<Longrightarrow> hd (decimal_digits n) \<noteq> 0x30"
proof (induction n rule: decimal_digits.induct)
  case (1 n)
  show ?case
  proof (cases "n < 10")
    case True
    have "unat (digit_char n) \<noteq> unat (0x30 :: wchar_t)"
      using True "1.prems" by (simp add: unat_digit_char)
    then have "digit_char n \<noteq> 0x30" by auto
    with True show ?thesis by (simp add: decimal_digits.simps [of n])
  next
    case False
    then have "0 < n div 10" by simp
    with False 1 have "hd (decimal_digits (n div 10)) \<noteq> 0x30" by simp
    with False show ?thesis
      by (simp add: decimal_digits.simps [of n] decimal_digits_not_Nil)
  qed
qed

lemma decimal_numeral_of_decimal_digits: "decimal_numeral_of n (decimal_digits n)"
proof -
  have "set (decimal_digits n) \<subseteq> set (L ''0123456789'')"
    using decimal_digits_chars [of n] digit_char_decimal by auto
  moreover have "length (decimal_digits n) = 1 \<or> hd (decimal_digits n) \<noteq> 0x30"
  proof (cases "n < 10")
    case True
    then show ?thesis by (simp add: decimal_digits.simps [of n])
  next
    case False
    then show ?thesis using hd_decimal_digits [of n] by simp
  qed
  ultimately show ?thesis
    by (simp add: decimal_numeral_of_def decimal_digits_not_Nil numeral_value_decimal_digits)
qed

lemma decimal_numeral_of_unique_le:
  assumes a: "decimal_numeral_of n a" and b: "decimal_numeral_of n b"
    and le: "length a \<le> length b"
  shows "a = b"
proof -
  let ?k = "length b - length a"
  let ?a = "replicate ?k 0x30 @ a"
  have chars: "\<forall>c\<in>set ?a \<union> set b. \<exists>d<10. d < 16 \<and> c = digit_char d"
  proof
    fix c assume "c \<in> set ?a \<union> set b"
    then have "c = 0x30 \<or> c \<in> set (L ''0123456789'')"
      using a b by (auto simp: decimal_numeral_of_def)
    then have "c \<in> set (L ''0123456789'')" by (auto simp: L_def)
    then obtain d where "d < 10" "c = digit_char d"
      using decimal_char_is_digit_char by blast
    then show "\<exists>d<10. d < 16 \<and> c = digit_char d" by auto
  qed
  have "numeral_value 10 ?a = numeral_value 10 b"
    using a b by (simp add: numeral_value_zeros decimal_numeral_of_def)
  moreover have "length ?a = length b" using le by simp
  ultimately have eq: "?a = b" using chars by (intro numeral_value_inject [of ?a b 10])
  show ?thesis
  proof (cases "?k = 0")
    case True
    with eq show ?thesis by simp
  next
    case False
    then obtain j where j: "?k = Suc j" by (cases ?k) auto
    with eq have "hd b = 0x30" by (metis append_Cons list.sel(1) replicate_Suc)
    moreover from a have "a \<noteq> []" by (simp add: decimal_numeral_of_def)
    then have "length b \<noteq> 1" using j by (cases a) auto
    ultimately show ?thesis using b by (simp add: decimal_numeral_of_def)
  qed
qed

lemma decimal_numeral_of_unique:
  assumes "decimal_numeral_of n a" and "decimal_numeral_of n b"
  shows "a = b"
proof (cases "length a \<le> length b")
  case True
  with assms show ?thesis by (rule decimal_numeral_of_unique_le)
next
  case False
  then have "length b \<le> length a" by simp
  with assms(2,1) have "b = a" by (rule decimal_numeral_of_unique_le)
  then show ?thesis by simp
qed

lemma signed_numeral_of_to_wstring_int: "signed_numeral_of (sint v) (to_wstring_int v)"
  by (simp add: signed_numeral_of_def to_wstring_int_def L_def decimal_numeral_of_decimal_digits)

lemma signed_numeral_of_unique:
  assumes "signed_numeral_of i a" and "signed_numeral_of i b"
  shows "a = b"
proof (cases "i < 0")
  case True
  with assms have "a \<noteq> []" "b \<noteq> []" "hd a = hd b" "tl a = tl b"
    by (auto simp: signed_numeral_of_def intro: decimal_numeral_of_unique)
  then show ?thesis by (metis list.collapse)
next
  case False
  with assms show ?thesis
    by (auto simp: signed_numeral_of_def intro: decimal_numeral_of_unique)
qed

lemma hex8_numeral_of_format_08X: "hex8_numeral_of (unat v) (format_08X v)"
  by (simp add: hex8_numeral_of_def length_format_08X format_08X_chars numeral_value_format_08X)

lemma hex8_numeral_of_unique:
  assumes a: "hex8_numeral_of n a" and b: "hex8_numeral_of n b"
  shows "a = b"
proof -
  have "\<forall>c\<in>set a \<union> set b. \<exists>d<16. d < 16 \<and> c = digit_char d"
  proof
    fix c assume "c \<in> set a \<union> set b"
    then have "c \<in> set (L ''0123456789ABCDEF'')"
      using a b by (auto simp: hex8_numeral_of_def)
    then obtain d where "d < 16" "c = digit_char d"
      using hex_char_is_digit_char by blast
    then show "\<exists>d<16. d < 16 \<and> c = digit_char d" by auto
  qed
  moreover have "length a = length b" "numeral_value 16 a = numeral_value 16 b"
    using a b by (simp_all add: hex8_numeral_of_def)
  ultimately show ?thesis by (intro numeral_value_inject [of a b 16])
qed

subsection \<open>More table entries and the run on the input text\<close>

lemma WU_9: "setWUCodes Map.empty 9 = None"
  unfolding setWUCodes_def setWUCodes_assignments_def foldl_map_assign_apply
  by (simp only: lookup_eval) simp

lemma BugCheck_9: "setBugCheckCodes Map.empty 9 = Some (L ''IRQL_NOT_GREATER_OR_EQUAL'')"
  unfolding setBugCheckCodes_def setBugCheckCodes_assignments_def foldl_map_assign_apply
  by (simp only: lookup_eval) simp

lemma tables_FFFFFFFF:
  "setWUCodes Map.empty 0xFFFFFFFF = None"
  "setLDAPCodes Map.empty 0xFFFFFFFF = None"
  "setBugCheckCodes Map.empty 0xFFFFFFFF = None"
  using WU_m1 LDAP_m1 BugCheck_m1 by (simp_all only: minus_1_bits)

lemma LDAP_REFERRAL_V2_not_in_table:
  "L ''LDAP_REFERRAL_V2'' \<notin> ran (setLDAPCodes Map.empty)"
proof
  assume "L ''LDAP_REFERRAL_V2'' \<in> ran (setLDAPCodes Map.empty)"
  then obtain k where k: "setLDAPCodes Map.empty k = Some (L ''LDAP_REFERRAL_V2'')"
    by (auto simp: ran_def)
  then have "(k, L ''LDAP_REFERRAL_V2'') \<in> set setLDAPCodes_assignments"
    using foldl_map_assign_Some [of Map.empty setLDAPCodes_assignments k]
    by (simp add: setLDAPCodes_def)
  then have "k = 9" by (rule LDAP_REFERRAL_V2_key)
  with k show False by (simp add: LDAP_9 L_inject)
qed

lemma IDOK_input_text:
  assumes "GetDlgItem_IDC_INPUT os" and "GetDlgItem_IDC_OUTPUT os"
    and "length (IDC_INPUT s) \<le> 30" and "StrToIntEx os (IDC_INPUT s) = Some v"
  shows "IDC_OUTPUT (WM_COMMAND_IDOK os s) = spec_report os s v"
proof -
  have "GetWindowText (IDC_INPUT s) (MAXVALUELENTH + 1) = IDC_INPUT s"
    using assms(3) by (rule GetWindowText_short)
  with assms(4)
  have "StrToIntEx os (GetWindowText (IDC_INPUT s) (MAXVALUELENTH + 1)) = Some v"
    by simp
  from IDOK_accept [OF assms(1) this] assms(2) show ?thesis by simp
qed

section \<open>The claims\<close>

text \<open>
  C1.  When the conversion succeeds, the output text is the numeric header
  followed by the sections of the five sources in the fixed order
  Win32/HRESULT, NTSTATUS, WU, LDAP, StopCode/BugCheck.  Every source is asked
  whatever the others answer; a section is there exactly when its own source
  answers, it starts with a blank line, and a value found in several tables
  gets one section per table.
\<close>

theorem report_is_spec_report:
  assumes "GetDlgItem_IDC_INPUT os" and "GetDlgItem_IDC_OUTPUT os"
    and "StrToIntEx os (GetWindowText (IDC_INPUT s) (MAXVALUELENTH + 1)) = Some iValue"
  shows "IDC_OUTPUT (WM_COMMAND_IDOK os s) =
           numeric_values iValue
           @ section_text os s iValue Win32_HRESULT
           @ section_text os s iValue NTSTATUS
           @ section_text os s iValue WU
           @ section_text os s iValue LDAP
           @ section_text os s iValue StopCode_BugCheck
         \<and> IDC_OUTPUT (WM_COMMAND_IDOK os s) = spec_report os s iValue"
  using assms by (simp add: IDOK_accept spec_report_def)

text \<open>The input \<^verbatim>\<open>0x05\<close> in the example environment: 5 is in two tables and both sections appear.\<close>

theorem report_is_spec_report_witness:
  "GetDlgItem_IDC_INPUT os_example \<and> GetDlgItem_IDC_OUTPUT os_example
   \<and> StrToIntEx os_example (GetWindowText (IDC_INPUT (wWinMain (L ''0x05'') None)) (MAXVALUELENTH + 1)) = Some 5
   \<and> IDC_OUTPUT (WM_COMMAND_IDOK os_example (wWinMain (L ''0x05'') None)) =
       L ''DWORD '' @ TAB @ L ''5'' @ CRLF @ L ''int '' @ TAB @ L ''5'' @ CRLF
       @ L ''Hex '' @ TAB @ L ''0x00000005''
       @ CRLF @ CRLF @ L ''Win32/HRESULT: Access is denied.'' @ [0x0D]
       @ CRLF @ CRLF @ L ''LDAP: LDAP_COMPARE_FALSE''
       @ CRLF @ CRLF @ L ''StopCode/BugCheck: INVALID_PROCESS_ATTACH_ATTEMPT''"
proof -
  have p: "StrToIntEx os_example (GetWindowText (IDC_INPUT (wWinMain (L ''0x05'') None)) (MAXVALUELENTH + 1)) = Some 5"
  proof -
    have "GetWindowText (IDC_INPUT (wWinMain (L ''0x05'') None)) (MAXVALUELENTH + 1) = L ''0x05''"
      by (rule szValue_wWinMain) simp
    then show ?thesis by (simp only: os_example_parse)
  qed
  from report_is_spec_report [OF os_example_messages(5) os_example_messages(6) p]
  have "IDC_OUTPUT (WM_COMMAND_IDOK os_example (wWinMain (L ''0x05'') None))
          = spec_report os_example (wWinMain (L ''0x05'') None) 5"
    by (rule conjunct2)
  then have r: "IDC_OUTPUT (WM_COMMAND_IDOK os_example (wWinMain (L ''0x05'') None)) =
       L ''DWORD '' @ TAB @ L ''5'' @ CRLF @ L ''int '' @ TAB @ L ''5'' @ CRLF
       @ L ''Hex '' @ TAB @ L ''0x00000005''
       @ CRLF @ CRLF @ L ''Win32/HRESULT: Access is denied.'' @ [0x0D]
       @ CRLF @ CRLF @ L ''LDAP: LDAP_COMPARE_FALSE''
       @ CRLF @ CRLF @ L ''StopCode/BugCheck: INVALID_PROCESS_ATTACH_ATTEMPT''"
    by (simp only: report_5)
  show ?thesis
    by (intro conjI os_example_messages(5) os_example_messages(6) p r)
qed

text \<open>
  C2, as stated, fails: for the input \<^verbatim>\<open>0x05\<close> the report does contain a
  StopCode/BugCheck section, because \<^verbatim>\<open>setBugCheckCodes\<close> defines key
  \<^verbatim>\<open>0x00000005\<close>.
\<close>

theorem input_0x05_counterexample:
  "\<not> (has_section LDAP (IDC_OUTPUT (WM_COMMAND_IDOK os_example (wWinMain (L ''0x05'') None)))
      \<and> \<not> has_section WU (IDC_OUTPUT (WM_COMMAND_IDOK os_example (wWinMain (L ''0x05'') None)))
      \<and> \<not> has_section StopCode_BugCheck
            (IDC_OUTPUT (WM_COMMAND_IDOK os_example (wWinMain (L ''0x05'') None))))"
proof -
  have "IDC_OUTPUT (WM_COMMAND_IDOK os_example (wWinMain (L ''0x05'') None))
      = spec_report os_example (wWinMain (L ''0x05'') None) 5"
    by (rule IDOK_wWinMain) (simp_all add: os_example_messages os_example_parse)
  then show ?thesis
    by (simp add: has_section_BugCheck_5)
qed

text \<open>
  C2, amended.  For the input \<^verbatim>\<open>0x05\<close> the report is the header for 5, the
  sections of the two message sources, no WU section, the LDAP section with
  \<^verbatim>\<open>LDAP_COMPARE_FALSE\<close> and the StopCode/BugCheck section with
  \<^verbatim>\<open>INVALID_PROCESS_ATTACH_ATTEMPT\<close>.
\<close>

theorem input_0x05_sections:
  assumes "GetDlgItem_IDC_INPUT os" and "GetDlgItem_IDC_OUTPUT os"
    and "StrToIntEx os (L ''0x05'') = Some 5"
  shows "IDC_OUTPUT (WM_COMMAND_IDOK os (wWinMain (L ''0x05'') registry)) =
           numeric_values 5
           @ section_text os (wWinMain (L ''0x05'') registry) 5 Win32_HRESULT
           @ section_text os (wWinMain (L ''0x05'') registry) 5 NTSTATUS
           @ (CRLF @ CRLF @ L ''LDAP: LDAP_COMPARE_FALSE'')
           @ (CRLF @ CRLF @ L ''StopCode/BugCheck: INVALID_PROCESS_ATTACH_ATTEMPT'')
         \<and> section_text os (wWinMain (L ''0x05'') registry) 5 WU = []"
proof -
  have r: "IDC_OUTPUT (WM_COMMAND_IDOK os (wWinMain (L ''0x05'') registry))
      = spec_report os (wWinMain (L ''0x05'') registry) 5"
    using assms by (intro IDOK_wWinMain) simp_all
  have t: "section_text os (wWinMain (L ''0x05'') registry) 5 WU = []"
    "section_text os (wWinMain (L ''0x05'') registry) 5 LDAP = CRLF @ CRLF @ L ''LDAP: LDAP_COMPARE_FALSE''"
    "section_text os (wWinMain (L ''0x05'') registry) 5 StopCode_BugCheck
       = CRLF @ CRLF @ L ''StopCode/BugCheck: INVALID_PROCESS_ATTACH_ATTEMPT''"
    by (simp_all add: section_text_def source_answer_def source_label_def wWinMain_def
        WU_5 LDAP_5 BugCheck_5 L_append [symmetric])
  show ?thesis
    by (simp add: r spec_report_def t)
qed

text \<open>The same input in the example environment, with a registry value already stored.\<close>

theorem input_0x05_sections_witness:
  "GetDlgItem_IDC_INPUT os_example \<and> GetDlgItem_IDC_OUTPUT os_example
   \<and> StrToIntEx os_example (L ''0x05'') = Some 5
   \<and> IDC_OUTPUT (WM_COMMAND_IDOK os_example (wWinMain (L ''0x05'') (Some (L ''abc'')))) =
       numeric_values 5
       @ (CRLF @ CRLF @ L ''Win32/HRESULT: Access is denied.'' @ [0x0D])
       @ (CRLF @ CRLF @ L ''LDAP: LDAP_COMPARE_FALSE'')
       @ (CRLF @ CRLF @ L ''StopCode/BugCheck: INVALID_PROCESS_ATTACH_ATTEMPT'')"
  using input_0x05_sections [OF os_example_messages(5) os_example_messages(6) os_example_parse(1),
      of "Some (L ''abc'')"]
  by (simp add: os_example_messages os_example_parse section_text_def source_answer_def
      source_label_def StrTrim_example L_append [symmetric])

text \<open>
  C4.  After the tables are built, the program's lookup of key 0x09 in the LDAP
  table (\<^verbatim>\<open>count\<close>, then \<^verbatim>\<open>operator[]\<close>) finds the key and reads
  \<^verbatim>\<open>LDAP_PARTIAL_RESULTS\<close>, leaving the map as it was, and the message for the
  value 9 carries the section \<^verbatim>\<open>LDAP: LDAP_PARTIAL_RESULTS\<close>.  No key reads
  as \<^verbatim>\<open>LDAP_REFERRAL_V2\<close>, the text is not in the table at all, and in general
  a read after two assignments to one key gives the later value.
\<close>

theorem LDAP_0x09_last_definition_wins:
  "map_count (g_mLDAP (wWinMain input registry)) 0x09 = 1
   \<and> map_subscript (g_mLDAP (wWinMain input registry)) 0x09
       = (L ''LDAP_PARTIAL_RESULTS'', g_mLDAP (wWinMain input registry))
   \<and> fst (translate os 0x09 (wWinMain input registry)) =
       numeric_values 0x09
       @ section_text os (wWinMain input registry) 0x09 Win32_HRESULT
       @ section_text os (wWinMain input registry) 0x09 NTSTATUS
       @ (CRLF @ CRLF @ L ''LDAP: LDAP_PARTIAL_RESULTS'')
       @ (CRLF @ CRLF @ L ''StopCode/BugCheck: IRQL_NOT_GREATER_OR_EQUAL'')
   \<and> fst (map_subscript (g_mLDAP (wWinMain input registry)) k) \<noteq> L ''LDAP_REFERRAL_V2''
   \<and> g_mLDAP (wWinMain input registry) 0x09 = Some (L ''LDAP_PARTIAL_RESULTS'')
   \<and> L ''LDAP_REFERRAL_V2'' \<notin> ran (g_mLDAP (wWinMain input registry))
   \<and> fst (map_subscript (map_assign (map_assign m (k', v)) (k', v')) k') = v'"
proof -
  let ?s = "wWinMain input registry"
  have t: "g_mLDAP ?s = setLDAPCodes Map.empty" by (simp add: wWinMain_def)
  have 1: "map_count (g_mLDAP ?s) 0x09 = 1"
    by (simp add: t map_count_def LDAP_9)
  have 2: "map_subscript (g_mLDAP ?s) 0x09 = (L ''LDAP_PARTIAL_RESULTS'', g_mLDAP ?s)"
    by (simp add: t map_subscript_def LDAP_9)
  have s: "section_text os ?s 9 WU = []"
    "section_text os ?s 9 LDAP = CRLF @ CRLF @ L ''LDAP: LDAP_PARTIAL_RESULTS''"
    "section_text os ?s 9 StopCode_BugCheck
       = CRLF @ CRLF @ L ''StopCode/BugCheck: IRQL_NOT_GREATER_OR_EQUAL''"
    by (simp_all add: section_text_def source_answer_def source_label_def wWinMain_def
        WU_9 LDAP_9 BugCheck_9 L_append [symmetric])
  have 3: "fst (translate os 0x09 ?s) =
       numeric_values 0x09
       @ section_text os ?s 0x09 Win32_HRESULT
       @ section_text os ?s 0x09 NTSTATUS
       @ (CRLF @ CRLF @ L ''LDAP: LDAP_PARTIAL_RESULTS'')
       @ (CRLF @ CRLF @ L ''StopCode/BugCheck: IRQL_NOT_GREATER_OR_EQUAL'')"
    by (simp add: translate_eq spec_report_def s)
  have 4: "fst (map_subscript (g_mLDAP ?s) k) \<noteq> L ''LDAP_REFERRAL_V2''"
  proof (cases "g_mLDAP ?s k")
    case None
    then show ?thesis by (simp add: map_subscript_def L_def)
  next
    case (Some w)
    then have "w \<in> ran (setLDAPCodes Map.empty)" by (auto simp: t ran_def)
    with LDAP_REFERRAL_V2_not_in_table have "w \<noteq> L ''LDAP_REFERRAL_V2''" by auto
    with Some show ?thesis by (simp add: map_subscript_def)
  qed
  have 5: "g_mLDAP ?s 0x09 = Some (L ''LDAP_PARTIAL_RESULTS'')"
    by (simp add: t LDAP_9)
  have 6: "L ''LDAP_REFERRAL_V2'' \<notin> ran (g_mLDAP ?s)"
    by (simp add: t LDAP_REFERRAL_V2_not_in_table)
  have 7: "fst (map_subscript (map_assign (map_assign m (k', v)) (k', v')) k') = v'"
    by (simp add: map_subscript_def map_assign_apply)
  from 1 2 3 4 5 6 7 show ?thesis by (intro conjI)
qed

text \<open>
  C5.  The header shows the same 32-bit value three times: after \<^verbatim>\<open>DWORD\<close> the
  decimal numeral of its unsigned value, after \<^verbatim>\<open>int\<close> the numeral of its
  signed value, after \<^verbatim>\<open>Hex\<close> the characters \<^verbatim>\<open>0x\<close> and the eight-digit
  upper-case hexadecimal numeral of its unsigned value; each of these numerals
  is the only one there is.  For the input \<^verbatim>\<open>-1\<close>, in any state of the tables,
  the header is \<^verbatim>\<open>DWORD 4294967295\<close>, \<^verbatim>\<open>int -1\<close>, \<^verbatim>\<open>Hex 0xFFFFFFFF\<close>, the
  two message sources are asked for \<^verbatim>\<open>0xFFFFFFFF\<close>, and each table
  contributes its entry under the key \<^verbatim>\<open>0xFFFFFFFF\<close> when it has one.
\<close>

theorem numeric_header_renders_value:
  assumes "GetDlgItem_IDC_INPUT os" and "GetDlgItem_IDC_OUTPUT os"
    and "StrToIntEx os (L ''-1'') = Some (- 1)"
    and "IDC_INPUT s = L ''-1''"
  shows "numeric_values iValue =
           L ''DWORD '' @ TAB @ to_wstring_DWORD iValue @ CRLF
           @ L ''int '' @ TAB @ to_wstring_int iValue @ CRLF
           @ L ''Hex '' @ TAB @ L ''0x'' @ format_08X iValue
         \<and> decimal_numeral_of (unat iValue) (to_wstring_DWORD iValue)
         \<and> (\<forall>cs. decimal_numeral_of (unat iValue) cs \<longrightarrow> cs = to_wstring_DWORD iValue)
         \<and> signed_numeral_of (sint iValue) (to_wstring_int iValue)
         \<and> (\<forall>cs. signed_numeral_of (sint iValue) cs \<longrightarrow> cs = to_wstring_int iValue)
         \<and> hex8_numeral_of (unat iValue) (format_08X iValue)
         \<and> (\<forall>cs. hex8_numeral_of (unat iValue) cs \<longrightarrow> cs = format_08X iValue)
         \<and> numeral_value 10 (to_wstring_DWORD iValue) = unat iValue
         \<and> signed_value (to_wstring_int iValue) = sint iValue
         \<and> length (format_08X iValue) = 8
         \<and> set (format_08X iValue) \<subseteq> set (L ''0123456789ABCDEF'')
         \<and> numeral_value 16 (format_08X iValue) = unat iValue
         \<and> unat (- 1 :: int32) = 4294967295 \<and> sint (0xFFFFFFFF :: int32) = - 1
         \<and> IDC_OUTPUT (WM_COMMAND_IDOK os s) =
             L ''DWORD '' @ TAB @ L ''4294967295'' @ CRLF
             @ L ''int '' @ TAB @ L ''-1'' @ CRLF
             @ L ''Hex '' @ TAB @ L ''0xFFFFFFFF''
             @ section_text os s 0xFFFFFFFF Win32_HRESULT
             @ section_text os s 0xFFFFFFFF NTSTATUS
             @ (case g_mWU s 0xFFFFFFFF of None \<Rightarrow> []
                | Some text \<Rightarrow> CRLF @ CRLF @ L ''WU: '' @ text)
             @ (case g_mLDAP s 0xFFFFFFFF of None \<Rightarrow> []
                | Some text \<Rightarrow> CRLF @ CRLF @ L ''LDAP: '' @ text)
             @ (case g_mBugCheck s 0xFFFFFFFF of None \<Rightarrow> []
                | Some text \<Rightarrow> CRLF @ CRLF @ L ''StopCode/BugCheck: '' @ text)"
proof -
  have g1: "decimal_numeral_of (unat iValue) (to_wstring_DWORD iValue)"
    by (simp add: to_wstring_DWORD_def decimal_numeral_of_decimal_digits)
  have g2: "\<forall>cs. decimal_numeral_of (unat iValue) cs \<longrightarrow> cs = to_wstring_DWORD iValue"
    using g1 by (blast intro: decimal_numeral_of_unique)
  have g3: "signed_numeral_of (sint iValue) (to_wstring_int iValue)"
    by (rule signed_numeral_of_to_wstring_int)
  have g4: "\<forall>cs. signed_numeral_of (sint iValue) cs \<longrightarrow> cs = to_wstring_int iValue"
    using g3 by (blast intro: signed_numeral_of_unique)
  have g5: "hex8_numeral_of (unat iValue) (format_08X iValue)"
    by (rule hex8_numeral_of_format_08X)
  have g6: "\<forall>cs. hex8_numeral_of (unat iValue) cs \<longrightarrow> cs = format_08X iValue"
    using g5 by (blast intro: hex8_numeral_of_unique)
  have b: "unat (- 1 :: int32) = 4294967295" "sint (0xFFFFFFFF :: int32) = - 1"
    by (simp_all add: minus_1_bits)
  have "length (IDC_INPUT s) \<le> 30" by (simp add: assms(4))
  moreover have "StrToIntEx os (IDC_INPUT s) = Some (- 1)" by (simp only: assms(3,4))
  ultimately have "IDC_OUTPUT (WM_COMMAND_IDOK os s) = spec_report os s (- 1)"
    using assms(1,2) by (intro IDOK_input_text)
  also have "\<dots> = numeric_values (- 1)
      @ concat (map (section_text os s (- 1)) [Win32_HRESULT, NTSTATUS, WU, LDAP, StopCode_BugCheck])"
    by (simp only: spec_report_def)
  also have "section_text os s (- 1) = section_text os s 0xFFFFFFFF"
    by (simp only: minus_1_bits)
  finally have "IDC_OUTPUT (WM_COMMAND_IDOK os s) =
      numeric_values (- 1)
      @ concat (map (section_text os s 0xFFFFFFFF) [Win32_HRESULT, NTSTATUS, WU, LDAP, StopCode_BugCheck])" .
  then have "IDC_OUTPUT (WM_COMMAND_IDOK os s) =
      L ''DWORD '' @ TAB @ L ''4294967295'' @ CRLF
      @ L ''int '' @ TAB @ L ''-1'' @ CRLF
      @ L ''Hex '' @ TAB @ L ''0xFFFFFFFF''
      @ concat (map (section_text os s 0xFFFFFFFF) [Win32_HRESULT, NTSTATUS, WU, LDAP, StopCode_BugCheck])"
    by (simp only: numeric_values_m1 append_assoc)
  moreover have "section_text os s 0xFFFFFFFF WU =
      (case g_mWU s 0xFFFFFFFF of None \<Rightarrow> [] | Some text \<Rightarrow> CRLF @ CRLF @ L ''WU: '' @ text)"
    "section_text os s 0xFFFFFFFF LDAP =
      (case g_mLDAP s 0xFFFFFFFF of None \<Rightarrow> [] | Some text \<Rightarrow> CRLF @ CRLF @ L ''LDAP: '' @ text)"
    "section_text os s 0xFFFFFFFF StopCode_BugCheck =
      (case g_mBugCheck s 0xFFFFFFFF of None \<Rightarrow> []
       | Some text \<Rightarrow> CRLF @ CRLF @ L ''StopCode/BugCheck: '' @ text)"
    by (simp_all add: section_text_def source_answer_def source_label_def labels
        split: option.splits)
  ultimately have o: "IDC_OUTPUT (WM_COMMAND_IDOK os s) =
             L ''DWORD '' @ TAB @ L ''4294967295'' @ CRLF
             @ L ''int '' @ TAB @ L ''-1'' @ CRLF
             @ L ''Hex '' @ TAB @ L ''0xFFFFFFFF''
             @ section_text os s 0xFFFFFFFF Win32_HRESULT
             @ section_text os s 0xFFFFFFFF NTSTATUS
             @ (case g_mWU s 0xFFFFFFFF of None \<Rightarrow> []
                | Some text \<Rightarrow> CRLF @ CRLF @ L ''WU: '' @ text)
             @ (case g_mLDAP s 0xFFFFFFFF of None \<Rightarrow> []
                | Some text \<Rightarrow> CRLF @ CRLF @ L ''LDAP: '' @ text)
             @ (case g_mBugCheck s 0xFFFFFFFF of None \<Rightarrow> []
                | Some text \<Rightarrow> CRLF @ CRLF @ L ''StopCode/BugCheck: '' @ text)"
    by simp
  show ?thesis
    by (intro conjI numeric_values_eq g1 g2 g3 g4 g5 g6 numeral_value_to_wstring_DWORD
        signed_value_to_wstring_int length_format_08X format_08X_chars numeral_value_format_08X
        b o)
qed

text \<open>
  The input \<^verbatim>\<open>-1\<close> in the example environment, first with the tables as built,
  where no source answers, then with an LDAP table that has an entry under the
  key written \<^verbatim>\<open>0xFFFFFFFF\<close>, which is found.
\<close>

theorem numeric_header_renders_value_witness:
  "GetDlgItem_IDC_INPUT os_example \<and> GetDlgItem_IDC_OUTPUT os_example
   \<and> StrToIntEx os_example (L ''-1'') = Some (- 1)
   \<and> IDC_INPUT (wWinMain (L ''-1'') None) = L ''-1''
   \<and> IDC_OUTPUT (WM_COMMAND_IDOK os_example (wWinMain (L ''-1'') None)) =
       L ''DWORD '' @ TAB @ L ''4294967295'' @ CRLF
       @ L ''int '' @ TAB @ L ''-1'' @ CRLF
       @ L ''Hex '' @ TAB @ L ''0xFFFFFFFF''
   \<and> IDC_INPUT (wWinMain (L ''-1'') None
         \<lparr>g_mLDAP := map_assign Map.empty (0xFFFFFFFF, L ''ALL_ONES'')\<rparr>) = L ''-1''
   \<and> IDC_OUTPUT (WM_COMMAND_IDOK os_example (wWinMain (L ''-1'') None
         \<lparr>g_mLDAP := map_assign Map.empty (0xFFFFFFFF, L ''ALL_ONES'')\<rparr>)) =
       L ''DWORD '' @ TAB @ L ''4294967295'' @ CRLF
       @ L ''int '' @ TAB @ L ''-1'' @ CRLF
       @ L ''Hex '' @ TAB @ L ''0xFFFFFFFF''
       @ CRLF @ CRLF @ L ''LDAP: '' @ L ''ALL_ONES''"
proof -
  let ?s0 = "wWinMain (L ''-1'') None"
  let ?s1 = "wWinMain (L ''-1'') None\<lparr>g_mLDAP := map_assign Map.empty (0xFFFFFFFF, L ''ALL_ONES'')\<rparr>"
  note h = os_example_messages(5) os_example_messages(6) os_example_parse(2)
  have i0: "IDC_INPUT ?s0 = L ''-1''" and i1: "IDC_INPUT ?s1 = L ''-1''"
    by (simp_all add: wWinMain_def)
  have m: "section_text os_example ?s0 0xFFFFFFFF Win32_HRESULT = []"
    "section_text os_example ?s0 0xFFFFFFFF NTSTATUS = []"
    "section_text os_example ?s1 0xFFFFFFFF Win32_HRESULT = []"
    "section_text os_example ?s1 0xFFFFFFFF NTSTATUS = []"
    by (simp_all add: section_text_def source_answer_def os_example_def)
  have t0: "g_mWU ?s0 0xFFFFFFFF = None" "g_mLDAP ?s0 0xFFFFFFFF = None"
    "g_mBugCheck ?s0 0xFFFFFFFF = None"
    by (simp_all add: wWinMain_def tables_FFFFFFFF)
  from numeric_header_renders_value [OF h i0, of 0]
  have o0: "IDC_OUTPUT (WM_COMMAND_IDOK os_example ?s0) =
       L ''DWORD '' @ TAB @ L ''4294967295'' @ CRLF
       @ L ''int '' @ TAB @ L ''-1'' @ CRLF
       @ L ''Hex '' @ TAB @ L ''0xFFFFFFFF''"
    by (simp add: m t0)
  from numeric_header_renders_value [OF h i1, of 0]
  have o1: "IDC_OUTPUT (WM_COMMAND_IDOK os_example ?s1) =
       L ''DWORD '' @ TAB @ L ''4294967295'' @ CRLF
       @ L ''int '' @ TAB @ L ''-1'' @ CRLF
       @ L ''Hex '' @ TAB @ L ''0xFFFFFFFF''
       @ CRLF @ CRLF @ L ''LDAP: '' @ L ''ALL_ONES''"
    by (simp add: m t0 map_assign_apply)
  show ?thesis by (intro conjI h i0 i1 o0 o1)
qed

text \<open>
  C6.  When the conversion rejects the input, the dialog procedure leaves the
  whole state as it was: no message is built and nothing is shown.  Rejection
  is the only way to get no report: with both controls present, every accepted
  input sets the output to the translated message, which is never empty.
\<close>

theorem rejected_input_produces_no_report:
  "(StrToIntEx os (GetWindowText (IDC_INPUT s) (MAXVALUELENTH + 1)) = None
      \<longrightarrow> WM_COMMAND_IDOK os s = s)
   \<and> (GetDlgItem_IDC_INPUT os \<and> GetDlgItem_IDC_OUTPUT os
        \<and> StrToIntEx os (GetWindowText (IDC_INPUT s) (MAXVALUELENTH + 1)) = Some iValue
      \<longrightarrow> IDC_OUTPUT (WM_COMMAND_IDOK os s) = fst (translate os iValue s)
          \<and> IDC_OUTPUT (WM_COMMAND_IDOK os s) \<noteq> [])"
  by (simp add: IDOK_reject IDOK_accept translate_eq spec_report_not_Nil)

text \<open>The text \<^verbatim>\<open>abc\<close> is rejected and the state stays; \<^verbatim>\<open>0x05\<close> is accepted and a report appears.\<close>

theorem rejected_input_produces_no_report_witness:
  "StrToIntEx os_example
     (GetWindowText (IDC_INPUT (wWinMain (L ''abc'') None)) (MAXVALUELENTH + 1)) = None
   \<and> WM_COMMAND_IDOK os_example (wWinMain (L ''abc'') None) = wWinMain (L ''abc'') None
   \<and> GetDlgItem_IDC_INPUT os_example \<and> GetDlgItem_IDC_OUTPUT os_example
   \<and> StrToIntEx os_example
       (GetWindowText (IDC_INPUT (wWinMain (L ''0x05'') None)) (MAXVALUELENTH + 1)) = Some 5
   \<and> IDC_OUTPUT (WM_COMMAND_IDOK os_example (wWinMain (L ''0x05'') None)) \<noteq> []"
proof -
  have a: "StrToIntEx os_example
     (GetWindowText (IDC_INPUT (wWinMain (L ''abc'') None)) (MAXVALUELENTH + 1)) = None"
  proof -
    have "GetWindowText (IDC_INPUT (wWinMain (L ''abc'') None)) (MAXVALUELENTH + 1) = L ''abc''"
      by (rule szValue_wWinMain) simp
    then show ?thesis by (simp only: os_example_parse)
  qed
  have b: "StrToIntEx os_example
       (GetWindowText (IDC_INPUT (wWinMain (L ''0x05'') None)) (MAXVALUELENTH + 1)) = Some 5"
  proof -
    have "GetWindowText (IDC_INPUT (wWinMain (L ''0x05'') None)) (MAXVALUELENTH + 1) = L ''0x05''"
      by (rule szValue_wWinMain) simp
    then show ?thesis by (simp only: os_example_parse)
  qed
  from rejected_input_produces_no_report [of os_example "wWinMain (L ''abc'') None" 0] a
  have c: "WM_COMMAND_IDOK os_example (wWinMain (L ''abc'') None) = wWinMain (L ''abc'') None"
    by blast
  from rejected_input_produces_no_report [of os_example "wWinMain (L ''0x05'') None" 5] b
    os_example_messages(5) os_example_messages(6)
  have d: "IDC_OUTPUT (WM_COMMAND_IDOK os_example (wWinMain (L ''0x05'') None)) \<noteq> []"
    by blast
  show ?thesis
    by (intro conjI a b c d os_example_messages(5) os_example_messages(6))
qed

text \<open>
  C7.  The program trims the system message with the trim set \<^verbatim>\<open>L"\n"\<close>.  A
  message that ends in \<^verbatim>\<open>\r\n\<close>, here the one for the value 5, keeps its
  carriage return in the \<^verbatim>\<open>Win32/HRESULT\<close> section; the trim set \<^verbatim>\<open>L"\r\n"\<close>
  of the NTSTATUS path removes both characters.  From a message that ends in
  two line breaks only the last line feed is removed, and a leading line feed
  is cut off as well.
\<close>

theorem Win32_HRESULT_section_keeps_carriage_return:
  "FormatMessage_FROM_SYSTEM os_example 5 = L ''Access is denied.'' @ CRLF
   \<and> fst (translate os_example 5 (wWinMain (L ''0x05'') None)) =
       L ''DWORD '' @ TAB @ L ''5'' @ CRLF @ L ''int '' @ TAB @ L ''5'' @ CRLF
       @ L ''Hex '' @ TAB @ L ''0x00000005''
       @ CRLF @ CRLF @ L ''Win32/HRESULT: Access is denied.'' @ [0x0D]
       @ CRLF @ CRLF @ L ''LDAP: LDAP_COMPARE_FALSE''
       @ CRLF @ CRLF @ L ''StopCode/BugCheck: INVALID_PROCESS_ATTACH_ATTEMPT''
   \<and> StrTrim (L ''Access is denied.'' @ CRLF) LF = L ''Access is denied.'' @ [0x0D]
   \<and> StrTrim (L ''Access is denied.'' @ CRLF) CRLF = L ''Access is denied.''
   \<and> StrTrim (L ''x'' @ CRLF @ CRLF) LF = L ''x'' @ CRLF @ [0x0D]
   \<and> StrTrim (LF @ L ''x'') LF = L ''x''"
proof -
  have 1: "fst (translate os_example 5 (wWinMain (L ''0x05'') None)) =
       L ''DWORD '' @ TAB @ L ''5'' @ CRLF @ L ''int '' @ TAB @ L ''5'' @ CRLF
       @ L ''Hex '' @ TAB @ L ''0x00000005''
       @ CRLF @ CRLF @ L ''Win32/HRESULT: Access is denied.'' @ [0x0D]
       @ CRLF @ CRLF @ L ''LDAP: LDAP_COMPARE_FALSE''
       @ CRLF @ CRLF @ L ''StopCode/BugCheck: INVALID_PROCESS_ATTACH_ATTEMPT''"
    by (simp only: translate_eq fst_conv report_5)
  have 2: "StrTrim (L ''Access is denied.'' @ CRLF) CRLF = L ''Access is denied.''"
    "StrTrim (L ''x'' @ CRLF @ CRLF) LF = L ''x'' @ CRLF @ [0x0D]"
    "StrTrim (LF @ L ''x'') LF = L ''x''"
    by (simp_all add: StrTrim_def L_def CRLF_def LF_def)
  show ?thesis
    by (intro conjI os_example_messages(1) 1 StrTrim_example 2)
qed

text \<open>
  C8.  With the environment fixed, two runs on the same input text and the same
  tables either are both rejected, each leaving its state untouched, or set
  the same output text, whatever the output and the registry held before.  A
  second run right after the first changes nothing any more.
\<close>

theorem resolution_deterministic:
  assumes "GetDlgItem_IDC_INPUT os" and "GetDlgItem_IDC_OUTPUT os"
    and "IDC_INPUT t = IDC_INPUT s"
    and "g_mWU t = g_mWU s" and "g_mLDAP t = g_mLDAP s" and "g_mBugCheck t = g_mBugCheck s"
  shows "((StrToIntEx os (GetWindowText (IDC_INPUT s) (MAXVALUELENTH + 1)) = None
            \<and> WM_COMMAND_IDOK os s = s \<and> WM_COMMAND_IDOK os t = t)
          \<or> (\<exists>iValue. StrToIntEx os (GetWindowText (IDC_INPUT s) (MAXVALUELENTH + 1)) = Some iValue
                \<and> IDC_OUTPUT (WM_COMMAND_IDOK os s) = IDC_OUTPUT (WM_COMMAND_IDOK os t)))
         \<and> WM_COMMAND_IDOK os (WM_COMMAND_IDOK os s) = WM_COMMAND_IDOK os s"
proof -
  let ?sz = "GetWindowText (IDC_INPUT s) (MAXVALUELENTH + 1)"
  show ?thesis
  proof (cases "StrToIntEx os ?sz")
    case None
    then have "WM_COMMAND_IDOK os s = s" by (rule IDOK_reject)
    moreover from None assms(3) have "WM_COMMAND_IDOK os t = t" by (simp add: IDOK_reject)
    ultimately show ?thesis using None by simp
  next
    case (Some v)
    from Some assms(3)
    have t: "StrToIntEx os (GetWindowText (IDC_INPUT t) (MAXVALUELENTH + 1)) = Some v" by simp
    have "spec_report os t v = spec_report os s v"
      using assms(4-6) by (rule spec_report_tables)
    then have 1: "IDC_OUTPUT (WM_COMMAND_IDOK os s) = IDC_OUTPUT (WM_COMMAND_IDOK os t)"
      by (simp add: IDOK_accept [OF assms(1) Some] IDOK_accept [OF assms(1) t] assms(2))
    have s': "StrToIntEx os (GetWindowText (IDC_INPUT (WM_COMMAND_IDOK os s)) (MAXVALUELENTH + 1)) = Some v"
      using Some by (simp only: IDOK_input)
    have "spec_report os (WM_COMMAND_IDOK os s) v = spec_report os s v"
      by (rule spec_report_tables) (simp_all add: IDOK_tables)
    then have 2: "WM_COMMAND_IDOK os (WM_COMMAND_IDOK os s) = WM_COMMAND_IDOK os s"
      by (simp add: IDOK_accept [OF assms(1) s'] assms(2) IDOK_input)
        (simp add: IDOK_accept [OF assms(1) Some] assms(2))
    from Some 1 2 show ?thesis by simp
  qed
qed

text \<open>Two states that differ in the old output text and in the registry value.\<close>

theorem resolution_deterministic_witness:
  "GetDlgItem_IDC_INPUT os_example \<and> GetDlgItem_IDC_OUTPUT os_example
   \<and> IDC_INPUT (wWinMain (L ''0x05'') (Some (L ''-1''))\<lparr>IDC_OUTPUT := L ''DWORD''\<rparr>)
       = IDC_INPUT (wWinMain (L ''0x05'') None)
   \<and> g_mWU (wWinMain (L ''0x05'') (Some (L ''-1''))\<lparr>IDC_OUTPUT := L ''DWORD''\<rparr>)
       = g_mWU (wWinMain (L ''0x05'') None)
   \<and> g_mLDAP (wWinMain (L ''0x05'') (Some (L ''-1''))\<lparr>IDC_OUTPUT := L ''DWORD''\<rparr>)
       = g_mLDAP (wWinMain (L ''0x05'') None)
   \<and> g_mBugCheck (wWinMain (L ''0x05'') (Some (L ''-1''))\<lparr>IDC_OUTPUT := L ''DWORD''\<rparr>)
       = g_mBugCheck (wWinMain (L ''0x05'') None)
   \<and> IDC_OUTPUT (WM_COMMAND_IDOK os_example (wWinMain (L ''0x05'') None))
       = IDC_OUTPUT (WM_COMMAND_IDOK os_example
           (wWinMain (L ''0x05'') (Some (L ''-1''))\<lparr>IDC_OUTPUT := L ''DWORD''\<rparr>))
   \<and> WM_COMMAND_IDOK os_example (WM_COMMAND_IDOK os_example (wWinMain (L ''0x05'') None))
       = WM_COMMAND_IDOK os_example (wWinMain (L ''0x05'') None)"
proof -
  let ?s = "wWinMain (L ''0x05'') None"
  let ?t = "wWinMain (L ''0x05'') (Some (L ''-1''))\<lparr>IDC_OUTPUT := L ''DWORD''\<rparr>"
  have h: "IDC_INPUT ?t = IDC_INPUT ?s" "g_mWU ?t = g_mWU ?s" "g_mLDAP ?t = g_mLDAP ?s"
    "g_mBugCheck ?t = g_mBugCheck ?s"
    by (simp_all add: wWinMain_def)
  have p: "StrToIntEx os_example (GetWindowText (IDC_INPUT ?s) (MAXVALUELENTH + 1)) = Some 5"
  proof -
    have "GetWindowText (IDC_INPUT ?s) (MAXVALUELENTH + 1) = L ''0x05''"
      by (rule szValue_wWinMain) simp
    then show ?thesis by (simp only: os_example_parse)
  qed
  from resolution_deterministic [OF os_example_messages(5) os_example_messages(6) h] p
  have c: "IDC_OUTPUT (WM_COMMAND_IDOK os_example ?s) = IDC_OUTPUT (WM_COMMAND_IDOK os_example ?t)"
    "WM_COMMAND_IDOK os_example (WM_COMMAND_IDOK os_example ?s) = WM_COMMAND_IDOK os_example ?s"
    by simp_all
  show ?thesis
    by (intro conjI os_example_messages(5) os_example_messages(6) h c)
qed

text \<open>
  C9.  Translating a value returns the state it was given; one run of the dialog
  procedure, and any session started after the tables were built, leaves the
  three maps equal to what \<^verbatim>\<open>setWUCodes\<close>, \<^verbatim>\<open>setLDAPCodes\<close> and
  \<^verbatim>\<open>setBugCheckCodes\<close> built.  A subscript read leaves the map alone exactly
  when \<^verbatim>\<open>count\<close> is positive, which is the guard the program uses.
\<close>

theorem tables_never_mutated:
  "snd (translate os iValue s) = s
   \<and> g_mWU (WM_COMMAND_IDOK os s) = g_mWU s
   \<and> g_mLDAP (WM_COMMAND_IDOK os s) = g_mLDAP s
   \<and> g_mBugCheck (WM_COMMAND_IDOK os s) = g_mBugCheck s
   \<and> g_mWU (session os (wWinMain input registry) inputs) = setWUCodes Map.empty
   \<and> g_mLDAP (session os (wWinMain input registry) inputs) = setLDAPCodes Map.empty
   \<and> g_mBugCheck (session os (wWinMain input registry) inputs) = setBugCheckCodes Map.empty
   \<and> snd (map_subscript m k) = (if map_count m k > 0 then m else m(k \<mapsto> []))"
proof -
  have "snd (map_subscript m k) = (if map_count m k > 0 then m else m(k \<mapsto> []))"
    by (simp add: map_subscript_def map_count_def split: option.splits)
  then show ?thesis
    by (simp add: translate_eq IDOK_tables session_tables wWinMain_def)
qed

text \<open>
  C10.  When the conversion rejects the input, the output text and the registry
  value \<^verbatim>\<open>LastInput\<close> after the run are those before it.
\<close>

theorem rejected_input_keeps_output_and_LastInput:
  assumes "StrToIntEx os (GetWindowText (IDC_INPUT s) (MAXVALUELENTH + 1)) = None"
  shows "IDC_OUTPUT (WM_COMMAND_IDOK os s) = IDC_OUTPUT s
         \<and> LastInput (WM_COMMAND_IDOK os s) = LastInput s"
  using assms by (simp add: WM_COMMAND_IDOK_def)

text \<open>The text \<^verbatim>\<open>abc\<close> is rejected: the old output and the stored \<^verbatim>\<open>0x05\<close> stay.\<close>

theorem rejected_input_keeps_output_and_LastInput_witness:
  "StrToIntEx os_example
     (GetWindowText
        (IDC_INPUT (wWinMain (L ''abc'') (Some (L ''0x05''))\<lparr>IDC_OUTPUT := L ''DWORD''\<rparr>))
        (MAXVALUELENTH + 1)) = None
   \<and> IDC_OUTPUT (WM_COMMAND_IDOK os_example
         (wWinMain (L ''abc'') (Some (L ''0x05''))\<lparr>IDC_OUTPUT := L ''DWORD''\<rparr>)) = L ''DWORD''
   \<and> LastInput (WM_COMMAND_IDOK os_example
         (wWinMain (L ''abc'') (Some (L ''0x05''))\<lparr>IDC_OUTPUT := L ''DWORD''\<rparr>)) = Some (L ''0x05'')"
proof -
  let ?s = "wWinMain (L ''abc'') (Some (L ''0x05''))\<lparr>IDC_OUTPUT := L ''DWORD''\<rparr>"
  have p: "StrToIntEx os_example (GetWindowText (IDC_INPUT ?s) (MAXVALUELENTH + 1)) = None"
  proof -
    have "IDC_INPUT ?s = L ''abc''" by (simp add: wWinMain_def)
    moreover have "GetWindowText (L ''abc'') (MAXVALUELENTH + 1) = L ''abc''"
      by (rule GetWindowText_short) simp
    ultimately show ?thesis by (simp only: os_example_parse)
  qed
  from rejected_input_keeps_output_and_LastInput [OF p]
  have c: "IDC_OUTPUT (WM_COMMAND_IDOK os_example ?s) = L ''DWORD''"
    "LastInput (WM_COMMAND_IDOK os_example ?s) = Some (L ''0x05'')"
    by (simp_all add: wWinMain_def)
  show ?thesis by (intro conjI p c)
qed

end
